theory Spec2Isabelle
  imports Main "HOL-Library.Monad_Syntax"
begin

section \<open>Runes and strings\<close>

text \<open>
  A Go \<^verbatim>\<open>rune\<close> is a Unicode code point; a Go \<^verbatim>\<open>string\<close> is a sequence of bytes, which is
  what an Isabelle \<^typ>\<open>string\<close> is. \<^verbatim>\<open>len(s)\<close> counts bytes, while \<^verbatim>\<open>for _, c := range s\<close>
  and \<^verbatim>\<open>[]rune(s)\<close> decode UTF-8: an invalid sequence yields U+FFFD and consumes one byte.
  For the ASCII literals of the program both views agree.
\<close>

type_synonym rune = int

definition rune :: "char \<Rightarrow> rune" where
  "rune c = of_char c"

definition ReplacementChar :: rune where
  "ReplacementChar = 65533"

definition cont :: "int \<Rightarrow> bool" where
  "cont b = (128 \<le> b \<and> b \<le> 191)"

text \<open>
  The multi-byte forms of UTF-8, for a lead byte \<open>b0 \<ge> 128\<close> and the bytes after it: the
  rune and the number of continuation bytes, or \<open>None\<close> when the sequence is not valid
  (a stray continuation byte, an overlong form, a surrogate, a value above U+10FFFF, or a
  sequence cut short).
\<close>

definition decodeMulti :: "int \<Rightarrow> int list \<Rightarrow> (rune \<times> nat) option" where
  "decodeMulti b0 bs =
     (if 194 \<le> b0 \<and> b0 \<le> 223 then
        (case bs of
           b1 # _ \<Rightarrow> if cont b1 then Some ((b0 - 192) * 64 + (b1 - 128), 1) else None
         | _ \<Rightarrow> None)
      else if 224 \<le> b0 \<and> b0 \<le> 239 then
        (case bs of
           b1 # b2 # _ \<Rightarrow>
             if (if b0 = 224 then 160 else 128) \<le> b1 \<and> b1 \<le> (if b0 = 237 then 159 else 191) \<and> cont b2
             then Some ((b0 - 224) * 4096 + (b1 - 128) * 64 + (b2 - 128), 2) else None
         | _ \<Rightarrow> None)
      else if 240 \<le> b0 \<and> b0 \<le> 244 then
        (case bs of
           b1 # b2 # b3 # _ \<Rightarrow>
             if (if b0 = 240 then 144 else 128) \<le> b1 \<and> b1 \<le> (if b0 = 244 then 143 else 191) \<and>
                cont b2 \<and> cont b3
             then Some ((b0 - 240) * 262144 + (b1 - 128) * 4096 + (b2 - 128) * 64 + (b3 - 128), 3)
             else None
         | _ \<Rightarrow> None)
      else None)"

fun runes :: "string \<Rightarrow> rune list" where
  "runes [] = []"
| "runes (c # cs) =
     (if (of_char c :: int) < 128 then of_char c # runes cs
      else (case decodeMulti (of_char c) (map of_char cs) of
              None \<Rightarrow> ReplacementChar # runes cs
            | Some (r, k) \<Rightarrow> r # runes (drop k cs)))"

section \<open>The encoder\<close>

text \<open>
  The fields of \<^verbatim>\<open>Encoder\<close>. The field \<^verbatim>\<open>in\<close> is \<open>inp\<close> here (\<open>in\<close> is a keyword). The
  capacity of the two output slices is not observable in any result and is not modelled.
\<close>

record Encoder =
  EncodeVowels :: bool
  EncodeExact :: bool
  MaxLength :: int
  inp :: "rune list"
  idx :: int
  lastIdx :: int
  primBuf :: "rune list"
  secondBuf :: "rune list"
  flagAlInversion :: bool

definition DefaultMaxLength :: int where
  "DefaultMaxLength = 8"

text \<open>\<^verbatim>\<open>xs[i]\<close>: an index out of range panics (\<open>None\<close>).\<close>

definition rd :: "rune list \<Rightarrow> int \<Rightarrow> rune option" where
  "rd xs i = (if 0 \<le> i \<and> i < int (length xs) then Some (xs ! nat i) else None)"

text \<open>\<^verbatim>\<open>xs[i:]\<close>: a lower bound outside \<open>0..len(xs)\<close> panics.\<close>

definition sliceFrom :: "rune list \<Rightarrow> int \<Rightarrow> rune list option" where
  "sliceFrom xs i = (if 0 \<le> i \<and> i \<le> int (length xs) then Some (drop (nat i) xs) else None)"

text \<open>Short-circuit connectives over conditions that may panic.\<close>

definition andalso :: "bool option \<Rightarrow> bool option \<Rightarrow> bool option" where
  "andalso a b = (case a of None \<Rightarrow> None | Some x \<Rightarrow> if x then b else Some False)"

definition orelse :: "bool option \<Rightarrow> bool option \<Rightarrow> bool option" where
  "orelse a b = (case a of None \<Rightarrow> None | Some x \<Rightarrow> if x then Some True else b)"

definition nott :: "bool option \<Rightarrow> bool option" where
  "nott a = map_option Not a"

subsection \<open>Identifying patterns\<close>

definition isVowel :: "rune \<Rightarrow> bool" where
  "isVowel inChar =
     (inChar = rune CHR ''A'' \<or> inChar = rune CHR ''E'' \<or> inChar = rune CHR ''I'' \<or>
      inChar = rune CHR ''O'' \<or> inChar = rune CHR ''U'' \<or> inChar = rune CHR ''Y'' \<or>
      inChar = 0xC0 \<or> inChar = 0xC1 \<or> inChar = 0xC2 \<or> inChar = 0xC3 \<or> inChar = 0xC4 \<or>
      inChar = 0xC5 \<or> inChar = 0xC6 \<or>
      inChar = 0xC8 \<or> inChar = 0xC9 \<or> inChar = 0xCA \<or> inChar = 0xCB \<or>
      inChar = 0xCC \<or> inChar = 0xCD \<or> inChar = 0xCE \<or> inChar = 0xCF \<or>
      inChar = 0xD2 \<or> inChar = 0xD3 \<or> inChar = 0xD4 \<or> inChar = 0xD5 \<or> inChar = 0xD6 \<or>
      inChar = 0xD8 \<or>
      inChar = 0xD9 \<or> inChar = 0xDA \<or> inChar = 0xDB \<or> inChar = 0xDC \<or> inChar = 0xDD \<or>
      inChar = 0xC29F \<or> inChar = 0xC28C)"

definition isVowelAt :: "Encoder \<Rightarrow> int \<Rightarrow> bool" where
  "isVowelAt e offset =
     (let at = idx e + offset in
      if at < 0 \<or> at \<ge> int (length (inp e)) then False else isVowel (inp e ! nat at))"

definition charAt :: "Encoder \<Rightarrow> int \<Rightarrow> rune \<Rightarrow> bool option" where
  "charAt e offset c =
     (let i = idx e + offset in
      if i \<ge> int (length (inp e)) then Some False
      else map_option (\<lambda>r. r = c) (rd (inp e) i))"

definition charNextIs :: "Encoder \<Rightarrow> rune \<Rightarrow> bool option" where
  "charNextIs e c = charAt e 1 c"

text \<open>
  The inner loop of the matchers: every rune of the candidate equals the input rune at
  \<open>start + i\<close>. The versions with suffix \<open>_chk\<close> check every read of the input, and the
  six methods \<^verbatim>\<open>stringAt\<close>, \<^verbatim>\<open>stringAtStart\<close>, \<^verbatim>\<open>stringAtEnd\<close>, \<^verbatim>\<open>stringEnd\<close>,
  \<^verbatim>\<open>stringExact\<close> and \<^verbatim>\<open>stringContains\<close> return there, with their answer, the encoder
  as the call leaves it (the receiver is a pointer). The plain ones are what the rules
  below call.
\<close>

fun lettersAt :: "rune list \<Rightarrow> int \<Rightarrow> rune list \<Rightarrow> bool" where
  "lettersAt xs i [] = True"
| "lettersAt xs i (c # cs) = (if c \<noteq> xs ! nat i then False else lettersAt xs (i + 1) cs)"

fun lettersAt_chk :: "rune list \<Rightarrow> int \<Rightarrow> rune list \<Rightarrow> bool option" where
  "lettersAt_chk xs i [] = Some True"
| "lettersAt_chk xs i (c # cs) =
     (case rd xs i of
        None \<Rightarrow> None
      | Some r \<Rightarrow> if c \<noteq> r then Some False else lettersAt_chk xs (i + 1) cs)"

fun stringAtVals :: "rune list \<Rightarrow> int \<Rightarrow> string list \<Rightarrow> bool" where
  "stringAtVals xs start [] = False"
| "stringAtVals xs start (v # vs) =
     (if start + int (length v) > int (length xs) then False
      else if lettersAt xs start (runes v) then True
      else stringAtVals xs start vs)"

fun stringAtVals_chk :: "rune list \<Rightarrow> int \<Rightarrow> string list \<Rightarrow> bool option" where
  "stringAtVals_chk xs start [] = Some False"
| "stringAtVals_chk xs start (v # vs) =
     (if start + int (length v) > int (length xs) then Some False
      else (case lettersAt_chk xs start (runes v) of
              None \<Rightarrow> None
            | Some m \<Rightarrow> if m then Some True else stringAtVals_chk xs start vs))"

definition stringAt :: "Encoder \<Rightarrow> int \<Rightarrow> string list \<Rightarrow> bool" where
  "stringAt e offset vals =
     (let start = idx e + offset in
      if start < 0 \<or> start \<ge> int (length (inp e)) \<or>
         start + int (length (hd vals)) > int (length (inp e))
      then False
      else stringAtVals (inp e) start vals)"

definition stringAt_chk :: "Encoder \<Rightarrow> int \<Rightarrow> string list \<Rightarrow> (bool \<times> Encoder) option" where
  "stringAt_chk e offset vals =
     (let start = idx e + offset in
      case vals of
        [] \<Rightarrow> None
      | v0 # _ \<Rightarrow>
          if start < 0 \<or> start \<ge> int (length (inp e)) \<or>
             start + int (length v0) > int (length (inp e))
          then Some (False, e)
          else map_option (\<lambda>m. (m, e)) (stringAtVals_chk (inp e) start vals))"

definition stringAtStart :: "Encoder \<Rightarrow> int \<Rightarrow> string list \<Rightarrow> bool" where
  "stringAtStart e offset vals = (if offset \<noteq> - idx e then False else stringAt e offset vals)"

definition stringAtStart_chk :: "Encoder \<Rightarrow> int \<Rightarrow> string list \<Rightarrow> (bool \<times> Encoder) option" where
  "stringAtStart_chk e offset vals =
     (if offset \<noteq> - idx e then Some (False, e) else stringAt_chk e offset vals)"

definition stringStart :: "Encoder \<Rightarrow> string list \<Rightarrow> bool" where
  "stringStart e vals = stringAt e (- idx e) vals"

definition stringStart_chk :: "Encoder \<Rightarrow> string list \<Rightarrow> (bool \<times> Encoder) option" where
  "stringStart_chk e vals = stringAt_chk e (- idx e) vals"

fun stringAtEndVals :: "rune list \<Rightarrow> int \<Rightarrow> string list \<Rightarrow> bool" where
  "stringAtEndVals xs start [] = False"
| "stringAtEndVals xs start (v # vs) =
     (let last = start + int (length v); inlen = int (length xs) in
      if last > inlen then False
      else if last < inlen then stringAtEndVals xs start vs
      else if lettersAt xs start (runes v) then True
      else stringAtEndVals xs start vs)"

fun stringAtEndVals_chk :: "rune list \<Rightarrow> int \<Rightarrow> string list \<Rightarrow> bool option" where
  "stringAtEndVals_chk xs start [] = Some False"
| "stringAtEndVals_chk xs start (v # vs) =
     (let last = start + int (length v); inlen = int (length xs) in
      if last > inlen then Some False
      else if last < inlen then stringAtEndVals_chk xs start vs
      else (case lettersAt_chk xs start (runes v) of
              None \<Rightarrow> None
            | Some m \<Rightarrow> if m then Some True else stringAtEndVals_chk xs start vs))"

definition stringAtEnd :: "Encoder \<Rightarrow> int \<Rightarrow> string list \<Rightarrow> bool" where
  "stringAtEnd e offset vals =
     (let start = idx e + offset in
      if start < 0 \<or> start \<ge> int (length (inp e)) \<or>
         start + int (length (hd vals)) > int (length (inp e))
      then False
      else stringAtEndVals (inp e) start vals)"

definition stringAtEnd_chk :: "Encoder \<Rightarrow> int \<Rightarrow> string list \<Rightarrow> (bool \<times> Encoder) option" where
  "stringAtEnd_chk e offset vals =
     (let start = idx e + offset in
      case vals of
        [] \<Rightarrow> None
      | v0 # _ \<Rightarrow>
          if start < 0 \<or> start \<ge> int (length (inp e)) \<or>
             start + int (length v0) > int (length (inp e))
          then Some (False, e)
          else map_option (\<lambda>m. (m, e)) (stringAtEndVals_chk (inp e) start vals))"

fun stringEndVals :: "rune list \<Rightarrow> string list \<Rightarrow> bool" where
  "stringEndVals xs [] = False"
| "stringEndVals xs (v # vs) =
     (let i = int (length xs) - int (length v) in
      if i < 0 then False
      else if lettersAt xs i (runes v) then True
      else stringEndVals xs vs)"

fun stringEndVals_chk :: "rune list \<Rightarrow> string list \<Rightarrow> bool option" where
  "stringEndVals_chk xs [] = Some False"
| "stringEndVals_chk xs (v # vs) =
     (let i = int (length xs) - int (length v) in
      if i < 0 then Some False
      else (case lettersAt_chk xs i (runes v) of
              None \<Rightarrow> None
            | Some m \<Rightarrow> if m then Some True else stringEndVals_chk xs vs))"

definition stringEnd :: "Encoder \<Rightarrow> string list \<Rightarrow> bool" where
  "stringEnd e vals = stringEndVals (inp e) vals"

definition stringEnd_chk :: "Encoder \<Rightarrow> string list \<Rightarrow> (bool \<times> Encoder) option" where
  "stringEnd_chk e vals = map_option (\<lambda>m. (m, e)) (stringEndVals_chk (inp e) vals)"

fun stringExactVals :: "rune list \<Rightarrow> string list \<Rightarrow> bool" where
  "stringExactVals xs [] = False"
| "stringExactVals xs (v # vs) =
     (if length v > length xs then False
      else if length v < length xs then stringExactVals xs vs
      else if lettersAt xs 0 (runes v) then True
      else stringExactVals xs vs)"

fun stringExactVals_chk :: "rune list \<Rightarrow> string list \<Rightarrow> bool option" where
  "stringExactVals_chk xs [] = Some False"
| "stringExactVals_chk xs (v # vs) =
     (if length v > length xs then Some False
      else if length v < length xs then stringExactVals_chk xs vs
      else (case lettersAt_chk xs 0 (runes v) of
              None \<Rightarrow> None
            | Some m \<Rightarrow> if m then Some True else stringExactVals_chk xs vs))"

definition stringExact :: "Encoder \<Rightarrow> string list \<Rightarrow> bool" where
  "stringExact e vals = stringExactVals (inp e) vals"

definition stringExact_chk :: "Encoder \<Rightarrow> string list \<Rightarrow> (bool \<times> Encoder) option" where
  "stringExact_chk e vals = map_option (\<lambda>m. (m, e)) (stringExactVals_chk (inp e) vals)"

text \<open>
  \<^verbatim>\<open>stringContains\<close>: for each start \<open>i\<close> the inner loop advances \<open>tmp\<close> over the matching
  runes and stops at the first mismatch; the start matches when \<open>tmp - i = len(val)\<close>.
\<close>

fun advanceMatch :: "rune list \<Rightarrow> int \<Rightarrow> rune list \<Rightarrow> int" where
  "advanceMatch xs tmp [] = tmp"
| "advanceMatch xs tmp (c # cs) = (if xs ! nat tmp \<noteq> c then tmp else advanceMatch xs (tmp + 1) cs)"

fun advanceMatch_chk :: "rune list \<Rightarrow> int \<Rightarrow> rune list \<Rightarrow> int option" where
  "advanceMatch_chk xs tmp [] = Some tmp"
| "advanceMatch_chk xs tmp (c # cs) =
     (case rd xs tmp of
        None \<Rightarrow> None
      | Some r \<Rightarrow> if r \<noteq> c then Some tmp else advanceMatch_chk xs (tmp + 1) cs)"

fun containsAt :: "rune list \<Rightarrow> string \<Rightarrow> int list \<Rightarrow> bool" where
  "containsAt xs val [] = False"
| "containsAt xs val (i # is) =
     (if advanceMatch xs i (runes val) - i = int (length val) then True else containsAt xs val is)"

fun containsAt_chk :: "rune list \<Rightarrow> string \<Rightarrow> int list \<Rightarrow> bool option" where
  "containsAt_chk xs val [] = Some False"
| "containsAt_chk xs val (i # is) =
     (case advanceMatch_chk xs i (runes val) of
        None \<Rightarrow> None
      | Some tmp \<Rightarrow> if tmp - i = int (length val) then Some True else containsAt_chk xs val is)"

definition stringContains :: "Encoder \<Rightarrow> string \<Rightarrow> bool" where
  "stringContains e val =
     (let lastPossibleStart = int (length (inp e)) - int (length val) in
      if lastPossibleStart < 0 then False
      else containsAt (inp e) val [0..lastPossibleStart])"

definition stringContains_chk :: "Encoder \<Rightarrow> string \<Rightarrow> (bool \<times> Encoder) option" where
  "stringContains_chk e val =
     (let lastPossibleStart = int (length (inp e)) - int (length val) in
      if lastPossibleStart < 0 then Some (False, e)
      else map_option (\<lambda>m. (m, e)) (containsAt_chk (inp e) val [0..lastPossibleStart]))"

subsection \<open>Mutating the outputs\<close>

text \<open>
  The guarded read \<^verbatim>\<open>len(buf) > 0 && buf[len(buf)-1] == 'A'\<close> is \<open>buf \<noteq> [] \<and> last buf = ...\<close>.
  The \<^verbatim>\<open>debug\<close> flag is \<^verbatim>\<open>false\<close>; its print statements are left out.
\<close>

definition metaphAddAlt :: "rune \<Rightarrow> rune \<Rightarrow> Encoder \<Rightarrow> Encoder" where
  "metaphAddAlt prim second e =
     (let e = (if prim \<noteq> ReplacementChar then
                 (if \<not> (prim = rune CHR ''A'' \<and> length (primBuf e) > 0 \<and>
                         last (primBuf e) = rune CHR ''A'')
                  then e\<lparr>primBuf := primBuf e @ [prim]\<rparr> else e)
               else e);
          e = (if second \<noteq> ReplacementChar then
                 (if \<not> (second = rune CHR ''A'' \<and> length (secondBuf e) > 0 \<and>
                         last (secondBuf e) = rune CHR ''A'')
                  then e\<lparr>secondBuf := secondBuf e @ [second]\<rparr> else e)
               else e)
      in e)"

definition metaphAdd :: "rune \<Rightarrow> Encoder \<Rightarrow> Encoder" where
  "metaphAdd c e = metaphAddAlt c c e"

definition metaphAddStr :: "string \<Rightarrow> string \<Rightarrow> Encoder \<Rightarrow> Encoder" where
  "metaphAddStr prim second e =
     (let e = (if \<not> (prim = ''A'' \<and> length (primBuf e) > 0 \<and> last (primBuf e) = rune CHR ''A'')
               then e\<lparr>primBuf := primBuf e @ runes prim\<rparr> else e);
          e = (if second \<noteq> [] \<and>
                  \<not> (second = ''A'' \<and> length (secondBuf e) > 0 \<and>
                      last (secondBuf e) = rune CHR ''A'')
               then e\<lparr>secondBuf := secondBuf e @ runes second\<rparr> else e)
      in e)"

definition metaphAddExactApproxAlt :: "string \<Rightarrow> string \<Rightarrow> string \<Rightarrow> string \<Rightarrow> Encoder \<Rightarrow> Encoder" where
  "metaphAddExactApproxAlt exact altExact main alt e =
     (if EncodeExact e then metaphAddStr exact altExact e else metaphAddStr main alt e)"

definition metaphAddExactApprox :: "string \<Rightarrow> string \<Rightarrow> Encoder \<Rightarrow> Encoder" where
  "metaphAddExactApprox exact main e =
     (if EncodeExact e then metaphAddStr exact exact e else metaphAddStr main main e)"

definition advanceCounter :: "int \<Rightarrow> int \<Rightarrow> Encoder \<Rightarrow> Encoder" where
  "advanceCounter noEncodeVowel encodeVowel e =
     (if EncodeVowels e then e\<lparr>idx := idx e + encodeVowel\<rparr>
      else e\<lparr>idx := idx e + noEncodeVowel\<rparr>)"

subsection \<open>Skipping vowels\<close>

text \<open>
  The loop of \<^verbatim>\<open>skipVowels\<close>, from the offset \<open>off\<close> and the rune \<open>it\<close> there; it returns the
  final offset. The panic \<^verbatim>\<open>"bug: skipping vowels moving backward"\<close> and every read out of
  range are \<open>None\<close>.
\<close>

function skipVowelsLoop :: "Encoder \<Rightarrow> int \<Rightarrow> rune \<Rightarrow> int option" where
  "skipVowelsLoop e off it =
     (if isVowel it \<or> it = rune CHR ''W'' then
        (if stringAt e off [''WICZ'', ''WITZ'', ''WIAK''] \<or>
            stringAt e (off - 1) [''EWSKI'', ''EWSKY'', ''OWSKI'', ''OWSKY''] \<or>
            stringAtEnd e off [''WICKI'', ''WACKI'']
         then Some off
         else
           (case andalso (charAt e (off + 1 - 1) (rune CHR ''W''))
                   (andalso (charAt e (off + 1) (rune CHR ''H''))
                      (Some (\<not> stringAt e (off + 1) [''HOP'', ''HIDE'', ''HARD'', ''HEAD'', ''HAWK'',
                          ''HERD'', ''HOOK'', ''HAND'', ''HOLE'', ''HEART'', ''HOUSE'', ''HOUND'',
                          ''HAMMER''])))
            of
              None \<Rightarrow> None
            | Some c \<Rightarrow>
                (let off' = (if c then off + 1 + 1 else off + 1) in
                 if idx e + off' > lastIdx e then Some off'
                 else (case rd (inp e) (idx e + off') of
                         None \<Rightarrow> None
                       | Some it' \<Rightarrow> skipVowelsLoop e off' it'))))
      else Some off)"
  by pat_completeness auto
termination
  by (relation "measure (\<lambda>(e, off, it). nat (lastIdx e - idx e - off + 1))")
    (auto split: if_splits)

declare skipVowelsLoop.simps [simp del]

definition skipVowels :: "Encoder \<Rightarrow> int \<Rightarrow> int option" where
  "skipVowels e at =
     (if at < 0 then Some 0
      else if at \<ge> int (length (inp e)) then Some (int (length (inp e)))
      else do {
        it \<leftarrow> rd (inp e) at;
        off \<leftarrow> skipVowelsLoop e (at - idx e) it;
        if off < 1 then None else Some (idx e + off - 1)
      })"

subsection \<open>Roots and inflections\<close>

definition areEqual :: "rune list \<Rightarrow> rune list \<Rightarrow> bool" where
  "areEqual buf1 buf2 =
     (if length buf1 \<noteq> length buf2 then False
      else list_all (\<lambda>i. buf1 ! i = buf2 ! i) [0..<length buf1])"

text \<open>\<^verbatim>\<open>rune(root[i])\<close>: the byte of a string at an index, as a rune.\<close>

definition rdb :: "string \<Rightarrow> int \<Rightarrow> rune option" where
  "rdb s i = (if 0 \<le> i \<and> i < int (length s) then Some (of_char (s ! nat i)) else None)"

definition eqO :: "rune option \<Rightarrow> rune option \<Rightarrow> bool option" where
  "eqO a b = do { x \<leftarrow> a; y \<leftarrow> b; Some (x = y) }"

text \<open>The first loop of \<^verbatim>\<open>rootOrInflections\<close>: \<open>Some True\<close> when it runs to its end.\<close>

fun rootLetters :: "rune list \<Rightarrow> string \<Rightarrow> int list \<Rightarrow> bool option" where
  "rootLetters inWord root [] = Some True"
| "rootLetters inWord root (i # is) =
     do {
       c \<leftarrow> nott (eqO (rd inWord i) (rdb root i));
       if c then Some False else rootLetters inWord root is
     }"

definition rootOrInflections :: "rune list \<Rightarrow> string \<Rightarrow> bool option" where
  "rootOrInflections inWord0 root =
     (let lenDiff = int (length inWord0) - int (length root) in
      if lenDiff < 0 then Some False
      else do {
        let last = int (length root) - 1;
        same \<leftarrow> rootLetters inWord0 root [0..last - 1];
        if \<not> same then Some False
        else do {
          inWord \<leftarrow> sliceFrom inWord0 last;
          let rest = (\<lambda>u::unit.
            if lenDiff = 3 \<and> areEqual inWord (runes ''ING'') then Some True
            else if lenDiff = 5 \<and> areEqual inWord (runes ''INGLY'') then Some True
            else do {
              c \<leftarrow> andalso (Some (lenDiff = 1)) (map_option (\<lambda>r. r = rune CHR ''Y'') (rd inWord 0));
              if c then Some True else Some False
            });
          c \<leftarrow> andalso (eqO (rd inWord 0) (rdb root last))
                 (orelse (Some (lenDiff = 0))
                    (andalso (Some (lenDiff = 1)) (map_option (\<lambda>r. r = rune CHR ''S'') (rd inWord 1))));
          if c then Some True
          else do {
            c \<leftarrow> map_option (\<lambda>r. r = rune CHR ''E'') (rdb root last);
            if c then do {
              c \<leftarrow> andalso (Some (lenDiff = 1))
                     (andalso (map_option (\<lambda>r. r = rune CHR ''E'') (rd inWord 0))
                        (map_option (\<lambda>r. r = rune CHR ''D'') (rd inWord 1)));
              if c then Some True else rest ()
            }
            else do {
              c \<leftarrow> nott (eqO (rd inWord 0) (rdb root last));
              if c then Some False
              else do {
                c \<leftarrow> andalso (Some (lenDiff = 2))
                       (andalso (map_option (\<lambda>r. r = rune CHR ''E'') (rd inWord 1))
                          (orelse (map_option (\<lambda>r. r = rune CHR ''S'') (rd inWord 2))
                             (map_option (\<lambda>r. r = rune CHR ''D'') (rd inWord 2))));
                if c then Some True else rest ()
              }
            }
          }
        }
      })"

subsection \<open>Cascades of rules\<close>

text \<open>
  A rule method returns whether it handled the letter, and the encoder as it left it.
  \<^verbatim>\<open>f() || g() || ...\<close> over such methods is \<open>cascade\<close>: the first that returns true
  ends the chain; the state changes of those that returned false stay.
\<close>

type_synonym rule = "Encoder \<Rightarrow> (bool \<times> Encoder) option"

definition pur :: "(Encoder \<Rightarrow> bool) \<Rightarrow> rule" where
  "pur p e = Some (p e, e)"

definition purO :: "(Encoder \<Rightarrow> bool option) \<Rightarrow> rule" where
  "purO p e = map_option (\<lambda>b. (b, e)) (p e)"

definition cNot :: "rule \<Rightarrow> rule" where
  "cNot f e = map_option (\<lambda>(b, e'). (\<not> b, e')) (f e)"

definition cAnd :: "rule \<Rightarrow> rule \<Rightarrow> rule" where
  "cAnd f g e =
     (case f e of None \<Rightarrow> None | Some (b, e') \<Rightarrow> if b then g e' else Some (False, e'))"

fun cascade :: "rule list \<Rightarrow> rule" where
  "cascade [] e = Some (False, e)"
| "cascade (f # fs) e =
     (case f e of None \<Rightarrow> None | Some (b, e') \<Rightarrow> if b then Some (True, e') else cascade fs e')"

section \<open>The rules of the letters\<close>

text \<open>The loop of \<^verbatim>\<open>encodeInitialHuHw\<close> over the vowels and W's at the cursor.\<close>

function huHwLoop :: "Encoder \<Rightarrow> Encoder option" where
  "huHwLoop e =
     (case orelse (Some (isVowelAt e 0)) (charAt e 0 (rune CHR ''W'')) of
        None \<Rightarrow> None
      | Some c \<Rightarrow> if c then huHwLoop (e\<lparr>idx := idx e + 1\<rparr>) else Some e)"
  by pat_completeness auto
termination
proof (relation "measure (\<lambda>e. nat (int (length (inp e)) - idx e))")
  show "wf (measure (\<lambda>e. nat (int (length (inp e)) - idx e)))"
    by simp
next
  fix e :: Encoder and c :: bool
  assume a: "orelse (Some (isVowelAt e 0)) (charAt e 0 (rune CHR ''W'')) = Some c" and c: c
  have "idx e < int (length (inp e))"
    using a c
    by (auto simp: orelse_def isVowelAt_def charAt_def Let_def split: if_splits)
  then show "(e\<lparr>idx := idx e + 1\<rparr>, e) \<in> measure (\<lambda>e. nat (int (length (inp e)) - idx e))"
    by simp
qed

declare huHwLoop.simps [simp del]

definition encodeInitialHuHw :: "Encoder \<Rightarrow> (bool \<times> Encoder) option" where
  "encodeInitialHuHw e =
     (if stringStart e [''HUA'', ''HUE'', ''HWA''] \<and> \<not> stringAt e 0 [''HUEY''] then do {
        let e = metaphAdd (rune CHR ''A'') e;
        e \<leftarrow> (if \<not> EncodeVowels e then Some (e\<lparr>idx := idx e + 2\<rparr>)
              else do {
                let e = e\<lparr>idx := idx e + 1\<rparr>;
                e \<leftarrow> huHwLoop e;
                let e = e\<lparr>idx := idx e - 1\<rparr>;
                Some e
              });
        Some (True, e)
      }
      else Some (False, e))"

definition encodeSilentB :: "Encoder \<Rightarrow> (bool \<times> Encoder) option" where
  "encodeSilentB e =
     (if stringAt e (-2) [''DEBT'', ''SUBTL'', ''SUBTIL''] \<or> stringAt e (-3) [''DOUBT'']
         then do {
        let e = metaphAdd (rune CHR ''T'') e;
        let e = e\<lparr>idx := idx e + 1\<rparr>;
        Some (True, e)
      }
      else Some (False, e))"

definition encodeB :: "Encoder \<Rightarrow> Encoder option" where
  "encodeB e =
     do {
       (c, e) \<leftarrow> encodeSilentB e;
       if c then Some e
       else do {
         let e = metaphAddExactApprox ''B'' ''P'' e;
         c \<leftarrow> orelse (charNextIs e (rune CHR ''B'')) (andalso (charNextIs e (rune CHR
             ''P'')) (andalso (Some (idx e + 2 < int (length (inp e)))) (map_option (\<lambda>r.
             r \<noteq> rune CHR ''H'') (rd (inp e) (idx e + 2)))));
         if c then do {
           let e = e\<lparr>idx := idx e + 1\<rparr>;
           Some e
         }
         else Some e
       }
     }"

definition encodeSilentCAtBeginning :: "Encoder \<Rightarrow> bool" where
  "encodeSilentCAtBeginning e =
     (if idx e = 0 \<and> stringAt e 0 [''CT'', ''CN''] then True
      else False)"

definition encodeCaToS :: "Encoder \<Rightarrow> (bool \<times> Encoder) option" where
  "encodeCaToS e =
     (if (idx e = 0 \<and> stringAt e 0 [''CAES'', ''CAEC'', ''CAEM'']) \<or> stringStart e
         [''FACADE'', ''FRANCAIS'', ''FRANCAIX'', ''LINGUICA'', ''GONCALVES'', ''PROVENCAL'']
         then do {
        let e = metaphAdd (rune CHR ''S'') e;
        let e = advanceCounter 1 0 e;
        Some (True, e)
      }
      else Some (False, e))"

definition encodeCoToS :: "Encoder \<Rightarrow> (bool \<times> Encoder) option" where
  "encodeCoToS e =
     (if (stringAt e 0 [''COEL''] \<and> (isVowelAt e 4 \<or> idx e + 3 = lastIdx e)) \<or>
         stringAt e 0 [''COENA'', ''COENO''] \<or> stringStart e [''GARCON'', ''FRANCOIS'',
         ''MELANCON''] then do {
        let e = metaphAdd (rune CHR ''S'') e;
        let e = advanceCounter 2 0 e;
        Some (True, e)
      }
      else Some (False, e))"

definition encodeChae :: "Encoder \<Rightarrow> (bool \<times> Encoder) option" where
  "encodeChae e =
     (if idx e > 0 \<and> stringAt e 2 [''AE''] then do {
        let e = (if stringStart e [''RACHAEL''] then metaphAdd (rune CHR ''X'') e else (if
            \<not> stringAt e (-1) [''C'', ''K'', ''G'', ''Q''] then metaphAdd (rune CHR ''K'')
            e else e));
        let e = advanceCounter 3 1 e;
        Some (True, e)
      }
      else Some (False, e))"

definition encodeChToH :: "Encoder \<Rightarrow> (bool \<times> Encoder) option" where
  "encodeChToH e =
     (if (idx e = 0 \<and> stringAt e 2 [''AIM'', ''ETH'', ''ELM'', ''ASID'', ''AZAN'',
         ''UPPAH'', ''UTZPA'', ''ALLAH'', ''ALUTZ'', ''AMETZ'', ''ESHVAN'', ''ADARIM'',
         ''ANUKAH'', ''ALLLOTH'', ''ANNUKAH'', ''AROSETH'']) \<or> stringAt e (-3) [''CLACHAN'']
         then do {
        let e = metaphAdd (rune CHR ''H'') e;
        let e = advanceCounter 2 1 e;
        Some (True, e)
      }
      else Some (False, e))"

definition encodeSilentCh :: "Encoder \<Rightarrow> (bool \<times> Encoder) option" where
  "encodeSilentCh e =
     (if stringAt e (-2) [''YACHT'', ''FUCHSIA''] \<or> stringStart e [''STRACHAN'',
         ''CRICHTON''] \<or> (stringAt e (-3) [''DRACHM''] \<and> \<not> stringAt e (-3)
         [''DRACHMA'']) then do {
        let e = e\<lparr>idx := idx e + 1\<rparr>;
        Some (True, e)
      }
      else Some (False, e))"

definition encodeArch :: "Encoder \<Rightarrow> (bool \<times> Encoder) option" where
  "encodeArch e =
     (if stringAt e (-2) [''ARCH''] then do {
        c \<leftarrow> andalso (Some (((isVowelAt e 2 \<and> stringAt e (-2) [''ARCHA'',
            ''ARCHI'', ''ARCHO'', ''ARCHU'', ''ARCHY'']) \<or> stringAt e (-2) [''ARCHEA'',
            ''ARCHEG'', ''ARCHEO'', ''ARCHET'', ''ARCHEL'', ''ARCHES'', ''ARCHEP'', ''ARCHEM'',
            ''ARCHEN''] \<or> stringAtEnd e (-2) [''ARCH''] \<or> stringStart e [''MENARCH''])))
            (andalso (nott (rootOrInflections (inp e) ''ARCH'')) (andalso (Some (\<not> stringAt
            e (-4) [''SEARCH'', ''POARCH''] \<and> \<not> stringStart e [''ARCHER'', ''ARCHIE'',
            ''ARCHENEMY'', ''ARCHIBALD'', ''ARCHULETA'', ''ARCHAMBAU''])) (nott (andalso (orelse
            (Some (((stringAt e (-3) [''LARCH'', ''MARCH'', ''PARCH''] \<or> stringAt e (-4)
            [''STARCH'']) \<and> \<not> stringStart e [''EPARCH'', ''NOMARCH'', ''EXILARCH'',
            ''HIPPARCH'', ''MARCHESE'', ''ARISTARCH'', ''MARCHETTI'']))) (rootOrInflections (inp
            e) ''STARCH'')) (Some ((\<not> stringAt e (-2) [''ARCHU'', ''ARCHY''] \<or>
            stringStart e [''STARCHY''])))))));
        let e = (if c then metaphAddAlt (rune CHR ''K'') (rune CHR ''X'') e else metaphAdd (rune
            CHR ''X'') e);
        let e = e\<lparr>idx := idx e + 1\<rparr>;
        Some (True, e)
      }
      else Some (False, e))"

definition encodeChToX :: "Encoder \<Rightarrow> (bool \<times> Encoder) option" where
  "encodeChToX e =
     (if (stringAt e (-2) [''OACH'', ''EACH'', ''EECH'', ''OUCH'', ''OOCH'', ''MUCH'', ''SUCH'']
         \<and> \<not> stringAt e (-3) [''JOACH'']) \<or> stringAtEnd e (-1) [''ACHA'',
         ''ACHO''] \<or> stringAtEnd e 0 [''CHOT'', ''CHOD'', ''CHAT''] \<or> (stringAtEnd e
         (-1) [''OCHE''] \<and> \<not> stringAt e (-2) [''DOCHE'']) \<or> stringAt e (-4)
         [''ATTACH'', ''DETACH'', ''KOVACH'', ''PARACHUT''] \<or> stringAt e (-5) [''SPINACH'',
         ''MASSACHU''] \<or> stringStart e [''MACHAU''] \<or> (stringAt e (-3) [''THACH'']
         \<and> \<not> stringAt e 2 [''E'']) \<or> stringAt e (-2) [''VACHON''] then do {
        let e = metaphAdd (rune CHR ''X'') e;
        let e = e\<lparr>idx := idx e + 1\<rparr>;
        Some (True, e)
      }
      else Some (False, e))"

definition encodeEnglishChToK :: "Encoder \<Rightarrow> (bool \<times> Encoder) option" where
  "encodeEnglishChToK e =
     do {
       c \<leftarrow> orelse (andalso (Some (idx e = 1)) (rootOrInflections (inp e) ''ACHE''))
           (orelse (andalso (Some (idx e > 3)) (andalso (Option.bind (sliceFrom (inp e) (idx e -
           1)) (\<lambda>w. rootOrInflections w ''ACHE'')) (Some (stringStart e [''EAR'',
           ''HEAD'', ''BACK'', ''HEART'', ''BELLY'', ''TOOTH''])))) (Some (stringAt e (-1)
           [''ECHO''] \<or> stringAt e (-2) [''MICHEAL''] \<or> stringAt e (-4) [''JERICHO'']
           \<or> stringAt e (-5) [''LEPRECH''])));
       if c then do {
         let e = metaphAddAlt (rune CHR ''K'') (rune CHR ''X'') e;
         let e = e\<lparr>idx := idx e + 1\<rparr>;
         Some (True, e)
       }
       else Some (False, e)
     }"

definition isSlavoGermanic :: "Encoder \<Rightarrow> bool option" where
  "isSlavoGermanic e =
     (orelse (Some (stringStart e [''SCH'', ''SW''])) (orelse (map_option (\<lambda>r. r = rune
         CHR ''J'') (rd (inp e) 0)) (map_option (\<lambda>r. r = rune CHR ''W'') (rd (inp e)
         0))))"

definition encodeGermanicChToK :: "Encoder \<Rightarrow> (bool \<times> Encoder) option" where
  "encodeGermanicChToK e =
     do {
       c \<leftarrow> orelse (andalso (Some (idx e > 1 \<and> \<not> isVowelAt e (-2) \<and>
           stringAt e (-1) [''ACH''] \<and> \<not> stringAt e (-2) [''MACHADO'', ''MACHUCA'',
           ''LACHANC'', ''LACHAPE'', ''KACHATU''] \<and> \<not> stringAt e (-3) [''KHACHAT'']))
           (andalso (nott (charAt e 2 (rune CHR ''I''))) (orelse (nott (charAt e 2 (rune CHR
           ''E''))) (Some (stringAt e (-2) [''BACHER'', ''MACHER'', ''MACHEN'', ''LACHER''])))))
           (Some ((stringAt e 2 [''T'', ''S''] \<and> \<not> stringStart e [''WHICHSOEVER'',
           ''LUNCHTIME'']) \<or> stringStart e [''SCHR''] \<or> (idx e > 2 \<and> stringAt e
           (-2) [''MACHE'']) \<or> (idx e = 2 \<and> stringAt e (-2) [''ZACH'']) \<or> stringAt
           e (-4) [''SCHACH''] \<or> stringAt e (-1) [''ACHEN''] \<or> stringAt e (-3)
           [''SPICH'', ''ZURCH'', ''BUECH''] \<or> (stringAt e (-3) [''KIRCH'', ''JOACH'',
           ''BLECH'', ''MALCH''] \<and> \<not> (stringAt e (-3) [''KIRCHNER''] \<or> idx e + 1 =
           lastIdx e)) \<or> stringAtEnd e (-2) [''NICH'', ''LICH'', ''BACH''] \<or>
           (stringAtEnd e (-3) [''URICH'', ''BRICH'', ''ERICH'', ''DRICH'', ''NRICH''] \<and>
           \<not> stringAtEnd e (-5) [''ALDRICH''] \<and> \<not> stringAtEnd e (-6)
           [''GOODRICH''] \<and> \<not> stringAtEnd e (-7) [''GINGERICH'']) \<or> stringAtEnd e
           (-4) [''ULRICH'', ''LFRICH'', ''LLRICH'', ''EMRICH'', ''ZURICH'', ''EYRICH''] \<or>
           ((stringAt e (-1) [''A'', ''O'', ''U'', ''E''] \<or> idx e = 0) \<and> stringAt e 2
           [''L'', ''R'', ''N'', ''M'', ''B'', ''H'', ''F'', ''V'', ''W'', '' ''])));
       if c then do {
         c \<leftarrow> orelse (Some (stringAt e 2 [''R'', ''L''])) (isSlavoGermanic e);
         let e = (if c then metaphAdd (rune CHR ''K'') e else metaphAddAlt (rune CHR ''K'')
             (rune CHR ''X'') e);
         let e = e\<lparr>idx := idx e + 1\<rparr>;
         Some (True, e)
       }
       else Some (False, e)
     }"

definition encodeGreekChInitial :: "Encoder \<Rightarrow> (bool \<times> Encoder) option" where
  "encodeGreekChInitial e =
     (if (stringAt e 0 [''CHAMOM'', ''CHARAC'', ''CHARIS'', ''CHARTO'', ''CHARTU'', ''CHARYB'',
         ''CHRIST'', ''CHEMIC'', ''CHILIA''] \<or> (stringAt e 0 [''CHEMI'', ''CHEMO'',
         ''CHEMU'', ''CHEMY'', ''CHOND'', ''CHONA'', ''CHONI'', ''CHOIR'', ''CHASM'', ''CHARO'',
         ''CHROM'', ''CHROI'', ''CHAMA'', ''CHALC'', ''CHALD'', ''CHAET'', ''CHIRO'', ''CHILO'',
         ''CHELA'', ''CHOUS'', ''CHEIL'', ''CHEIR'', ''CHEIM'', ''CHITI'', ''CHEOP''] \<and>
         \<not> (stringAt e 0 [''CHEMIN''] \<or> stringAt e (-2) [''ANCHONDO''])) \<or>
         (stringAt e 0 [''CHISM'', ''CHELI''] \<and> \<not> (stringStart e [''MICHEL'',
         ''MACHISMO'', ''RICHELIEU'', ''REVANCHISM''] \<or> stringExact e [''CHISM''])) \<or>
         (stringAt e 0 [''CHOR'', ''CHOL'', ''CHYM'', ''CHYL'', ''CHLO'', ''CHOS'', ''CHUS'',
         ''CHOE''] \<and> \<not> stringStart e [''CHOLLO'', ''CHOLLA'', ''CHORIZ'']) \<or>
         (stringAt e 0 [''CHAO''] \<and> idx e + 3 \<noteq> lastIdx e) \<or> (stringAt e 0
         [''CHIA''] \<and> \<not> stringStart e [''CHIAPAS'', ''APPALACHIA'']) \<or> stringAt e
         0 [''CHIMERA'', ''CHIMAER'', ''CHIMERI''] \<or> stringStart e [''CHAME'', ''CHELO'',
         ''CHITO''] \<or> ((idx e + 4 = lastIdx e \<or> idx e + 5 = lastIdx e) \<and> stringAt e
         (-1) [''OCHETE''])) \<and> \<not> (stringExact e [''CHORE'', ''CHOLO'', ''CHOLA'']
         \<or> stringAt e 0 [''CHORT'', ''CHOSE''] \<or> stringAt e (-3) [''CROCHET''] \<or>
         stringStart e [''CHEMISE'', ''CHARISE'', ''CHARISS'', ''CHAROLE'']) then do {
        let e = (if stringAt e 2 [''R'', ''L''] then metaphAdd (rune CHR ''K'') e else
            metaphAddAlt (rune CHR ''K'') (rune CHR ''X'') e);
        let e = e\<lparr>idx := idx e + 1\<rparr>;
        Some (True, e)
      }
      else Some (False, e))"

definition encodeGreekChNonInitial :: "Encoder \<Rightarrow> (bool \<times> Encoder) option"
    where
  "encodeGreekChNonInitial e =
     (if stringAt e (-2) [''LYCHN'', ''TACHO'', ''ORCHO'', ''ORCHI'', ''LICHO'', ''ORCHID'',
         ''NICHOL'', ''MECHAN'', ''LICHEN'', ''MACHIC'', ''PACHEL'', ''RACHIF'', ''RACHID'',
         ''RACHIS'', ''RACHIC'', ''MICHAL'', ''ORCHESTR''] \<or> stringAt e (-3) [''MELCH'',
         ''GLOCH'', ''TRACH'', ''TROCH'', ''BRACH'', ''SYNCH'', ''PSYCH'', ''STICH'', ''PULCH'',
         ''EPOCH''] \<or> (stringAt e (-3) [''TRICH''] \<and> \<not> stringAt e (-5)
         [''OSTRICH'']) \<or> (stringAt e (-2) [''TYCH'', ''TOCH'', ''BUCH'', ''MOCH'',
         ''CICH'', ''DICH'', ''NUCH'', ''EICH'', ''LOCH'', ''DOCH'', ''ZECH'', ''WYCH''] \<and>
         \<not> (stringAt e (-4) [''INDOCHINA''] \<or> stringAt e (-2) [''BUCHON''])) \<or>
         ((idx e = 1 \<or> idx e = 2) \<and> stringAt e (-1) [''OCHER'', ''ECHIN'', ''ECHID''])
         \<or> stringAt e (-4) [''BRONCH'', ''STOICH'', ''STRYCH'', ''TELECH'', ''PLANCH'',
         ''CATECH'', ''MANICH'', ''MALACH'', ''BIANCH'', ''DIDACH'', ''BRANCHIO'', ''BRANCHIF'']
         \<or> stringStart e [''ICHA'', ''ICHN''] \<or> (stringAt e (-1) [''ACHAB'', ''ACHAD'',
         ''ACHAN'', ''ACHAZ''] \<and> \<not> stringAt e (-2) [''MACHADO'', ''LACHANC'']) \<or>
         stringAt e (-1) [''ACHISH'', ''ACHILL'', ''ACHAIA'', ''ACHENE'', ''ACHAIAN'',
         ''ACHATES'', ''ACHIRAL'', ''ACHERON'', ''ACHILLEA'', ''ACHIMAAS'', ''ACHILARY'',
         ''ACHELOUS'', ''ACHENIAL'', ''ACHERNAR'', ''ACHALASIA'', ''ACHILLEAN'', ''ACHIMENES'',
         ''ACHIMELECH'', ''ACHITOPHEL''] \<or> (idx e = 2 \<and> stringStart e [''INCHOA''])
         \<or> stringStart e [''ISCH''] \<or> (idx e + 1 = lastIdx e \<and> stringAt e (-1)
         [''A'', ''O'', ''U'', ''E''] \<and> \<not> (stringStart e [''DEBAUCH''] \<or> stringAt
         e (-2) [''MUCH'', ''SUCH'', ''KOCH''] \<or> stringAt e (-5) [''OODRICH'',
         ''ALDRICH''])) then do {
        let e = metaphAddAlt (rune CHR ''K'') (rune CHR ''X'') e;
        let e = e\<lparr>idx := idx e + 1\<rparr>;
        Some (True, e)
      }
      else Some (False, e))"

definition encodeCh :: "Encoder \<Rightarrow> (bool \<times> Encoder) option" where
  "encodeCh e =
     (if \<not> stringAt e 0 [''CH''] then Some (False, e)
      else do {
        (c, e) \<leftarrow> cascade [encodeChae, encodeChToH, encodeSilentCh, encodeArch,
            encodeChToX, encodeEnglishChToK, encodeGermanicChToK, encodeGreekChInitial,
            encodeGreekChNonInitial] e;
        if c then Some (True, e)
        else do {
          let e = (if idx e > 0 then (if stringStart e [''MC''] \<and> idx e = 1 then metaphAdd
              (rune CHR ''K'') e else metaphAddAlt (rune CHR ''X'') (rune CHR ''K'') e) else
              metaphAdd (rune CHR ''X'') e);
          let e = e\<lparr>idx := idx e + 1\<rparr>;
          Some (True, e)
        }
      })"

definition encodeCcia :: "Encoder \<Rightarrow> (bool \<times> Encoder) option" where
  "encodeCcia e =
     (if stringAt e 1 [''CIA''] then do {
        let e = metaphAddAlt (rune CHR ''X'') (rune CHR ''S'') e;
        let e = e\<lparr>idx := idx e + 1\<rparr>;
        Some (True, e)
      }
      else Some (False, e))"

definition encodeCc :: "Encoder \<Rightarrow> (bool \<times> Encoder) option" where
  "encodeCc e =
     do {
       c \<leftarrow> andalso (Some (stringAt e 0 [''CC''])) (nott (andalso (Some (idx e = 1))
           (map_option (\<lambda>r. r = rune CHR ''M'') (rd (inp e) 0))));
       if c then (if stringAt e (-3) [''FLACCID''] then do {
          let e = metaphAdd (rune CHR ''S'') e;
          let e = advanceCounter 2 1 e;
          Some (True, e)
        }
        else (if stringAtEnd e 2 [''I''] \<or> stringAt e 2 [''IO''] \<or> stringAtEnd e 2
            [''INO'', ''INI''] then do {
           let e = metaphAdd (rune CHR ''X'') e;
           let e = advanceCounter 2 1 e;
           Some (True, e)
         }
         else do {
           c \<leftarrow> andalso (Some (stringAt e 2 [''I'', ''E'', ''Y''])) (nott (orelse
               (charAt e 2 (rune CHR ''H'')) (Some (stringAt e (-2) [''SOCCER'']))));
           if c then do {
             let e = metaphAddStr ''KS'' ''KS'' e;
             let e = advanceCounter 2 1 e;
             Some (True, e)
           }
           else do {
             let e = metaphAdd (rune CHR ''K'') e;
             let e = e\<lparr>idx := idx e + 1\<rparr>;
             Some (True, e)
           }
         }))
       else Some (False, e)
     }"

definition encodeCkCgCq :: "Encoder \<Rightarrow> (bool \<times> Encoder) option" where
  "encodeCkCgCq e =
     (if stringAt e 0 [''CK'', ''CG'', ''CQ''] then do {
        let e = (if stringAtEnd e 0 [''CKI'', ''CKY''] \<and> int (length (inp e)) > 6 then
            metaphAddStr ''K'' ''SK'' e else metaphAdd (rune CHR ''K'') e);
        let e = e\<lparr>idx := idx e + 1\<rparr>;
        let e = (if stringAt e 1 [''K'', ''G'', ''Q''] then e\<lparr>idx := idx e + 1\<rparr>
            else e);
        Some (True, e)
      }
      else Some (False, e))"

definition encodeBritishSilentCE :: "Encoder \<Rightarrow> bool" where
  "encodeBritishSilentCE e =
     (if stringAtEnd e 1 [''ESTER''] \<or> stringAt e 1 [''ESTERSHIRE''] then True
      else False)"

definition encodeCe :: "Encoder \<Rightarrow> (bool \<times> Encoder) option" where
  "encodeCe e =
     (if (stringAt e 1 [''EAN''] \<and> isVowelAt e (-1)) \<or> (stringAtEnd e (-1) [''ACEA'']
         \<and> \<not> stringStart e [''PANACEA'']) \<or> stringAt e 1 [''ELLI'', ''ERTO'',
         ''EORL''] \<or> stringAtEnd e (-3) [''CROCE''] \<or> stringAt e (-3) [''DOLCE''] \<or>
         stringAtEnd e 1 [''ELLO''] then do {
        let e = metaphAddAlt (rune CHR ''X'') (rune CHR ''S'') e;
        Some (True, e)
      }
      else Some (False, e))"

definition encodeCi :: "Encoder \<Rightarrow> (bool \<times> Encoder) option" where
  "encodeCi e =
     (if (stringAtEnd e 1 [''INI''] \<and> \<not> stringExact e [''MANCINI'']) \<or> stringAtEnd
         e (-1) [''ICI''] \<or> stringAt e (-1) [''RCIAL'', ''NCIAL'', ''RCIAN'', ''UCIUS'']
         \<or> stringAt e (-3) [''MARCIA''] \<or> stringAt e (-2) [''ANCIENT''] then do {
        let e = metaphAddAlt (rune CHR ''X'') (rune CHR ''S'') e;
        Some (True, e)
      }
      else (if stringAt e (-4) [''COERCION''] then do {
         let e = metaphAdd (rune CHR ''J'') e;
         Some (True, e)
       }
       else (if (stringAt e 0 [''CIO'', ''CIE'', ''CIA''] \<and> isVowelAt e (-1)) \<or>
           stringAt e 1 [''IAO''] then do {
          let e = (if (stringAt e 0 [''CIAN'', ''CIAL'', ''CIAO'', ''CIES'', ''CIOL'', ''CION'']
              \<or> stringAt e (-3) [''GLACIER''] \<or> stringAt e 0 [''CIENT'', ''CIENC'',
              ''CIOUS'', ''CIATE'', ''CIATI'', ''CIATO'', ''CIABL'', ''CIARY''] \<or>
              stringAtEnd e 0 [''CIA'', ''CIO'', ''CIAS'', ''CIOS'']) \<and> \<not> (stringAt e
              (-4) [''ASSOCIATION''] \<or> stringStart e [''OCIE''] \<or> stringAt e (-2)
              [''LUCIO'', ''SOCIO'', ''SOCIE'', ''MACIAS'', ''LUCIANO'', ''HACIENDA''] \<or>
              stringAt e (-3) [''GRACIE'', ''GRACIA'', ''MARCIANO''] \<or> stringAt e (-4)
              [''PALACIO'', ''POLICIES'', ''FELICIANO''] \<or> stringAt e (-5) [''MAURICIO'']
              \<or> stringAt e (-6) [''ANDALUCIA''] \<or> stringAt e (-7) [''ENCARNACION''])
              then metaphAddAlt (rune CHR ''X'') (rune CHR ''S'') e else metaphAddAlt (rune CHR
              ''S'') (rune CHR ''X'') e);
          Some (True, e)
        }
        else Some (False, e))))"

definition encodeLatinateSuffixes :: "Encoder \<Rightarrow> (bool \<times> Encoder) option"
    where
  "encodeLatinateSuffixes e =
     (if stringAt e 1 [''EOUS'', ''IOUS''] then do {
        let e = metaphAddAlt (rune CHR ''X'') (rune CHR ''S'') e;
        Some (True, e)
      }
      else Some (False, e))"

definition encodeCFrontVowel :: "Encoder \<Rightarrow> (bool \<times> Encoder) option" where
  "encodeCFrontVowel e =
     (if stringAt e 0 [''CI'', ''CE'', ''CY''] then do {
        (c, e) \<leftarrow> cascade [pur encodeBritishSilentCE, encodeCe, encodeCi,
            encodeLatinateSuffixes] e;
        if c then do {
          let e = advanceCounter 1 0 e;
          Some (True, e)
        }
        else do {
          let e = metaphAdd (rune CHR ''S'') e;
          let e = advanceCounter 1 0 e;
          Some (True, e)
        }
      }
      else Some (False, e))"

definition encodeSilentC :: "Encoder \<Rightarrow> bool" where
  "encodeSilentC e =
     (if stringAt e 1 [''T'', ''S''] \<and> stringStart e [''INDICT'', ''TUCSON'',
         ''CONNECTICUT''] then True
      else False)"

definition encodeCz :: "Encoder \<Rightarrow> (bool \<times> Encoder) option" where
  "encodeCz e =
     (if stringAt e 1 [''Z''] \<and> \<not> stringAt e (-1) [''ECZEMA''] then do {
        let e = (if stringAt e 0 [''CZAR''] then metaphAdd (rune CHR ''S'') e else metaphAdd
            (rune CHR ''X'') e);
        let e = e\<lparr>idx := idx e + 1\<rparr>;
        Some (True, e)
      }
      else Some (False, e))"

definition encodeCs :: "Encoder \<Rightarrow> (bool \<times> Encoder) option" where
  "encodeCs e =
     (if stringStart e [''KOVACS''] then do {
        let e = metaphAddStr ''KS'' ''X'' e;
        let e = e\<lparr>idx := idx e + 1\<rparr>;
        Some (True, e)
      }
      else (if stringAtEnd e (-1) [''ACS''] \<and> \<not> stringAt e (-4) [''ISAACS''] then do {
         let e = metaphAdd (rune CHR ''X'') e;
         let e = e\<lparr>idx := idx e + 1\<rparr>;
         Some (True, e)
       }
       else Some (False, e)))"

definition encodeC :: "Encoder \<Rightarrow> Encoder option" where
  "encodeC e =
     do {
       (c, e) \<leftarrow> cascade [pur encodeSilentCAtBeginning, encodeCaToS, encodeCoToS,
           encodeCh, encodeCcia, encodeCc, encodeCkCgCq, encodeCFrontVowel, pur encodeSilentC,
           encodeCz, encodeCs] e;
       if c then Some e
       else do {
         let e = (if \<not> stringAt e (-1) [''C'', ''K'', ''G'', ''Q''] then metaphAdd (rune
             CHR ''K'') e else e);
         if stringAt e 1 ['' C'', '' Q'', '' G''] then do {
           let e = e\<lparr>idx := idx e + 1\<rparr>;
           Some e
         }
         else (if stringAt e 1 [''C'', ''K'', ''Q''] \<and> \<not> stringAt e 1 [''CE'', ''CI'']
             then do {
            let e = e\<lparr>idx := idx e + 1\<rparr>;
            if stringAt e 1 [''C'', ''K'', ''Q''] \<and> \<not> stringAt e 2 [''CE'', ''CI'']
                then do {
              let e = e\<lparr>idx := idx e + 1\<rparr>;
              Some e
            }
            else Some e
          }
          else Some e)
       }
     }"

definition encodeDg :: "Encoder \<Rightarrow> (bool \<times> Encoder) option" where
  "encodeDg e =
     (if stringAt e 0 [''DG''] then do {
        let e = (if stringAt e 2 [''A'', ''O''] \<or> stringAt e 1 [''GUN'', ''GUT'', ''GEAR'',
            ''GLAS'', ''GRIP'', ''GREN'', ''GILL'', ''GRAF'', ''GUARD'', ''GUILT'', ''GRAVE'',
            ''GRASS'', ''GROUSE''] then metaphAddExactApprox ''DG'' ''TK'' e else metaphAdd
            (rune CHR ''J'') e);
        let e = e\<lparr>idx := idx e + 1\<rparr>;
        Some (True, e)
      }
      else Some (False, e))"

definition encodeDj :: "Encoder \<Rightarrow> (bool \<times> Encoder) option" where
  "encodeDj e =
     (if stringAt e 0 [''DJ''] then do {
        let e = metaphAdd (rune CHR ''J'') e;
        let e = e\<lparr>idx := idx e + 1\<rparr>;
        Some (True, e)
      }
      else Some (False, e))"

definition encodeDtDd :: "Encoder \<Rightarrow> (bool \<times> Encoder) option" where
  "encodeDtDd e =
     (if stringAt e 0 [''DT'', ''DD''] then do {
        let e = (if stringAt e 0 [''DTH''] then (let e = metaphAddExactApprox ''D0'' ''T0'' e; e
            = e\<lparr>idx := idx e + 2\<rparr> in e) else (let e = (if EncodeExact e then (if
            stringAt e 0 [''DT''] then metaphAdd (rune CHR ''T'') e else metaphAdd (rune CHR
            ''D'') e) else metaphAdd (rune CHR ''T'') e); e = e\<lparr>idx := idx e + 1\<rparr>
            in e));
        Some (True, e)
      }
      else Some (False, e))"

definition encodeDToJ :: "Encoder \<Rightarrow> (bool \<times> Encoder) option" where
  "encodeDToJ e =
     (if (stringAt e 0 [''DUL''] \<and> isVowelAt e (-1) \<and> isVowelAt e 3) \<or> stringAtEnd
         e (-1) [''LDIER'', ''NDEUR'', ''EDURE'', ''RDURE''] \<or> stringAt e (-3) [''CORDIAL'']
         \<or> stringAt e (-1) [''ADUA'', ''IDUA'', ''IDUU'', ''NDULA'', ''NDULU'', ''EDUCA'']
         then do {
        let e = metaphAddExactApproxAlt ''J'' ''D'' ''J'' ''T'' e;
        let e = advanceCounter 1 0 e;
        Some (True, e)
      }
      else Some (False, e))"

definition encodeDous :: "Encoder \<Rightarrow> (bool \<times> Encoder) option" where
  "encodeDous e =
     (if stringAt e 1 [''UOUS''] then do {
        let e = metaphAddExactApproxAlt ''J'' ''D'' ''J'' ''T'' e;
        let e = advanceCounter 3 0 e;
        Some (True, e)
      }
      else Some (False, e))"

definition encodeSilentD :: "Encoder \<Rightarrow> bool" where
  "encodeSilentD e =
     (stringAt e (-2) [''WEDNESDAY''] \<or> stringAt e (-3) [''HANDKER'', ''HANDSOM'',
         ''WINDSOR''] \<or> stringEnd e [''PERNOD'', ''ARTAUD'', ''RENAUD'', ''RIMBAUD'',
         ''MICHAUD'', ''BICHAUD''])"

definition encodeD :: "Encoder \<Rightarrow> Encoder option" where
  "encodeD e =
     do {
       (c, e) \<leftarrow> cascade [encodeDg, encodeDj, encodeDtDd, encodeDToJ, encodeDous, pur
           encodeSilentD] e;
       if c then Some e
       else (if EncodeExact e then (if stringAtEnd e (-3) [''SSED''] then do {
           let e = metaphAdd (rune CHR ''T'') e;
           Some e
         }
         else do {
           let e = metaphAdd (rune CHR ''D'') e;
           Some e
         })
        else do {
          let e = metaphAdd (rune CHR ''T'') e;
          Some e
        })
     }"

definition encodeF :: "Encoder \<Rightarrow> Encoder option" where
  "encodeF e =
     (if stringAt e (-1) [''OFTEN''] then do {
        let e = metaphAddStr ''F'' ''FT'' e;
        let e = e\<lparr>idx := idx e + 1\<rparr>;
        Some e
      }
      else do {
        c \<leftarrow> charNextIs e (rune CHR ''F'');
        let e = (if c then e\<lparr>idx := idx e + 1\<rparr> else e);
        let e = metaphAdd (rune CHR ''F'') e;
        Some e
      })"

definition encodeG :: "Encoder \<Rightarrow> Encoder option" where
  "encodeG e =
     (if \<not> stringAt e (-1) [''C'', ''K'', ''G'', ''Q''] then do {
        let e = metaphAddExactApprox ''G'' ''K'' e;
        Some e
      }
      else Some e)"

definition encodeInitialSilentH :: "Encoder \<Rightarrow> (bool \<times> Encoder) option" where
  "encodeInitialSilentH e =
     (if stringAt e 1 [''OUR'', ''ERB'', ''EIR'', ''ONOR'', ''ONOUR'', ''ONEST''] then do {
        let e = (if stringAtStart e 0 [''HERB''] then (if EncodeVowels e then metaphAddStr
            ''HA'' ''A'' e else metaphAddAlt (rune CHR ''H'') (rune CHR ''A'') e) else (if idx e
            = 0 \<or> EncodeVowels e then metaphAdd (rune CHR ''A'') e else e));
        at \<leftarrow> skipVowels e (idx e + 1);
        let e = e\<lparr>idx := at\<rparr>;
        Some (True, e)
      }
      else Some (False, e))"

definition encodeInitialHs :: "Encoder \<Rightarrow> (bool \<times> Encoder) option" where
  "encodeInitialHs e =
     (if stringAtStart e 0 [''HS''] then do {
        let e = metaphAdd (rune CHR ''X'') e;
        let e = e\<lparr>idx := idx e + 1\<rparr>;
        Some (True, e)
      }
      else Some (False, e))"

definition encodeNonInitialSilentH :: "Encoder \<Rightarrow> (bool \<times> Encoder) option"
    where
  "encodeNonInitialSilentH e =
     (if stringAt e (-2) [''NIHIL'', ''VEHEM'', ''LOHEN'', ''NEHEM'', ''MAHON'', ''MAHAN'',
         ''COHEN'', ''GAHAN''] \<or> stringAt e (-3) [''TOUHY'', ''GRAHAM'', ''PROHIB'',
         ''FRAHER'', ''TOOHEY'', ''TOUHEY''] \<or> stringStart e [''CHIHUAHUA''] then do {
        e \<leftarrow> (if EncodeVowels e then do {
          let e = e\<lparr>idx := idx e + 1\<rparr>;
          Some e
        }
        else do {
          at \<leftarrow> skipVowels e (idx e + 1);
          let e = e\<lparr>idx := at\<rparr>;
          Some e
        });
        Some (True, e)
      }
      else Some (False, e))"

definition encodeHPronounced :: "Encoder \<Rightarrow> (bool \<times> Encoder) option" where
  "encodeHPronounced e =
     do {
       c \<leftarrow> orelse (andalso (orelse (Some (idx e = 0 \<or> isVowelAt e (-1))) (andalso
           (Some (idx e > 0)) (charAt e (-1) (rune CHR ''W'')))) (Some (isVowelAt e 1)))
           (andalso (charNextIs e (rune CHR ''H'')) (Some (isVowelAt e 2)));
       if c then do {
         let e = metaphAdd (rune CHR ''H'') e;
         let e = advanceCounter 1 0 e;
         Some (True, e)
       }
       else Some (False, e)
     }"

definition encodeH :: "Encoder \<Rightarrow> Encoder option" where
  "encodeH e =
     do {
       (c, e) \<leftarrow> cascade [encodeInitialSilentH, encodeInitialHs, encodeInitialHuHw,
           encodeNonInitialSilentH] e;
       if c then Some e
       else do {
         (c, e) \<leftarrow> cNot encodeHPronounced e;
         if c then Some e
         else Some e
       }
     }"

definition encodeSpanishJ :: "Encoder \<Rightarrow> (bool \<times> Encoder) option" where
  "encodeSpanishJ e =
     do {
       c \<leftarrow> orelse (Some ((stringAt e 1 [''UAN'', ''ACI'', ''ALI'', ''EFE'', ''ICA'',
           ''IME'', ''OAQ'', ''UAR''] \<and> \<not> stringAt e 0 [''JIMERSON'', ''JIMERSEN''])
           \<or> stringAtEnd e 1 [''OSE''] \<or> stringAt e 1 [''EREZ'', ''UNTA'', ''AIME'',
           ''AVIE'', ''AVIA'', ''IMINEZ'', ''ARAMIL''] \<or> stringAtEnd e (-2) [''MEJIA'']
           \<or> stringAt e (-2) [''TEJED'', ''TEJAD'', ''LUJAN'', ''FAJAR'', ''BEJAR'',
           ''BOJOR'', ''CAJIG'', ''DEJAS'', ''DUJAR'', ''DUJAN'', ''MIJAR'', ''MEJOR'',
           ''NAJAR'', ''NOJOS'', ''RAJED'', ''RIJAL'', ''REJON'', ''TEJAN'', ''UIJAN''] \<or>
           stringAt e (-3) [''ALEJANDR'', ''GUAJARDO'', ''TRUJILLO''] \<or> (stringAt e (-2)
           [''RAJAS''] \<and> idx e > 2) \<or> (stringAt e (-2) [''MEJIA''] \<and> \<not>
           stringAt e (-2) [''MEJIAN'']) \<or> stringAt e (-1) [''OJEDA''] \<or> stringAt e (-3)
           [''LEIJA'', ''MINJA'', ''VIAJES'', ''GRAJAL''] \<or> stringAt e 0 [''JAUREGUI'']
           \<or> stringAt e (-4) [''HINOJOSA''] \<or> stringStart e [''SAN ''])) (andalso (Some
           (idx e + 1 = lastIdx e)) (andalso (charAt e 1 (rune CHR ''O'')) (Some (\<not>
           stringStart e [''TOJO'', ''BANJO'', ''MARYJO'']))));
       if c then do {
         let e = (if \<not> (stringAt e 0 [''JUAN''] \<or> stringAt e 0 [''JOAQ'']) then
             metaphAdd (rune CHR ''H'') e else (if idx e = 0 then metaphAdd (rune CHR ''A'') e
             else e));
         let e = advanceCounter 1 0 e;
         Some (True, e)
       }
       else (if stringAt e 1 [''ORGE'', ''ULIO'', ''ESUS''] \<and> \<not> stringStart e
           [''JORGEN''] then (if stringAtEnd e 1 [''ORGE''] then do {
           let e = (if EncodeVowels e then metaphAddStr ''JARJ'' ''HARHA'' e else metaphAddStr
               ''JRJ'' ''HRH'' e);
           let e = advanceCounter 4 4 e;
           Some (True, e)
         }
         else do {
           let e = metaphAddAlt (rune CHR ''J'') (rune CHR ''H'') e;
           let e = advanceCounter 1 0 e;
           Some (True, e)
         })
        else Some (False, e))
     }"

definition encodeSpanishOjUj :: "Encoder \<Rightarrow> (bool \<times> Encoder) option" where
  "encodeSpanishOjUj e =
     (if stringAt e 1 [''OJOBA'', ''UJUY''] then do {
        let e = (if EncodeVowels e then metaphAddStr ''HAH'' ''HAH'' e else metaphAddStr ''HH''
            ''HH'' e);
        let e = advanceCounter 3 2 e;
        Some (True, e)
      }
      else Some (False, e))"

definition encodeGermanJ :: "Encoder \<Rightarrow> (bool \<times> Encoder) option" where
  "encodeGermanJ e =
     do {
       c \<leftarrow> orelse (Some (stringAt e 1 [''AH'', ''UGO''] \<or> stringExact e
           [''JOHANN''])) (andalso (Some (stringAt e 1 [''UNG''])) (nott (charAt e 4 (rune CHR
           ''L''))));
       if c then do {
         let e = metaphAdd (rune CHR ''A'') e;
         let e = advanceCounter 1 0 e;
         Some (True, e)
       }
       else Some (False, e)
     }"

definition namesBeginningWithJThatGetAltY :: "Encoder \<Rightarrow> bool" where
  "namesBeginningWithJThatGetAltY e =
     (stringStart e [''JAN'', ''JON'', ''JAN'', ''JIN'', ''JEN'', ''JUHL'', ''JULY'', ''JOEL'',
         ''JOHN'', ''JOSH'', ''JUDE'', ''JUNE'', ''JONI'', ''JULI'', ''JENA'', ''JUNG'',
         ''JINA'', ''JANA'', ''JENI'', ''JOEL'', ''JANN'', ''JONA'', ''JENE'', ''JULE'',
         ''JANI'', ''JONG'', ''JOHN'', ''JEAN'', ''JUNG'', ''JONE'', ''JARA'', ''JUST'',
         ''JOST'', ''JAHN'', ''JACO'', ''JANG'', ''JUDE'', ''JONE'', ''JOANN'', ''JANEY'',
         ''JANAE'', ''JOANA'', ''JUTTA'', ''JULEE'', ''JANAY'', ''JANEE'', ''JETTA'', ''JOHNA'',
         ''JOANE'', ''JAYNA'', ''JANES'', ''JONAS'', ''JONIE'', ''JUSTA'', ''JUNIE'', ''JUNKO'',
         ''JENAE'', ''JULIO'', ''JINNY'', ''JOHNS'', ''JACOB'', ''JETER'', ''JAFFE'', ''JESKE'',
         ''JANKE'', ''JAGER'', ''JANIK'', ''JANDA'', ''JOSHI'', ''JULES'', ''JANTZ'', ''JEANS'',
         ''JUDAH'', ''JANUS'', ''JENNY'', ''JENEE'', ''JONAH'', ''JONAS'', ''JACOB'', ''JOSUE'',
         ''JOSEF'', ''JULES'', ''JULIE'', ''JULIA'', ''JANIE'', ''JANIS'', ''JENNA'', ''JANNA'',
         ''JEANA'', ''JENNI'', ''JEANE'', ''JONNA'', ''JORDAN'', ''JORDON'', ''JOSEPH'',
         ''JOSHUA'', ''JOSIAH'', ''JOSPEH'', ''JUDSON'', ''JULIAN'', ''JULIUS'', ''JUNIOR'',
         ''JUDITH'', ''JOESPH'', ''JOHNIE'', ''JOANNE'', ''JEANNE'', ''JOANNA'', ''JOSEFA'',
         ''JULIET'', ''JANNIE'', ''JANELL'', ''JASMIN'', ''JANINE'', ''JOHNNY'', ''JEANIE'',
         ''JEANNA'', ''JOHNNA'', ''JOELLE'', ''JOVITA'', ''JOSEPH'', ''JONNIE'', ''JANEEN'',
         ''JANINA'', ''JOANIE'', ''JAZMIN'', ''JOHNIE'', ''JANENE'', ''JOHNNY'', ''JONELL'',
         ''JENELL'', ''JANETT'', ''JANETH'', ''JENINE'', ''JOELLA'', ''JOEANN'', ''JULIAN'',
         ''JOHANA'', ''JENICE'', ''JANNET'', ''JANISE'', ''JULENE'', ''JOSHUA'', ''JANEAN'',
         ''JAIMEE'', ''JOETTE'', ''JANYCE'', ''JENEVA'', ''JORDAN'', ''JACOBS'', ''JENSEN'',
         ''JOSEPH'', ''JANSEN'', ''JORDON'', ''JULIAN'', ''JAEGER'', ''JACOBY'', ''JENSON'',
         ''JARMAN'', ''JOSLIN'', ''JESSEN'', ''JAHNKE'', ''JACOBO'', ''JULIEN'', ''JOSHUA'',
         ''JEPSON'', ''JULIUS'', ''JANSON'', ''JACOBI'', ''JUDSON'', ''JARBOE'', ''JOHSON'',
         ''JANZEN'', ''JETTON'', ''JUNKER'', ''JONSON'', ''JAROSZ'', ''JENNER'', ''JAGGER'',
         ''JASMIN'', ''JEPSEN'', ''JORDEN'', ''JANNEY'', ''JUHASZ'', ''JERGEN'', ''JAKOB'',
         ''JOHNSON'', ''JOHNNIE'', ''JASMINE'', ''JEANNIE'', ''JOHANNA'', ''JANELLE'',
         ''JANETTE'', ''JULIANA'', ''JUSTINA'', ''JOSETTE'', ''JOELLEN'', ''JENELLE'',
         ''JULIETA'', ''JULIANN'', ''JULISSA'', ''JENETTE'', ''JANETTA'', ''JOSELYN'',
         ''JONELLE'', ''JESENIA'', ''JANESSA'', ''JAZMINE'', ''JEANENE'', ''JOANNIE'',
         ''JADWIGA'', ''JOLANDA'', ''JULIANE'', ''JANUARY'', ''JEANICE'', ''JANELLA'',
         ''JEANETT'', ''JENNINE'', ''JOHANNE'', ''JOHNSIE'', ''JANIECE'', ''JOHNSON'',
         ''JENNELL'', ''JAMISON'', ''JANSSEN'', ''JOHNSEN'', ''JARDINE'', ''JAGGERS'',
         ''JURGENS'', ''JOURDAN'', ''JULIANO'', ''JOSEPHS'', ''JHONSON'', ''JOZWIAK'',
         ''JANICKI'', ''JELINEK'', ''JANSSON'', ''JOACHIM'', ''JANELLE'', ''JACOBUS'',
         ''JENNING'', ''JANTZEN'', ''JOHNNIE'', ''JOSEFINA'', ''JEANNINE'', ''JULIANNE'',
         ''JULIANNA'', ''JONATHAN'', ''JONATHON'', ''JEANETTE'', ''JANNETTE'', ''JEANETTA'',
         ''JOHNETTA'', ''JENNEFER'', ''JULIENNE'', ''JOSPHINE'', ''JEANELLE'', ''JOHNETTE'',
         ''JULIEANN'', ''JOSEFINE'', ''JULIETTA'', ''JOHNSTON'', ''JACOBSON'', ''JACOBSEN'',
         ''JOHANSEN'', ''JOHANSON'', ''JAWORSKI'', ''JENNETTE'', ''JELLISON'', ''JOHANNES'',
         ''JASINSKI'', ''JUERGENS'', ''JARNAGIN'', ''JEREMIAH'', ''JEPPESEN'', ''JARNIGAN'',
         ''JANOUSEK'', ''JOHNATHAN'', ''JOHNATHON'', ''JORGENSEN'', ''JEANMARIE'',
         ''JOSEPHINA'', ''JEANNETTE'', ''JOSEPHINE'', ''JEANNETTA'', ''JORGENSON'',
         ''JANKOWSKI'', ''JOHNSTONE'', ''JABLONSKI'', ''JOSEPHSON'', ''JOHANNSEN'',
         ''JURGENSEN'', ''JIMMERSON'', ''JOHANSSON'', ''JAKUBOWSKI''])"

definition encodeJToJ :: "Encoder \<Rightarrow> (bool \<times> Encoder) option" where
  "encodeJToJ e =
     (if isVowelAt e 1 then do {
        let e = (if idx e = 0 \<and> namesBeginningWithJThatGetAltY e then (if EncodeVowels e
            then metaphAddStr ''JA'' ''A'' e else metaphAddAlt (rune CHR ''J'') (rune CHR ''A'')
            e) else (if EncodeVowels e then metaphAddStr ''JA'' ''JA'' e else metaphAdd (rune
            CHR ''J'') e));
        at \<leftarrow> skipVowels e (idx e + 1);
        let e = e\<lparr>idx := at\<rparr>;
        Some (False, e)
      }
      else do {
        let e = metaphAdd (rune CHR ''J'') e;
        Some (True, e)
      })"

definition encodeSpanishJ2 :: "Encoder \<Rightarrow> (bool \<times> Encoder) option" where
  "encodeSpanishJ2 e =
     (if stringAtStart e (-2) [''BOJA'', ''BAJA'', ''BEJA'', ''BOJO'', ''MOJA'', ''MOJI'',
         ''MEJI''] \<or> stringAtStart e (-3) [''FRIJO'', ''BRUJO'', ''BRUJA'', ''GRAJE'',
         ''GRIJA'', ''LEIJA'', ''QUIJA''] \<or> (stringAtEnd e (-1) [''OJA'', ''EJA'', ''AJOS'',
         ''EJOS'', ''OJAS'', ''OJOS'', ''UJON'', ''AJOZ'', ''AJAL'', ''UJAR'', ''EJON'',
         ''EJAN'', ''AJARA''] \<and> \<not> stringStart e [''DEJA'']) then do {
        let e = metaphAdd (rune CHR ''H'') e;
        let e = advanceCounter 1 0 e;
        Some (True, e)
      }
      else Some (False, e))"

definition encodeJAsVowel :: "Encoder \<Rightarrow> (bool \<times> Encoder) option" where
  "encodeJAsVowel e =
     (if stringAt e 0 [''JEWSK''] then do {
        let e = metaphAddAlt (rune CHR ''J'') ReplacementChar e;
        Some (True, e)
      }
      else (if (stringAt e 1 [''L'', ''T'', ''K'', ''S'', ''N'', ''M''] \<and> \<not> stringAt e
          2 [''A'']) \<or> stringStart e [''FJ'', ''WOJ'', ''LJUB'', ''BJOR'', ''HAJEK'',
          ''HALLELUJA'', ''LJUBLJANA''] \<or> stringAt e 0 [''JAVIK'', ''JEVIC''] \<or>
          stringExact e [''SONJA'', ''TANJA'', ''TONJA''] then Some (True, e)
       else Some (False, e)))"

definition encodeJ :: "Encoder \<Rightarrow> Encoder option" where
  "encodeJ e =
     do {
       (c, e) \<leftarrow> cascade [encodeSpanishJ, encodeSpanishOjUj] e;
       if c then Some e
       else (if idx e = 0 then do {
          (c, e) \<leftarrow> encodeGermanJ e;
          if c then Some e
          else do {
            (c, e) \<leftarrow> encodeJToJ e;
            if c then Some e
            else Some e
          }
        }
        else do {
          (c, e) \<leftarrow> encodeSpanishJ2 e;
          if c then Some e
          else do {
            (c, e) \<leftarrow> cNot encodeJAsVowel e;
            let e = (if c then metaphAdd (rune CHR ''J'') e else e);
            c \<leftarrow> charNextIs e (rune CHR ''J'');
            if c then do {
              let e = e\<lparr>idx := idx e + 1\<rparr>;
              Some e
            }
            else Some e
          }
        })
     }"

definition encodeSilentK :: "Encoder \<Rightarrow> (bool \<times> Encoder) option" where
  "encodeSilentK e =
     do {
       let rest = (\<lambda>e. (if (stringAt e 1 [''NOW'', ''NIT'', ''NOT'', ''NOB''] \<and>
           \<not> stringStart e [''BANKNOTE'']) \<or> stringAt e 1 [''NOCK'', ''NUCK'',
           ''NIFE'', ''NACK'', ''NIGHT''] then do {
            c \<leftarrow> andalso (Some (idx e > 0)) (charAt e (-1) (rune CHR ''N''));
            let e = (if c then e\<lparr>idx := idx e + 1\<rparr> else e);
            Some (True, e)
          }
          else Some (False, e)));
       if idx e = 0 \<and> stringStart e [''KN''] then (if \<not> stringAt e 2 [''ISH'',
           ''ESSET'', ''IEVEL''] then Some (True, e)
        else rest e)
       else rest e
     }"

definition encodeK :: "Encoder \<Rightarrow> Encoder option" where
  "encodeK e =
     do {
       (c, e) \<leftarrow> cNot encodeSilentK e;
       if c then do {
         let e = metaphAdd (rune CHR ''K'') e;
         c \<leftarrow> orelse (charAt e 1 (rune CHR ''K'')) (charAt e 1 (rune CHR ''Q''));
         if c then do {
           let e = e\<lparr>idx := idx e + 1\<rparr>;
           Some e
         }
         else Some e
       }
       else Some e
     }"

definition interpolateVowelWhenConsLAtEnd :: "Encoder \<Rightarrow> Encoder option" where
  "interpolateVowelWhenConsLAtEnd e =
     (if EncodeVowels e \<and> stringAtEnd e (-1) [''DL'', ''GL'', ''TL''] then do {
        let e = metaphAdd (rune CHR ''A'') e;
        Some e
      }
      else Some e)"

definition encodeLelyToL :: "Encoder \<Rightarrow> (bool \<times> Encoder) option" where
  "encodeLelyToL e =
     (if stringAtEnd e (-1) [''ILELY''] then do {
        let e = metaphAdd (rune CHR ''L'') e;
        let e = e\<lparr>idx := idx e + 2\<rparr>;
        Some (True, e)
      }
      else Some (False, e))"

definition encodeColonel :: "Encoder \<Rightarrow> (bool \<times> Encoder) option" where
  "encodeColonel e =
     (if stringAt e (-2) [''COLONEL''] then do {
        let e = metaphAdd (rune CHR ''R'') e;
        let e = e\<lparr>idx := idx e + 1\<rparr>;
        Some (True, e)
      }
      else Some (False, e))"

definition encodeFrenchAult :: "Encoder \<Rightarrow> (bool \<times> Encoder) option" where
  "encodeFrenchAult e =
     do {
       c \<leftarrow> andalso (Some (idx e > 3 \<and> (stringAt e (-3) [''RAULT'', ''NAULT'',
           ''BAULT'', ''SAULT'', ''GAULT'', ''CAULT''] \<or> stringAt e (-4) [''REAULT'',
           ''RIAULT'', ''NEAULT'', ''BEAULT'']))) (nott (orelse (rootOrInflections (inp e)
           ''ASSAULT'') (Some (stringAt e (-8) [''SOMERSAULT''] \<or> stringAt e (-9)
           [''SUMMERSAULT'']))));
       if c then do {
         let e = e\<lparr>idx := idx e + 1\<rparr>;
         Some (True, e)
       }
       else Some (False, e)
     }"

definition encodeFrenchEuil :: "Encoder \<Rightarrow> bool" where
  "encodeFrenchEuil e =
     (if stringAtEnd e (-3) [''EUIL''] then True
      else False)"

definition encodeFrenchOulx :: "Encoder \<Rightarrow> (bool \<times> Encoder) option" where
  "encodeFrenchOulx e =
     (if stringAtEnd e (-2) [''OULX''] then do {
        let e = e\<lparr>idx := idx e + 1\<rparr>;
        Some (True, e)
      }
      else Some (False, e))"

definition encodeSilentLInLm :: "Encoder \<Rightarrow> (bool \<times> Encoder) option" where
  "encodeSilentLInLm e =
     (if stringAt e 0 [''LM'', ''LN''] then do {
        let e = (if (stringAt e (-2) [''COLN'', ''CALM'', ''BALM'', ''MALM'', ''PALM''] \<or>
            stringAtEnd e (-1) [''OLM''] \<or> stringAt e (-3) [''PSALM'', ''QUALM''] \<or>
            stringAt e (-2) [''SALMON'', ''HOLMES''] \<or> stringAt e (-1) [''ALMOND''] \<or>
            stringAtStart e (-1) [''ALMS'']) \<and> \<not> stringAt e 2 [''A''] \<and> \<not>
            stringAt e (-2) [''BALMO'', ''PALMER'', ''PALMOR'', ''BALMER''] \<and> \<not>
            stringAt e (-3) [''THALM''] then e else metaphAdd (rune CHR ''L'') e);
        Some (True, e)
      }
      else Some (False, e))"

definition encodeSilentLInLkLv :: "Encoder \<Rightarrow> bool" where
  "encodeSilentLInLkLv e =
     (if (stringAt e (-2) [''WALK'', ''YOLK'', ''FOLK'', ''HALF'', ''TALK'', ''CALF'', ''BALK'',
         ''CALK''] \<or> (stringAt e (-2) [''POLK'', ''HALV'', ''SALVE'', ''CALVE'', ''SOLDER'']
         \<and> \<not> stringAt e (-2) [''POLKA'', ''PALKO'', ''HALVA'', ''HALVO'', ''SALVER'',
         ''CALVER'']) \<or> (stringAt e (-3) [''CAULK'', ''CHALK'', ''BAULK'', ''FAULK''] \<and>
         \<not> stringAt e (-4) [''SCHALK''])) \<and> \<not> stringAt e (-5) [''GONSALVES'',
         ''GONCALVES''] \<and> \<not> stringAt e (-2) [''BALKAN'', ''TALKAL''] \<and> \<not>
         stringAt e (-3) [''PAULK'', ''CHALF''] then True
      else False)"

definition encodeSilentLInOuld :: "Encoder \<Rightarrow> (bool \<times> Encoder) option" where
  "encodeSilentLInOuld e =
     (if stringAt e (-3) [''WOULD'', ''COULD''] \<or> (stringAt e (-4) [''SHOULD''] \<and>
         \<not> stringAt e (-4) [''SHOULDER'']) then do {
        let e = metaphAddExactApprox ''D'' ''T'' e;
        let e = e\<lparr>idx := idx e + 1\<rparr>;
        Some (True, e)
      }
      else Some (False, e))"

definition encodeLlAsVowelSpecialCases :: "Encoder \<Rightarrow> (bool \<times> Encoder) option"
    where
  "encodeLlAsVowelSpecialCases e =
     (if stringAt e (-5) [''TORTILLA''] \<or> stringAt e (-8) [''RATATOUILLE''] \<or>
         (stringStart e [''GUILL'', ''VEILL'', ''GAILL''] \<and> \<not> (stringAt e (-3)
         [''GUILLOT'', ''GUILLOR'', ''GUILLEN''] \<or> stringExact e [''GUILL''])) \<or>
         stringStart e [''ROBILL'', ''BROUILL'', ''GREMILL''] \<or> (stringAtEnd e (-2)
         [''EILLE''] \<and> \<not> stringAt e (-5) [''REVEILLE'']) then do {
        let e = e\<lparr>idx := idx e + 1\<rparr>;
        Some (True, e)
      }
      else Some (False, e))"

definition encodeLlAsVowel :: "Encoder \<Rightarrow> (bool \<times> Encoder) option" where
  "encodeLlAsVowel e =
     (if stringAtEnd e (-1) [''ILLO'', ''ILLA'', ''ALLE''] \<or> (stringEnd e [''A'', ''O'',
         ''AS'', ''OS''] \<and> stringAt e (-1) [''AL'', ''IL''] \<and> \<not> stringAt e (-1)
         [''ALLA'']) \<or> stringStart e [''LLA'', ''VILLE'', ''VILLA'', ''GALLARDO'',
         ''VALLADAR'', ''MAGALLAN'', ''CAVALLAR'', ''BALLASTE''] then do {
        let e = metaphAddAlt (rune CHR ''L'') ReplacementChar e;
        let e = e\<lparr>idx := idx e + 1\<rparr>;
        Some (True, e)
      }
      else Some (False, e))"

definition encodeLlAsVowelCases :: "Encoder \<Rightarrow> (bool \<times> Encoder) option" where
  "encodeLlAsVowelCases e =
     do {
       c \<leftarrow> charNextIs e (rune CHR ''L'');
       if c then do {
         let rest = (\<lambda>e. do {
             let e = e\<lparr>idx := idx e + 1\<rparr>;
             Some (False, e)
           });
         (c, e) \<leftarrow> encodeLlAsVowelSpecialCases e;
         if c then Some (True, e)
         else do {
           (c, e) \<leftarrow> encodeLlAsVowel e;
           if c then Some (True, e)
           else rest e
         }
       }
       else Some (False, e)
     }"

definition encodeVowelLeTransposition :: "int \<Rightarrow> Encoder \<Rightarrow> (bool \<times>
    Encoder) option" where
  "encodeVowelLeTransposition idx' e =
     do {
       let offset = idx e - idx';
       c \<leftarrow> andalso (Some (EncodeVowels e \<and> idx' > 1 \<and> \<not> isVowelAt e
           (offset - 1))) (andalso (charAt e (offset + 1) (rune CHR ''E'')) (andalso (nott
           (charAt e (offset - 1) (rune CHR ''L''))) (andalso (nott (charAt e (offset - 1) (rune
           CHR ''R''))) (andalso (Some (\<not> isVowelAt e (offset + 2) \<and> \<not>
           stringStart e [''MCCLE'', ''MCLEL'', ''EMBLEM'', ''KADLEC'', ''ECCLESI'',
           ''COMPLEC'', ''COMPLEJ'', ''ROBLEDO''] \<and> \<not> (idx' + 2 = lastIdx e \<and>
           stringAt e offset [''LET'']) \<and> \<not> stringAt e offset [''LEG'', ''LER'',
           ''LEX'', ''LESS'', ''LESQ'', ''LECT'', ''LEDG'', ''LETE'', ''LETH'', ''LETS'',
           ''LETT'', ''LETUS'', ''LETIV'', ''LETELY'', ''LETTER'', ''LETION'', ''LETIAN'',
           ''LETING'', ''LETORY'', ''LETTING''] \<and> \<not> (stringAt e offset [''LEMENT'']
           \<and> \<not> (stringAt e (-5) [''BATTLE'', ''TANGLE'', ''PUZZLE'', ''RABBLE'',
           ''BABBLE''] \<or> stringAt e (-4) [''TABLE''])) \<and> \<not> (idx' + 2 = lastIdx e
           \<and> stringAt e (offset - 2) [''OCLES'', ''ACLES'', ''AKLES'']) \<and> \<not>
           stringAt e (offset - 3) [''LISLE'', ''AISLE''] \<and> \<not> stringStart e [''ISLE'']
           \<and> \<not> stringStart e [''ROBLES''] \<and> \<not> stringAt e (offset - 4)
           [''PROBLEM'', ''RESPLEN''] \<and> \<not> stringAt e (offset - 3) [''REPLEN''] \<and>
           \<not> stringAt e (offset - 2) [''SPLE''])) (andalso (nott (charAt e (offset - 1)
           (rune CHR ''H''))) (nott (charAt e (offset - 1) (rune CHR ''W''))))))));
       if c then do {
         let e = metaphAddStr ''AL'' ''AL'' e;
         let e = e\<lparr>flagAlInversion := True\<rparr>;
         c \<leftarrow> charAt e (offset + 2) (rune CHR ''L'');
         let e = (if c then e\<lparr>idx := idx' + 2\<rparr> else e);
         Some (True, e)
       }
       else Some (False, e)
     }"

definition encodeVowelPreserveVowelAfterL :: "int \<Rightarrow> Encoder \<Rightarrow> (bool
    \<times> Encoder) option" where
  "encodeVowelPreserveVowelAfterL idx' e =
     do {
       let offset = idx' - idx e;
       c \<leftarrow> andalso (Some (EncodeVowels e \<and> \<not> isVowelAt e (offset - 1)))
           (andalso (charAt e (offset + 1) (rune CHR ''E'')) (Some (idx' > 1 \<and> idx' + 1
           \<noteq> lastIdx e \<and> \<not> (stringAt e (offset + 1) [''ES'', ''ED''] \<and>
           idx' + 2 = lastIdx e) \<and> \<not> stringAt e (offset - 1) [''RLEST''])));
       if c then do {
         let e = metaphAddStr ''LA'' ''LA'' e;
         at \<leftarrow> skipVowels e (idx e + 1);
         let e = e\<lparr>idx := at\<rparr>;
         Some (True, e)
       }
       else Some (False, e)
     }"

definition encodeLeCases :: "int \<Rightarrow> Encoder \<Rightarrow> Encoder option" where
  "encodeLeCases idx' e =
     do {
       (c, e) \<leftarrow> encodeVowelLeTransposition idx' e;
       if c then Some e
       else do {
         (c, e) \<leftarrow> encodeVowelPreserveVowelAfterL idx' e;
         if c then Some e
         else do {
           let e = metaphAdd (rune CHR ''L'') e;
           Some e
         }
       }
     }"

definition encodeL :: "Encoder \<Rightarrow> Encoder option" where
  "encodeL e =
     do {
       let saveIdx = idx e;
       e \<leftarrow> interpolateVowelWhenConsLAtEnd e;
       (c, e) \<leftarrow> cascade [encodeLelyToL, encodeColonel, encodeFrenchAult, pur
           encodeFrenchEuil, encodeFrenchOulx, encodeSilentLInLm, pur encodeSilentLInLkLv,
           encodeSilentLInOuld] e;
       if c then Some e
       else do {
         (c, e) \<leftarrow> encodeLlAsVowelCases e;
         if c then Some e
         else do {
           e \<leftarrow> encodeLeCases saveIdx e;
           Some e
         }
       }
     }"

definition encodeSilentMAtBeginning :: "Encoder \<Rightarrow> bool" where
  "encodeSilentMAtBeginning e =
     (stringAtStart e 0 [''MN''])"

definition encodeMrAndMrs :: "Encoder \<Rightarrow> (bool \<times> Encoder) option" where
  "encodeMrAndMrs e =
     (if stringExact e [''MR''] then do {
        let e = (if EncodeVowels e then metaphAddStr ''MASTAR'' ''MASTAR'' e else metaphAddStr
            ''MSTR'' ''MSTR'' e);
        let e = e\<lparr>idx := idx e + 1\<rparr>;
        Some (True, e)
      }
      else (if stringExact e [''MRS''] then do {
         let e = (if EncodeVowels e then metaphAddStr ''MASAS'' ''MASAS'' e else metaphAddStr
             ''MSS'' ''MSS'' e);
         let e = e\<lparr>idx := idx e + 2\<rparr>;
         Some (True, e)
       }
       else Some (False, e)))"

definition encodeMac :: "Encoder \<Rightarrow> (bool \<times> Encoder) option" where
  "encodeMac e =
     (if stringAtStart e 0 [''MC'', ''MACIVER'', ''MACEWEN'', ''MACELROY'', ''MACILROY'',
         ''MACINTOSH''] then do {
        let e = (if EncodeVowels e then metaphAddStr ''MAK'' ''MAK'' e else metaphAddStr ''MK''
            ''MK'' e);
        let e = (if stringStart e [''MC''] then (if stringAt e 2 [''K'', ''G'', ''Q''] \<and>
            \<not> stringAt e 2 [''GEOR''] then e\<lparr>idx := idx e + 2\<rparr> else
            e\<lparr>idx := idx e + 1\<rparr>) else e\<lparr>idx := idx e + 2\<rparr>);
        Some (True, e)
      }
      else Some (False, e))"

definition encodeMpt :: "Encoder \<Rightarrow> (bool \<times> Encoder) option" where
  "encodeMpt e =
     (if stringAt e (-2) [''COMPTROL''] \<or> stringAt e (-4) [''ACCOMPT''] then do {
        let e = metaphAdd (rune CHR ''N'') e;
        let e = e\<lparr>idx := idx e + 1\<rparr>;
        Some (True, e)
      }
      else Some (False, e))"

definition testSilentMb1 :: "Encoder \<Rightarrow> bool" where
  "testSilentMb1 e =
     (stringAtStart e (-3) [''THUMB''] \<or> stringAtStart e (-2) [''DUMB'', ''BOMB'', ''DAMN'',
         ''LAMB'', ''NUMB'', ''TOMB''])"

definition testPronouncedMb :: "Encoder \<Rightarrow> bool" where
  "testPronouncedMb e =
     (stringAt e (-2) [''NUMBER''] \<or> (stringAt e 2 [''A'', ''O''] \<and> \<not> stringAt e
         (-2) [''DUMBASS'']) \<or> stringAt e (-2) [''LAMBEN'', ''LAMBER'', ''LAMBET'',
         ''TOMBIG'', ''LAMBRE''])"

definition testSilentMb2 :: "Encoder \<Rightarrow> bool option" where
  "testSilentMb2 e =
     (andalso (charNextIs e (rune CHR ''B'')) (Some (idx e > 1 \<and> (idx e + 1 = lastIdx e
         \<or> stringAt e 2 [''ING'', ''ABL'', ''LIKE''] \<or> stringAtEnd e 2 [''S''] \<or>
         stringAt e (-5) [''BUNCOMB''] \<or> (stringAtEnd e 2 [''ED'', ''ER''] \<and>
         (stringStart e [''CLIMB'', ''PLUMB''] \<or> \<not> stringAt e (-1) [''IMBER'',
         ''AMBER'', ''EMBER'', ''UMBER'']) \<and> \<not> stringAt e (-2) [''CUMBER'',
         ''SOMBER''])))))"

definition testPronouncedMb2 :: "Encoder \<Rightarrow> bool" where
  "testPronouncedMb2 e =
     (stringAt e (-1) [''OMBAS'', ''OMBAD'', ''UMBRA''] \<or> stringAt e (-3) [''FLAM''])"

definition testMn :: "Encoder \<Rightarrow> bool option" where
  "testMn e =
     (andalso (charNextIs e (rune CHR ''N'')) (Some ((idx e + 1 = lastIdx e \<or> stringAtEnd e
         2 [''S'', ''LY'', ''ER'', ''ED'', ''ING'', ''EST''] \<or> stringAt e (-2)
         [''DAMNEDEST''] \<or> stringAt e (-5) [''GODDAMNIT'']))))"

definition encodeMb :: "Encoder \<Rightarrow> Encoder option" where
  "encodeMb e =
     (if testSilentMb1 e then (if \<not> testPronouncedMb e then do {
         let e = e\<lparr>idx := idx e + 1\<rparr>;
         Some e
       }
       else Some e)
      else do {
        c \<leftarrow> testSilentMb2 e;
        if c then (if \<not> testPronouncedMb2 e then do {
           let e = e\<lparr>idx := idx e + 1\<rparr>;
           Some e
         }
         else Some e)
        else do {
          c \<leftarrow> orelse (testMn e) (charNextIs e (rune CHR ''M''));
          if c then do {
            let e = e\<lparr>idx := idx e + 1\<rparr>;
            Some e
          }
          else Some e
        }
      })"

definition encodeM :: "Encoder \<Rightarrow> Encoder option" where
  "encodeM e =
     do {
       (c, e) \<leftarrow> cascade [pur encodeSilentMAtBeginning, encodeMrAndMrs, encodeMac,
           encodeMpt] e;
       if c then Some e
       else do {
         e \<leftarrow> encodeMb e;
         let e = metaphAdd (rune CHR ''M'') e;
         Some e
       }
     }"

definition encodeNce :: "Encoder \<Rightarrow> (bool \<times> Encoder) option" where
  "encodeNce e =
     do {
       c \<leftarrow> andalso (Some (stringAt e 1 [''C'', ''S''] \<and> stringAt e 2 [''E'',
           ''Y'', ''I''])) (orelse (Some (idx e + 2 = lastIdx e)) (andalso (Some (idx e + 3 =
           lastIdx e)) (charAt e 3 (rune CHR ''S''))));
       if c then do {
         let e = metaphAddStr ''NTS'' ''NTS'' e;
         let e = e\<lparr>idx := idx e + 1\<rparr>;
         Some (True, e)
       }
       else Some (False, e)
     }"

definition encodeN :: "Encoder \<Rightarrow> Encoder option" where
  "encodeN e =
     do {
       (c, e) \<leftarrow> encodeNce e;
       if c then Some e
       else do {
         c \<leftarrow> charNextIs e (rune CHR ''N'');
         let e = (if c then e\<lparr>idx := idx e + 1\<rparr> else e);
         if \<not> stringAt e (-3) [''MONSIEUR''] \<and> \<not> stringAt e (-3) [''NENESS'']
             then do {
           let e = metaphAdd (rune CHR ''N'') e;
           Some e
         }
         else Some e
       }
     }"

definition encodeSilentPAtBeginning :: "Encoder \<Rightarrow> bool" where
  "encodeSilentPAtBeginning e =
     (stringAtStart e 0 [''PN'', ''PF'', ''PS'', ''PT''])"

definition encodePt :: "Encoder \<Rightarrow> (bool \<times> Encoder) option" where
  "encodePt e =
     do {
       c \<leftarrow> andalso (charNextIs e (rune CHR ''T'')) (Some ((stringAtStart e 0
           [''PTERO''] \<or> stringAt e (-5) [''RECEIPT''] \<or> stringAt e (-4)
           [''ASYMPTOT''])));
       if c then do {
         let e = metaphAdd (rune CHR ''T'') e;
         let e = e\<lparr>idx := idx e + 1\<rparr>;
         Some (True, e)
       }
       else Some (False, e)
     }"

definition encodePh :: "Encoder \<Rightarrow> (bool \<times> Encoder) option" where
  "encodePh e =
     do {
       c \<leftarrow> charNextIs e (rune CHR ''H'');
       if c then do {
         let e = (if stringAt e 0 [''PHTHALEIN''] \<or> stringAtStart e 0 [''PHTH''] \<or>
             stringAt e (-3) [''APOPHTHEGM''] then (let e = metaphAdd (rune CHR ''0'') e; e =
             e\<lparr>idx := idx e + 3\<rparr> in e) else (if idx e > 0 \<and> stringAt e 2
             [''AM'', ''EAD'', ''OLE'', ''ELD'', ''ILL'', ''OLD'', ''EAP'', ''ERD'', ''ARD'',
             ''ANG'', ''ORN'', ''EAV'', ''ART'', ''OUSE'', ''AMMER'', ''AZARD'', ''UGGER'',
             ''OLSTER''] \<and> \<not> stringAt e (-1) [''LPHAM''] \<and> \<not> stringAt e (-3)
             [''LYMPH'', ''NYMPH''] then (let e = metaphAdd (rune CHR ''P'') e; e =
             advanceCounter 2 1 e in e) else (let e = metaphAdd (rune CHR ''F'') e; e =
             e\<lparr>idx := idx e + 1\<rparr> in e)));
         Some (True, e)
       }
       else Some (False, e)
     }"

definition encodePph :: "Encoder \<Rightarrow> (bool \<times> Encoder) option" where
  "encodePph e =
     do {
       c \<leftarrow> andalso (charNextIs e (rune CHR ''P'')) (andalso (Some (idx e + 2 < int
           (length (inp e)))) (charAt e 2 (rune CHR ''H'')));
       if c then do {
         let e = metaphAdd (rune CHR ''F'') e;
         let e = e\<lparr>idx := idx e + 2\<rparr>;
         Some (True, e)
       }
       else Some (False, e)
     }"

definition encodeRps :: "Encoder \<Rightarrow> (bool \<times> Encoder) option" where
  "encodeRps e =
     (if stringAt e (-3) [''CORPS''] \<and> \<not> stringAt e (-3) [''CORPSE''] then do {
        let e = e\<lparr>idx := idx e + 1\<rparr>;
        Some (True, e)
      }
      else Some (False, e))"

definition encodeCoup :: "Encoder \<Rightarrow> bool" where
  "encodeCoup e =
     (stringAtEnd e (-3) [''COUP''] \<and> \<not> stringAt e (-5) [''RECOUP''])"

definition encodePneum :: "Encoder \<Rightarrow> (bool \<times> Encoder) option" where
  "encodePneum e =
     (if stringAt e 1 [''NEUM''] then do {
        let e = metaphAdd (rune CHR ''N'') e;
        let e = e\<lparr>idx := idx e + 1\<rparr>;
        Some (True, e)
      }
      else Some (False, e))"

definition encodePsych :: "Encoder \<Rightarrow> (bool \<times> Encoder) option" where
  "encodePsych e =
     (if stringAt e 1 [''SYCH''] then do {
        let e = (if EncodeVowels e then metaphAddStr ''SAK'' ''SAK'' e else metaphAddStr ''SK''
            ''SK'' e);
        let e = e\<lparr>idx := idx e + 4\<rparr>;
        Some (True, e)
      }
      else Some (False, e))"

definition encodePsalm :: "Encoder \<Rightarrow> (bool \<times> Encoder) option" where
  "encodePsalm e =
     (if stringAt e 1 [''SALM''] then do {
        let e = (if EncodeVowels e then metaphAddStr ''SAM'' ''SAM'' e else metaphAddStr ''SM''
            ''SM'' e);
        let e = e\<lparr>idx := idx e + 4\<rparr>;
        Some (True, e)
      }
      else Some (False, e))"

definition encodePb :: "Encoder \<Rightarrow> Encoder option" where
  "encodePb e =
     (if stringAt e 1 [''P'', ''B''] then do {
        let e = e\<lparr>idx := idx e + 1\<rparr>;
        Some e
      }
      else Some e)"

definition encodeP :: "Encoder \<Rightarrow> Encoder option" where
  "encodeP e =
     do {
       (c, e) \<leftarrow> cascade [pur encodeSilentPAtBeginning, encodePt, encodePh, encodePph,
           encodeRps, pur encodeCoup, encodePneum, encodePsych, encodePsalm] e;
       if c then Some e
       else do {
         e \<leftarrow> encodePb e;
         let e = metaphAdd (rune CHR ''P'') e;
         Some e
       }
     }"

definition encodeQ :: "Encoder \<Rightarrow> Encoder option" where
  "encodeQ e =
     (if stringAt e 0 [''QIN''] then do {
        let e = metaphAdd (rune CHR ''X'') e;
        Some e
      }
      else do {
        c \<leftarrow> charNextIs e (rune CHR ''Q'');
        let e = (if c then e\<lparr>idx := idx e + 1\<rparr> else e);
        let e = metaphAdd (rune CHR ''K'') e;
        Some e
      })"

definition encodeRz :: "Encoder \<Rightarrow> (bool \<times> Encoder) option" where
  "encodeRz e =
     (if stringAt e (-2) [''GARZ'', ''KURZ'', ''MARZ'', ''MERZ'', ''HERZ'', ''PERZ'', ''WARZ'']
         \<or> stringAt e 0 [''RZANO'', ''RZOLA''] \<or> stringAt e (-1) [''ARZA'', ''ARZN'']
         then Some (False, e)
      else (if stringAt e (-4) [''YASTRZEMSKI''] then do {
         let e = metaphAddAlt (rune CHR ''R'') (rune CHR ''X'') e;
         let e = e\<lparr>idx := idx e + 1\<rparr>;
         Some (True, e)
       }
       else (if stringAt e (-1) [''BRZEZINSKI''] then do {
          let e = metaphAddStr ''RS'' ''RJ'' e;
          let e = e\<lparr>idx := idx e + 3\<rparr>;
          Some (True, e)
        }
        else (if stringAt e (-1) [''TRZ'', ''PRZ'', ''KRZ''] \<or> (stringAt e 0 [''RZ''] \<and>
            (isVowelAt e (-1) \<or> idx e = 0)) then do {
           let e = metaphAddStr ''RS'' ''X'' e;
           let e = e\<lparr>idx := idx e + 1\<rparr>;
           Some (True, e)
         }
         else (if stringAt e (-1) [''BRZ'', ''DRZ'', ''GRZ''] then do {
            let e = metaphAddStr ''RS'' ''J'' e;
            let e = e\<lparr>idx := idx e + 1\<rparr>;
            Some (True, e)
          }
          else Some (False, e))))))"

definition testSilentR :: "Encoder \<Rightarrow> bool" where
  "testSilentR e =
     (if (idx e = lastIdx e \<and> stringAt e (-2) [''IER''] \<and> (stringAt e (-5) [''MET'',
         ''VIV'', ''LUC''] \<or> stringAt e (-6) [''CART'', ''DOSS'', ''FOUR'', ''OLIV'',
         ''BUST'', ''DAUM'', ''ATEL'', ''SONN'', ''CORM'', ''MERC'', ''PELT'', ''POIR'',
         ''BERN'', ''FORT'', ''GREN'', ''SAUC'', ''GAGN'', ''GAUT'', ''GRAN'', ''FORC'',
         ''MESS'', ''LUSS'', ''MEUN'', ''POTH'', ''HOLL'', ''CHEN''] \<or> stringAt e (-7)
         [''CROUP'', ''TORCH'', ''CLOUT'', ''FOURN'', ''GAUTH'', ''TROTT'', ''DEROS'',
         ''CHART''] \<or> stringAt e (-8) [''CHEVAL'', ''LAVOIS'', ''PELLET'', ''SOMMEL'',
         ''TREPAN'', ''LETELL'', ''COLOMB''] \<or> stringAt e (-9) [''CHARCUT''] \<or> stringAt
         e (-10) [''CHARPENT''])) \<or> stringAt e (-2) [''SURBURB'', ''WORSTED'',
         ''WORCESTER''] \<or> stringAt e (-7) [''MONSIEUR''] \<or> stringAt e (-6)
         [''POITIERS''] then True
      else False)"

definition encodeVowelReTransposition :: "Encoder \<Rightarrow> (bool \<times> Encoder) option"
    where
  "encodeVowelReTransposition e =
     do {
       c \<leftarrow> andalso (Some (EncodeVowels e)) (andalso (charNextIs e (rune CHR ''E''))
           (Some (int (length (inp e)) > 3 \<and> \<not> stringStart e [''OUTRE'', ''LIBRE'',
           ''ANDRE''] \<and> \<not> stringExact e [''FRED'', ''TRES''] \<and> \<not> stringAt e
           (-2) [''LDRED'', ''LFRED'', ''NDRED'', ''NFRED'', ''NDRES'', ''TRES'', ''IFRED'']
           \<and> \<not> isVowelAt e (-1) \<and> (idx e + 1 = lastIdx e \<or> stringAtEnd e 2
           [''D'', ''S'']))));
       if c then do {
         let e = metaphAddStr ''AR'' ''AR'' e;
         Some (True, e)
       }
       else Some (False, e)
     }"

definition encodeR :: "Encoder \<Rightarrow> Encoder option" where
  "encodeR e =
     do {
       (c, e) \<leftarrow> encodeRz e;
       if c then Some e
       else do {
         (c, e) \<leftarrow> cAnd (pur (\<lambda>e. \<not> testSilentR e)) (cNot
             encodeVowelReTransposition) e;
         let e = (if c then metaphAdd (rune CHR ''R'') e else e);
         c \<leftarrow> orelse (charNextIs e (rune CHR ''R'')) (Some (stringAt e (-6)
             [''POITIERS'']));
         if c then do {
           let e = e\<lparr>idx := idx e + 1\<rparr>;
           Some e
         }
         else Some e
       }
     }"

definition encodeSkj :: "Encoder \<Rightarrow> (bool \<times> Encoder) option" where
  "encodeSkj e =
     (if stringAt e 0 [''SKJO'', ''SKJU''] \<and> isVowelAt e 3 then do {
        let e = metaphAdd (rune CHR ''X'') e;
        let e = e\<lparr>idx := idx e + 2\<rparr>;
        Some (True, e)
      }
      else Some (False, e))"

definition namesBeginningWithSwThatGetAltSv :: "Encoder \<Rightarrow> bool" where
  "namesBeginningWithSwThatGetAltSv e =
     (stringStart e [''SWANSON'', ''SWENSON'', ''SWINSON'', ''SWENSEN'', ''SWOBODA'',
         ''SWIDERSKI'', ''SWARTHOUT'', ''SWEARENGIN''])"

definition namesBeginningWithSwThatGetAlvXV :: "Encoder \<Rightarrow> bool" where
  "namesBeginningWithSwThatGetAlvXV e =
     (stringStart e [''SWART'', ''SWARTZ'', ''SWARTS'', ''SWIGER'', ''SWITZER'', ''SWANGER'',
         ''SWIGERT'', ''SWIGART'', ''SWIHART'', ''SWEITZER'', ''SWATZELL'', ''SWINDLER'',
         ''SWINEHART'', ''SWEARINGEN''])"

definition encodeSpecialSw :: "Encoder \<Rightarrow> (bool \<times> Encoder) option" where
  "encodeSpecialSw e =
     (if idx e = 0 then (if namesBeginningWithSwThatGetAltSv e then do {
         let e = metaphAddStr ''S'' ''SV'' e;
         let e = e\<lparr>idx := idx e + 1\<rparr>;
         Some (True, e)
       }
       else (if namesBeginningWithSwThatGetAlvXV e then do {
          let e = metaphAddStr ''S'' ''XV'' e;
          let e = e\<lparr>idx := idx e + 1\<rparr>;
          Some (True, e)
        }
        else Some (False, e)))
      else Some (False, e))"

definition encodeSj :: "Encoder \<Rightarrow> (bool \<times> Encoder) option" where
  "encodeSj e =
     (if stringStart e [''SJ''] then do {
        let e = metaphAdd (rune CHR ''X'') e;
        let e = e\<lparr>idx := idx e + 1\<rparr>;
        Some (True, e)
      }
      else Some (False, e))"

definition encodeSilentFrenchSFinal :: "Encoder \<Rightarrow> (bool \<times> Encoder) option"
    where
  "encodeSilentFrenchSFinal e =
     (if stringExact e [''LOUIS''] then do {
        let e = metaphAddAlt (rune CHR ''S'') ReplacementChar e;
        Some (True, e)
      }
      else (if idx e = lastIdx e \<and> (stringStart e [''YVES'', ''ARKANSAS'', ''FRANCAIS'',
          ''CRUDITES'', ''BRUYERES'', ''DESCARTES'', ''DESCHUTES'', ''DESCHAMPS'',
          ''DESROCHES'', ''DESCHENES'', ''RENDEZVOUS'', ''CONTRETEMPS'', ''DESLAURIERS''] \<or>
          stringExact e [''HORS''] \<or> stringEnd e [''CAMUS'', ''YPRES'', ''MESNES'',
          ''DEBRIS'', ''BLANCS'', ''INGRES'', ''CANNES'', ''CHABLIS'', ''APROPOS'', ''JACQUES'',
          ''ELYSEES'', ''OEUVRES'', ''GEORGES'', ''DESPRES''] \<or> (stringAt e (-2) [''AI'',
          ''OI'', ''UI''] \<and> \<not> stringStart e [''LOIS'', ''LUIS''])) then Some (True, e)
       else Some (False, e)))"

definition encodeSilentFrenchSInternal :: "Encoder \<Rightarrow> bool" where
  "encodeSilentFrenchSInternal e =
     (stringAt e (-2) [''MESNES'', ''DESCHAM'', ''DESPRES'', ''DESROCH'', ''DESROSI'',
         ''DESJARD'', ''DESMARA'', ''DESCHEN'', ''DESHOTE'', ''DESLAUR'', ''DESCARTES''] \<or>
         stringAt e (-5) [''DUQUESNE'', ''DUCHESNE''] \<or> stringAt e (-3) [''FRESNEL'',
         ''GROSVENOR''] \<or> stringAt e (-4) [''LOUISVILLE''] \<or> stringAt e (-7)
         [''BEAUCHESNE'', ''ILLINOISAN''])"

definition encodeIsl :: "Encoder \<Rightarrow> bool" where
  "encodeIsl e =
     ((stringAt e (-2) [''LISL'', ''LYSL'', ''AISL''] \<and> \<not> stringAt e (-3)
         [''PAISLEY'', ''BAISLEY'', ''ALISLAM'', ''ALISLAH'', ''ALISLAA'']) \<or> (idx e = 1
         \<and> stringAt e (-1) [''ISLE'', ''ISLAN''] \<and> \<not> stringAt e (-1) [''ISLEY'',
         ''ISLER'']))"

definition encodeStl :: "Encoder \<Rightarrow> (bool \<times> Encoder) option" where
  "encodeStl e =
     (if (stringAt e 0 [''STLE'', ''STLI''] \<and> \<not> stringAt e 2 [''LESS'', ''LIKE'',
         ''LINE'']) \<or> stringAt e (-3) [''THISTLY'', ''BRISTLY'', ''GRISTLY''] \<or> stringAt
         e (-1) [''USCLE''] then do {
        e \<leftarrow> (if stringStart e [''KRISTEN'', ''KRYSTLE'', ''CRYSTLE'', ''KRISTLE'',
            ''CHRISTENSEN'', ''CHRISTENSON''] \<or> stringAt e (-3) [''FIRSTLING''] \<or>
            stringAt e (-2) [''NESTLING'', ''WESTLING''] then do {
          let e = metaphAddStr ''ST'' ''ST'' e;
          let e = e\<lparr>idx := idx e + 1\<rparr>;
          Some e
        }
        else do {
          c \<leftarrow> andalso (Some (EncodeVowels e)) (andalso (charAt e 3 (rune CHR ''E''))
              (andalso (nott (charAt e 4 (rune CHR ''R''))) (Some (\<not> stringAt e 3 [''EY'',
              ''ETTE'', ''ETTA'']))));
          let e = (if c then (let e = metaphAddStr ''SAL'' ''SAL'' e; e =
              e\<lparr>flagAlInversion := True\<rparr> in e) else metaphAddStr ''SL'' ''SL'' e);
          let e = e\<lparr>idx := idx e + 2\<rparr>;
          Some e
        });
        Some (True, e)
      }
      else Some (False, e))"

definition encodeChristmas :: "Encoder \<Rightarrow> (bool \<times> Encoder) option" where
  "encodeChristmas e =
     (if stringAt e (-4) [''CHRISTMA''] then do {
        let e = metaphAddStr ''SM'' ''SM'' e;
        let e = e\<lparr>idx := idx e + 2\<rparr>;
        Some (True, e)
      }
      else Some (False, e))"

definition encodeSthm :: "Encoder \<Rightarrow> (bool \<times> Encoder) option" where
  "encodeSthm e =
     (if stringAt e 0 [''STHM''] then do {
        let e = metaphAddStr ''SM'' ''SM'' e;
        let e = e\<lparr>idx := idx e + 3\<rparr>;
        Some (True, e)
      }
      else Some (False, e))"

definition encodeIsten :: "Encoder \<Rightarrow> (bool \<times> Encoder) option" where
  "encodeIsten e =
     (if stringStart e [''CHRISTEN''] then do {
        c \<leftarrow> orelse (rootOrInflections (inp e) ''CHRISTEN'') (Some (stringStart e
            [''CHRISTENDOM'']));
        let e = (if c then metaphAddStr ''S'' ''ST'' e else metaphAddStr ''ST'' ''ST'' e);
        let e = e\<lparr>idx := idx e + 1\<rparr>;
        Some (True, e)
      }
      else (if stringAt e (-2) [''LISTEN'', ''RISTEN'', ''HASTEN'', ''FASTEN'', ''MUSTNT'']
          \<or> stringAt e (-3) [''MOISTEN''] then do {
         let e = metaphAdd (rune CHR ''S'') e;
         let e = e\<lparr>idx := idx e + 1\<rparr>;
         Some (True, e)
       }
       else Some (False, e)))"

definition encodeSugar :: "Encoder \<Rightarrow> (bool \<times> Encoder) option" where
  "encodeSugar e =
     (if stringAt e 0 [''SUGAR''] then do {
        let e = metaphAdd (rune CHR ''X'') e;
        Some (True, e)
      }
      else Some (False, e))"

definition encodeSh :: "Encoder \<Rightarrow> (bool \<times> Encoder) option" where
  "encodeSh e =
     (if stringAt e 0 [''SH''] then (if stringAt e (-2) [''CASHMERE''] then do {
         let e = metaphAdd (rune CHR ''J'') e;
         let e = e\<lparr>idx := idx e + 1\<rparr>;
         Some (True, e)
       }
       else do {
         let e = (if idx e > 0 \<and> (stringAtEnd e 1 [''HAP''] \<or> stringAt e 1 [''HEIM'',
             ''HOEK'', ''HOLM'', ''HOLZ'', ''HOOD'', ''HEAD'', ''HEID'', ''HAAR'', ''HORS'',
             ''HOLE'', ''HUND'', ''HELM'', ''HAWK'', ''HILL'', ''HEART'', ''HATCH'', ''HOUSE'',
             ''HOUND'', ''HONOR''] \<or> stringAtEnd e 2 [''EAR''] \<or> (stringAt e 2 [''ORN'']
             \<and> \<not> stringAt e (-2) [''UNSHORN'']) \<or> (stringAt e 1 [''HOUR''] \<and>
             \<not> stringStart e [''ASHOUR'', ''BASHOUR'', ''MANSHOUR'']) \<or> stringAt e 2
             [''ARMON'', ''ONEST'', ''ALLOW'', ''OLDER'', ''OPPER'', ''EIMER'', ''ANDLE'',
             ''ONOUR'', ''ABILLE'', ''UMANCE'', ''ABITUA'']) then (if \<not> stringAt e (-1)
             [''S''] then metaphAdd (rune CHR ''S'') e else e) else metaphAdd (rune CHR ''X'')
             e);
         let e = e\<lparr>idx := idx e + 1\<rparr>;
         Some (True, e)
       })
      else Some (False, e))"

definition encodeSch :: "Encoder \<Rightarrow> (bool \<times> Encoder) option" where
  "encodeSch e =
     (if stringAt e 1 [''CH''] then (if idx e > 0 \<and> (stringAt e 3 [''IEF'', ''EAT'',
         ''ANCE'', ''ARGE''] \<or> stringStart e [''ESCHEW'']) then do {
         let e = metaphAdd (rune CHR ''S'') e;
         Some (True, e)
       }
       else do {
         c \<leftarrow> orelse (Some ((stringAt e 3 [''OO'', ''ER'', ''EN'', ''UY'', ''ED'',
             ''EM'', ''IA'', ''IZ'', ''IS'', ''OL''] \<and> \<not> stringAt e 0 [''SCHOLT'',
             ''SCHISL'', ''SCHERR'']) \<or> stringAt e 3 [''ISZ''] \<or> (stringAt e (-1)
             [''ESCHAT'', ''ASCHIN'', ''ASCHAL'', ''ISCHAE'', ''ISCHIA''] \<and> \<not> stringAt
             e (-2) [''FASCHING'']) \<or> stringAtEnd e (-1) [''ESCHI''])) (charAt e 3 (rune CHR
             ''Y''));
         if c then do {
           let e = (if stringAt e 3 [''ER'', ''EN'', ''IS''] \<and> (idx e + 4 = lastIdx e \<or>
               stringAt e 3 [''ENK'', ''ENB'', ''IST'']) then metaphAddStr ''X'' ''SK'' e else
               metaphAddStr ''SK'' ''SK'' e);
           let e = e\<lparr>idx := idx e + 2\<rparr>;
           Some (True, e)
         }
         else do {
           let e = metaphAdd (rune CHR ''X'') e;
           let e = e\<lparr>idx := idx e + 2\<rparr>;
           Some (True, e)
         }
       })
      else Some (False, e))"

definition encodeSur :: "Encoder \<Rightarrow> (bool \<times> Encoder) option" where
  "encodeSur e =
     (if stringAt e 1 [''URE'', ''URA'', ''URY''] then do {
        let e = (if idx e = 0 \<or> stringAt e (-1) [''N'', ''K''] \<or> stringAt e (-2)
            [''NO''] then metaphAdd (rune CHR ''X'') e else metaphAdd (rune CHR ''J'') e);
        let e = advanceCounter 1 0 e;
        Some (True, e)
      }
      else Some (False, e))"

definition encodeSu :: "Encoder \<Rightarrow> (bool \<times> Encoder) option" where
  "encodeSu e =
     (if stringAt e 1 [''UO'', ''UA''] \<and> idx e \<noteq> 0 then do {
        let e = (if stringAt e (-1) [''RSUA''] then metaphAdd (rune CHR ''S'') e else (if
            isVowelAt e (-1) then metaphAddAlt (rune CHR ''J'') (rune CHR ''S'') e else
            metaphAddAlt (rune CHR ''X'') (rune CHR ''S'') e));
        let e = advanceCounter 2 0 e;
        Some (True, e)
      }
      else Some (False, e))"

definition encodeSsio :: "Encoder \<Rightarrow> (bool \<times> Encoder) option" where
  "encodeSsio e =
     (if stringAt e 1 [''SION''] then do {
        let e = (if stringAt e (-2) [''CI''] then metaphAdd (rune CHR ''J'') e else (if
            isVowelAt e (-1) then metaphAdd (rune CHR ''X'') e else e));
        let e = advanceCounter 3 1 e;
        Some (True, e)
      }
      else Some (False, e))"

definition encodeSs :: "Encoder \<Rightarrow> (bool \<times> Encoder) option" where
  "encodeSs e =
     (if stringAt e (-1) [''USSIA'', ''ESSUR'', ''ISSUR'', ''ISSUE'', ''ESSIAN'', ''ASSURE'',
         ''ASSURA'', ''ISSUAB'', ''ISSUAN'', ''ASSIUS''] then do {
        let e = metaphAdd (rune CHR ''X'') e;
        let e = advanceCounter 2 1 e;
        Some (True, e)
      }
      else Some (False, e))"

definition encodeSia :: "Encoder \<Rightarrow> (bool \<times> Encoder) option" where
  "encodeSia e =
     (if stringAt e (-2) [''CHSIA''] \<or> stringAt e (-1) [''RSIAL''] then do {
        let e = metaphAdd (rune CHR ''X'') e;
        let e = advanceCounter 2 0 e;
        Some (True, e)
      }
      else (if (stringAtStart e (-3) [''ALESIA'', ''ALYSIA'', ''ALISIA'', ''STASIA''] \<and>
          \<not> stringStart e [''ANASTASIA'']) \<or> stringAt e (-5) [''THERESIA'',
          ''DIONYSIAN''] then do {
         let e = metaphAddAlt (rune CHR ''X'') (rune CHR ''S'') e;
         let e = advanceCounter 2 0 e;
         Some (True, e)
       }
       else (if stringAtEnd e 0 [''SIA'', ''SIAN''] \<or> stringAt e (-5) [''AMBROSIAL''] then
           do {
          let e = (if (isVowelAt e (-1) \<or> stringAt e (-1) [''R'']) \<and> \<not>
              (stringStart e [''JAMES'', ''NICOS'', ''PEGAS'', ''PEPYS'', ''HOBBES'',
              ''HOLMES'', ''JAQUES'', ''KEYNES'', ''MALTHUS'', ''HOMOOUS'', ''MAGLEMOS'',
              ''HOMOIOUS'', ''LEVALLOIS'', ''TARDENOIS''] \<or> stringAt e (-4) [''ALGES''])
              then metaphAdd (rune CHR ''J'') e else metaphAdd (rune CHR ''S'') e);
          let e = advanceCounter 1 0 e;
          Some (True, e)
        }
        else Some (False, e))))"

definition encodeSio :: "Encoder \<Rightarrow> (bool \<times> Encoder) option" where
  "encodeSio e =
     (if stringStart e [''SIOBHAN''] then do {
        let e = metaphAdd (rune CHR ''X'') e;
        let e = advanceCounter 2 0 e;
        Some (True, e)
      }
      else (if stringAt e 1 [''ION''] then do {
         let e = (if isVowelAt e (-1) \<or> stringAt e (-2) [''ER'', ''UR''] then metaphAdd
             (rune CHR ''J'') e else metaphAdd (rune CHR ''X'') e);
         let e = advanceCounter 2 0 e;
         Some (True, e)
       }
       else Some (False, e)))"

definition encodeAnglicisations :: "Encoder \<Rightarrow> (bool \<times> Encoder) option" where
  "encodeAnglicisations e =
     (if stringAtStart e 0 [''SM'', ''SN'', ''SL''] \<or> stringAt e 1 [''Z''] then do {
        let e = metaphAddAlt (rune CHR ''S'') (rune CHR ''X'') e;
        let e = (if stringAt e 1 [''Z''] then e\<lparr>idx := idx e + 1\<rparr> else e);
        Some (True, e)
      }
      else Some (False, e))"

definition encodeSc :: "Encoder \<Rightarrow> (bool \<times> Encoder) option" where
  "encodeSc e =
     (if stringAt e 0 [''SC''] then (if stringAt e (-2) [''VISCOUNT''] then Some (True, e)
       else (if stringAt e 2 [''I'', ''E'', ''Y''] then do {
          let e = (if stringAt e 2 [''IUT'', ''IOUS''] \<or> stringAt e (-2) [''FASCIS''] \<or>
              stringAt e (-3) [''CONSCIEN'', ''CRESCEND'', ''CONSCION''] \<or> stringAt e (-4)
              [''OMNISCIEN''] then metaphAdd (rune CHR ''X'') e else (if stringAt e 0
              [''SCIVV'', ''SCIRO'', ''SCIPIO'', ''SCEPTIC'', ''SCEPSIS''] \<or> stringAt e (-2)
              [''PISCITELLI''] then metaphAddStr ''SK'' ''SK'' e else metaphAdd (rune CHR ''S'')
              e));
          let e = e\<lparr>idx := idx e + 1\<rparr>;
          Some (True, e)
        }
        else do {
          let e = metaphAddStr ''SK'' ''SK'' e;
          let e = e\<lparr>idx := idx e + 1\<rparr>;
          Some (True, e)
        }))
      else Some (False, e))"

definition encodeSeiSuiSier :: "Encoder \<Rightarrow> (bool \<times> Encoder) option" where
  "encodeSeiSuiSier e =
     (if stringAtEnd e (-3) [''NAUSEA''] \<or> stringAt e (-2) [''CASUI''] \<or> (stringAt e
         (-1) [''OSIER'', ''ASIER''] \<and> \<not> (stringStart e [''OSIER'', ''EASIER''] \<or>
         stringAt e (-2) [''ROSIER'', ''MOSIER''])) then do {
        let e = metaphAddAlt (rune CHR ''J'') (rune CHR ''X'') e;
        let e = advanceCounter 2 0 e;
        Some (True, e)
      }
      else Some (False, e))"

definition encodeSea :: "Encoder \<Rightarrow> (bool \<times> Encoder) option" where
  "encodeSea e =
     (if stringExact e [''SEAN''] \<or> (stringAt e (-3) [''NAUSEO''] \<and> \<not> stringAt e
         (-3) [''NAUSEAT'']) then do {
        let e = metaphAdd (rune CHR ''X'') e;
        let e = advanceCounter 2 0 e;
        Some (True, e)
      }
      else Some (False, e))"

definition encodeS :: "Encoder \<Rightarrow> Encoder option" where
  "encodeS e =
     do {
       (c, e) \<leftarrow> cascade [encodeSkj, encodeSpecialSw, encodeSj,
           encodeSilentFrenchSFinal, pur (\<lambda>e. encodeSilentFrenchSInternal e \<or>
           encodeIsl e), encodeStl, encodeChristmas, encodeSthm, encodeIsten, encodeSugar,
           encodeSh, encodeSch, encodeSur, encodeSu, encodeSsio, encodeSs, encodeSia, encodeSio,
           encodeAnglicisations, encodeSc, encodeSeiSuiSier, encodeSea] e;
       if c then Some e
       else do {
         let e = metaphAdd (rune CHR ''S'') e;
         if stringAt e 1 [''S'', ''Z''] \<and> \<not> stringAt e 1 [''SH''] then do {
           let e = e\<lparr>idx := idx e + 1\<rparr>;
           Some e
         }
         else Some e
       }
     }"

definition encodeTInitial :: "Encoder \<Rightarrow> (bool \<times> Encoder) option" where
  "encodeTInitial e =
     (if idx e = 0 then (if stringAt e 1 [''SAR'', ''ZAR''] then Some (True, e)
       else (if stringExact e [''TSO'', ''TSA'', ''TSU'', ''TSAO'', ''TSAI'', ''TSING'',
           ''TSANG''] then do {
          let e = metaphAdd (rune CHR ''X'') e;
          let e = advanceCounter 2 1 e;
          Some (True, e)
        }
        else do {
          c \<leftarrow> andalso (charNextIs e (rune CHR ''S'')) (Some (isVowelAt e 2));
          if c then do {
            let e = metaphAddStr ''TS'' ''S'' e;
            let e = advanceCounter 2 1 e;
            Some (True, e)
          }
          else do {
            c \<leftarrow> charNextIs e (rune CHR ''J'');
            if c then do {
              let e = metaphAdd (rune CHR ''X'') e;
              let e = advanceCounter 2 1 e;
              Some (True, e)
            }
            else (if stringExact e [''THU''] \<or> stringAt e 1 [''HAI'', ''HUY'', ''HAO'',
                ''HYME'', ''HYMY'', ''HANH'', ''HERES''] then do {
               let e = metaphAdd (rune CHR ''T'') e;
               let e = advanceCounter 2 1 e;
               Some (True, e)
             }
             else Some (False, e))
          }
        }))
      else Some (False, e))"

definition encodeTch :: "Encoder \<Rightarrow> (bool \<times> Encoder) option" where
  "encodeTch e =
     (if stringAt e 1 [''CH''] then do {
        let e = metaphAdd (rune CHR ''X'') e;
        let e = e\<lparr>idx := idx e + 2\<rparr>;
        Some (True, e)
      }
      else Some (False, e))"

definition encodeSilentFrenchT :: "Encoder \<Rightarrow> bool" where
  "encodeSilentFrenchT e =
     ((stringAtEnd e (-4) [''MONET'', ''GENET'', ''CHAUT''] \<or> stringAt e (-2)
         [''POTPOURRI''] \<or> stringAt e (-3) [''MORTGAGE'', ''BOATSWAIN''] \<or> stringAt e
         (-4) [''BERET'', ''BIDET'', ''FILET'', ''DEBUT'', ''DEPOT'', ''PINOT'', ''TAROT'']
         \<or> stringAt e (-5) [''BALLET'', ''BUFFET'', ''CACHET'', ''CHALET'', ''ESPRIT'',
         ''RAGOUT'', ''GOULET'', ''CHABOT'', ''BENOIT''] \<or> stringAt e (-6) [''GOURMET'',
         ''BOUQUET'', ''CROCHET'', ''CROQUET'', ''PARFAIT'', ''PINCHOT'', ''CABARET'',
         ''PARQUET'', ''RAPPORT'', ''TOUCHET'', ''COURBET'', ''DIDEROT''] \<or> stringAt e (-7)
         [''ENTREPOT'', ''CABERNET'', ''DUBONNET'', ''MASSENET'', ''MUSCADET'', ''RICOCHET'',
         ''ESCARGOT''] \<or> stringAt e (-8) [''SOBRIQUET'', ''CABRIOLET'', ''CASSOULET'',
         ''OUBRIQUET'', ''CAMEMBERT'']) \<and> \<not> stringAt e 1 [''AN'', ''RY'', ''IC'',
         ''OM'', ''IN''])"

definition encodeTunTulTuaTuo :: "Encoder \<Rightarrow> (bool \<times> Encoder) option" where
  "encodeTunTulTuaTuo e =
     (if stringAt e (-3) [''FORTUN''] \<or> (stringAt e 0 [''TUL''] \<and> isVowelAt e (-1)
         \<and> isVowelAt e 3) \<or> stringAt e (-2) [''BITUA'', ''BITUE''] \<or> (idx e > 1
         \<and> stringAt e 0 [''TUA'', ''TUO'']) then do {
        let e = metaphAddAlt (rune CHR ''X'') (rune CHR ''T'') e;
        Some (True, e)
      }
      else Some (False, e))"

definition encodeTueTeuTeouTulTie :: "Encoder \<Rightarrow> (bool \<times> Encoder) option"
    where
  "encodeTueTeuTeouTulTie e =
     (if stringAt e 1 [''UENT''] \<or> stringAt e (-4) [''RIGHTEOUS''] \<or> stringAt e (-3)
         [''STATUTE'', ''AMATEUR'', ''STATUTOR''] \<or> stringAt e (-1) [''NTULE'', ''NTULA'',
         ''STULE'', ''STULA'', ''STEUR''] \<or> stringAtEnd e 0 [''TUE''] \<or> stringAt e 0
         [''TUENC''] \<or> stringAtEnd e 0 [''TIENCE''] then do {
        let e = metaphAddAlt (rune CHR ''X'') (rune CHR ''T'') e;
        let e = advanceCounter 1 0 e;
        Some (True, e)
      }
      else Some (False, e))"

definition encodeTurTiuSuffixes :: "Encoder \<Rightarrow> (bool \<times> Encoder) option" where
  "encodeTurTiuSuffixes e =
     (if idx e > 0 \<and> stringAt e 1 [''URE'', ''URA'', ''URI'', ''URY'', ''URO'', ''IUS'']
         then do {
        let e = (if (stringAtEnd e 1 [''URA'', ''URO''] \<and> \<not> stringAt e (-3)
            [''VENTURA'']) \<or> stringAt e 1 [''URIA''] then metaphAdd (rune CHR ''T'') e else
            metaphAddAlt (rune CHR ''X'') (rune CHR ''T'') e);
        let e = advanceCounter 1 0 e;
        Some (True, e)
      }
      else Some (False, e))"

definition encodeTi :: "Encoder \<Rightarrow> (bool \<times> Encoder) option" where
  "encodeTi e =
     (if (stringAt e 1 [''IO''] \<and> \<not> stringAt e (-1) [''ETIOL'']) \<or> stringAt e 1
         [''IAL''] \<or> stringAt e (-1) [''RTIUM'', ''ATIUM''] \<or> (stringAt e 1 [''IAN'']
         \<and> idx e > 0 \<and> \<not> (stringAt e (-4) [''FAUSTIAN''] \<or> stringAt e (-5)
         [''PROUSTIAN''] \<or> stringAt e (-2) [''TATIANA''] \<or> stringAt e (-3) [''KANTIAN'',
         ''GENTIAN''] \<or> stringAt e (-8) [''ROOSEVELTIAN''])) \<or> (stringAtEnd e 0
         [''TIA''] \<and> \<not> (stringAt e (-3) [''HESTIA'', ''MASTIA''] \<or> stringAt e (-2)
         [''OSTIA''] \<or> stringStart e [''TIA''] \<or> stringAt e (-5) [''IZVESTIA''])) \<or>
         stringAt e 1 [''IATE'', ''IATI'', ''IABL'', ''IATO'', ''IARY''] \<or> stringAt e (-5)
         [''CHRISTIAN''] then do {
        let e = (if stringAtStart e (-2) [''ANTI''] \<or> stringStart e [''PATIO'', ''PITIA'',
            ''DUTIA''] then metaphAdd (rune CHR ''T'') e else (if stringAt e (-4) [''EQUATION'']
            then metaphAdd (rune CHR ''J'') e else (if stringAt e 0 [''TION''] then metaphAdd
            (rune CHR ''X'') e else (if stringStart e [''KATIA'', ''LATIA''] then metaphAddAlt
            (rune CHR ''T'') (rune CHR ''X'') e else metaphAddAlt (rune CHR ''X'') (rune CHR
            ''T'') e))));
        let e = advanceCounter 2 0 e;
        Some (True, e)
      }
      else Some (False, e))"

definition encodeTient :: "Encoder \<Rightarrow> (bool \<times> Encoder) option" where
  "encodeTient e =
     (if stringAt e 1 [''IENT''] then do {
        let e = metaphAddAlt (rune CHR ''X'') (rune CHR ''T'') e;
        let e = advanceCounter 2 0 e;
        Some (True, e)
      }
      else Some (False, e))"

definition encodeTsch :: "Encoder \<Rightarrow> (bool \<times> Encoder) option" where
  "encodeTsch e =
     (if stringAt e 0 [''TSCH''] \<and> \<not> stringAt e (-3) [''WELT'', ''KLAT'', ''FEST'']
         then do {
        let e = metaphAdd (rune CHR ''X'') e;
        let e = e\<lparr>idx := idx e + 3\<rparr>;
        Some (True, e)
      }
      else Some (False, e))"

definition encodeTzsch :: "Encoder \<Rightarrow> (bool \<times> Encoder) option" where
  "encodeTzsch e =
     (if stringAt e 0 [''TZSCH''] then do {
        let e = metaphAdd (rune CHR ''X'') e;
        let e = e\<lparr>idx := idx e + 4\<rparr>;
        Some (True, e)
      }
      else Some (False, e))"

definition encodeThPronouncedSeparately :: "Encoder \<Rightarrow> (bool \<times> Encoder)
    option" where
  "encodeThPronouncedSeparately e =
     (if (idx e > 0 \<and> stringAt e 1 [''HOOD'', ''HEAD'', ''HEID'', ''HAND'', ''HILL'',
         ''HOLD'', ''HAWK'', ''HEAP'', ''HERD'', ''HOLE'', ''HOOK'', ''HUNT'', ''HUMO'',
         ''HAUS'', ''HOFF'', ''HARD''] \<and> \<not> stringAt e (-3) [''SOUTH'', ''NORTH''])
         \<or> stringAt e 1 [''HOUSE'', ''HEART'', ''HASTE'', ''HYPNO'', ''HEQUE''] \<or>
         (stringAtEnd e 1 [''HALL''] \<and> \<not> stringAt e (-3) [''SOUTH'', ''NORTH'']) \<or>
         (stringAtEnd e 1 [''HAM''] \<and> \<not> stringStart e [''GOTHAM'', ''WITHAM'',
         ''LATHAM'', ''BENTHAM'', ''WALTHAM'', ''WORTHAM'', ''GRANTHAM'']) \<or> (stringAt e 1
         [''HATCH''] \<and> \<not> (idx e = 0 \<or> stringAt e (-2) [''UNTHATCH''])) \<or>
         stringAt e (-3) [''GOETHE'', ''WARTHOG''] \<or> stringAt e (-2) [''ESTHER'',
         ''NATHALIE''] then do {
        let e = (if stringAt e (-3) [''POSTHUM''] then metaphAdd (rune CHR ''X'') e else
            metaphAdd (rune CHR ''T'') e);
        let e = e\<lparr>idx := idx e + 1\<rparr>;
        Some (True, e)
      }
      else Some (False, e))"

definition encodeTth :: "Encoder \<Rightarrow> (bool \<times> Encoder) option" where
  "encodeTth e =
     (if stringAt e 0 [''TTH''] then do {
        let e = (if stringAt e (-2) [''MATTH''] then metaphAdd (rune CHR ''0'') e else
            metaphAddStr ''T0'' ''T0'' e);
        let e = e\<lparr>idx := idx e + 2\<rparr>;
        Some (True, e)
      }
      else Some (False, e))"

definition encodeTh :: "Encoder \<Rightarrow> (bool \<times> Encoder) option" where
  "encodeTh e =
     (if stringAt e 0 [''TH''] then (if stringAt e (-3) [''CLOTHES''] then do {
         let e = e\<lparr>idx := idx e + 2\<rparr>;
         Some (True, e)
       }
       else do {
         let e = (if stringAt e 2 [''OMAS'', ''OMPS'', ''OMPK'', ''OMSO'', ''OMSE'', ''AMES'',
             ''OVEN'', ''OFEN'', ''ILDA'', ''ILDE''] \<or> stringExact e [''THOM'', ''THOMS'']
             \<or> stringStart e [''SCH'', ''VAN '', ''VON ''] then metaphAdd (rune CHR ''T'') e
             else (if stringStart e [''SM''] then metaphAddAlt (rune CHR ''0'') (rune CHR ''T'')
             e else metaphAdd (rune CHR ''0'') e));
         let e = e\<lparr>idx := idx e + 1\<rparr>;
         Some (True, e)
       })
      else Some (False, e))"

definition encodeT :: "Encoder \<Rightarrow> Encoder option" where
  "encodeT e =
     do {
       (c, e) \<leftarrow> cascade [encodeTInitial, encodeTch, pur encodeSilentFrenchT,
           encodeTunTulTuaTuo, encodeTueTeuTeouTulTie, encodeTurTiuSuffixes, encodeTi,
           encodeTient, encodeTsch, encodeTzsch, encodeThPronouncedSeparately, encodeTth,
           encodeTh] e;
       if c then Some e
       else do {
         let e = (if stringAt e 1 [''T'', ''D''] then e\<lparr>idx := idx e + 1\<rparr> else e);
         let e = metaphAdd (rune CHR ''T'') e;
         Some e
       }
     }"

definition encodeV :: "Encoder \<Rightarrow> Encoder option" where
  "encodeV e =
     do {
       c \<leftarrow> charNextIs e (rune CHR ''V'');
       let e = (if c then e\<lparr>idx := idx e + 1\<rparr> else e);
       let e = metaphAddExactApprox ''V'' ''F'' e;
       Some e
     }"

definition encodeSilentWAtBeginning :: "Encoder \<Rightarrow> bool" where
  "encodeSilentWAtBeginning e =
     (stringAtStart e 0 [''WR''])"

definition encodeWitzWicz :: "Encoder \<Rightarrow> (bool \<times> Encoder) option" where
  "encodeWitzWicz e =
     (if stringAtEnd e 0 [''WICZ'', ''WITZ''] then do {
        e \<leftarrow> (if EncodeVowels e then do {
          c \<leftarrow> andalso (Some (int (length (primBuf e)) > 0)) (map_option (\<lambda>r.
              r = rune CHR ''A'') (rd (primBuf e) (int (length (primBuf e)) - 1)));
          if c then do {
            let e = metaphAddStr ''TS'' ''FAX'' e;
            Some e
          }
          else do {
            let e = metaphAddStr ''ATS'' ''FAX'' e;
            Some e
          }
        }
        else do {
          let e = metaphAddStr ''TS'' ''FX'' e;
          Some e
        });
        let e = e\<lparr>idx := idx e + 3\<rparr>;
        Some (True, e)
      }
      else Some (False, e))"

definition encodeWr :: "Encoder \<Rightarrow> (bool \<times> Encoder) option" where
  "encodeWr e =
     (if stringAt e 0 [''WR''] then do {
        let e = metaphAdd (rune CHR ''R'') e;
        let e = e\<lparr>idx := idx e + 1\<rparr>;
        Some (True, e)
      }
      else Some (False, e))"

definition germanicOrSlavicNameBeginningWithW :: "Encoder \<Rightarrow> bool" where
  "germanicOrSlavicNameBeginningWithW e =
     (stringStart e [''WEE'', ''WIX'', ''WAX'', ''WOLF'', ''WEIS'', ''WAHL'', ''WALZ'',
         ''WEIL'', ''WERT'', ''WINE'', ''WILK'', ''WALT'', ''WOLL'', ''WADA'', ''WULF'',
         ''WEHR'', ''WURM'', ''WYSE'', ''WENZ'', ''WIRT'', ''WOLK'', ''WEIN'', ''WYSS'',
         ''WASS'', ''WANN'', ''WINT'', ''WINK'', ''WILE'', ''WIKE'', ''WIER'', ''WELK'',
         ''WISE'', ''WIRTH'', ''WIESE'', ''WITTE'', ''WENTZ'', ''WOLFF'', ''WENDT'', ''WERTZ'',
         ''WILKE'', ''WALTZ'', ''WEISE'', ''WOOLF'', ''WERTH'', ''WEESE'', ''WURTH'', ''WINES'',
         ''WARGO'', ''WIMER'', ''WISER'', ''WAGER'', ''WILLE'', ''WILDS'', ''WAGAR'', ''WERTS'',
         ''WITTY'', ''WIENS'', ''WIEBE'', ''WIRTZ'', ''WYMER'', ''WULFF'', ''WIBLE'', ''WINER'',
         ''WIEST'', ''WALKO'', ''WALLA'', ''WEBRE'', ''WEYER'', ''WYBLE'', ''WOMAC'', ''WILTZ'',
         ''WURST'', ''WOLAK'', ''WELKE'', ''WEDEL'', ''WEIST'', ''WYGAN'', ''WUEST'', ''WEISZ'',
         ''WALCK'', ''WEITZ'', ''WYDRA'', ''WANDA'', ''WILMA'', ''WEBER'', ''WETZEL'',
         ''WEINER'', ''WENZEL'', ''WESTER'', ''WALLEN'', ''WENGER'', ''WALLIN'', ''WEILER'',
         ''WIMMER'', ''WEIMER'', ''WYRICK'', ''WEGNER'', ''WINNER'', ''WESSEL'', ''WILKIE'',
         ''WEIGEL'', ''WOJCIK'', ''WENDEL'', ''WITTER'', ''WIENER'', ''WEISER'', ''WEXLER'',
         ''WACKER'', ''WISNER'', ''WITMER'', ''WINKLE'', ''WELTER'', ''WIDMER'', ''WITTEN'',
         ''WINDLE'', ''WASHER'', ''WOLTER'', ''WILKEY'', ''WIDNER'', ''WARMAN'', ''WEYANT'',
         ''WEIBEL'', ''WANNER'', ''WILKEN'', ''WILTSE'', ''WARNKE'', ''WALSER'', ''WEIKEL'',
         ''WESNER'', ''WITZEL'', ''WROBEL'', ''WAGNON'', ''WINANS'', ''WENNER'', ''WOLKEN'',
         ''WILNER'', ''WYSONG'', ''WYCOFF'', ''WUNDER'', ''WINKEL'', ''WIDMAN'', ''WELSCH'',
         ''WEHNER'', ''WEIGLE'', ''WETTER'', ''WUNSCH'', ''WHITTY'', ''WAXMAN'', ''WILKER'',
         ''WILHAM'', ''WITTIG'', ''WITMAN'', ''WESTRA'', ''WEHRLE'', ''WASSER'', ''WILLER'',
         ''WEGMAN'', ''WARFEL'', ''WYNTER'', ''WERNER'', ''WAGNER'', ''WISSER'', ''WISEMAN'',
         ''WINKLER'', ''WILHELM'', ''WELLMAN'', ''WAMPLER'', ''WACHTER'', ''WALTHER'',
         ''WYCKOFF'', ''WEIDNER'', ''WOZNIAK'', ''WEILAND'', ''WILFONG'', ''WIEGAND'',
         ''WILCHER'', ''WIELAND'', ''WILDMAN'', ''WALDMAN'', ''WORTMAN'', ''WYSOCKI'',
         ''WEIDMAN'', ''WITTMAN'', ''WIDENER'', ''WOLFSON'', ''WENDELL'', ''WEITZEL'',
         ''WILLMAN'', ''WALDRUP'', ''WALTMAN'', ''WALCZAK'', ''WEIGAND'', ''WESSELS'',
         ''WIDEMAN'', ''WOLTERS'', ''WIREMAN'', ''WILHOIT'', ''WEGENER'', ''WOTRING'',
         ''WINGERT'', ''WIESNER'', ''WAYMIRE'', ''WHETZEL'', ''WENTZEL'', ''WINEGAR'',
         ''WESTMAN'', ''WYNKOOP'', ''WALLICK'', ''WURSTER'', ''WINBUSH'', ''WILBERT'',
         ''WALLACH'', ''WYNKOOP'', ''WALLICK'', ''WURSTER'', ''WINBUSH'', ''WILBERT'',
         ''WALLACH'', ''WEISSER'', ''WEISNER'', ''WINDERS'', ''WILLMON'', ''WILLEMS'',
         ''WIERSMA'', ''WACHTEL'', ''WARNICK'', ''WEIDLER'', ''WALTRIP'', ''WHETSEL'',
         ''WHELESS'', ''WELCHER'', ''WALBORN'', ''WILLSEY'', ''WEINMAN'', ''WAGAMAN'',
         ''WOMMACK'', ''WINGLER'', ''WINKLES'', ''WIEDMAN'', ''WHITNER'', ''WOLFRAM'',
         ''WARLICK'', ''WEEDMAN'', ''WHISMAN'', ''WINLAND'', ''WEESNER'', ''WARTHEN'',
         ''WETZLER'', ''WENDLER'', ''WALLNER'', ''WOLBERT'', ''WITTMER'', ''WISHART'',
         ''WILLIAM'', ''WESTPHAL'', ''WICKLUND'', ''WEISSMAN'', ''WESTLUND'', ''WOLFGANG'',
         ''WILLHITE'', ''WEISBERG'', ''WALRAVEN'', ''WOLFGRAM'', ''WILHOITE'', ''WECHSLER'',
         ''WENDLING'', ''WESTBERG'', ''WENDLAND'', ''WININGER'', ''WHISNANT'', ''WESTRICK'',
         ''WESTLING'', ''WESTBURY'', ''WEITZMAN'', ''WEHMEYER'', ''WEINMANN'', ''WISNESKI'',
         ''WHELCHEL'', ''WEISHAAR'', ''WAGGENER'', ''WALDROUP'', ''WESTHOFF'', ''WIEDEMAN'',
         ''WASINGER'', ''WINBORNE'', ''WHISENANT'', ''WEINSTEIN'', ''WESTERMAN'', ''WASSERMAN'',
         ''WITKOWSKI'', ''WEINTRAUB'', ''WINKELMAN'', ''WINKFIELD'', ''WANAMAKER'',
         ''WIECZOREK'', ''WIECHMANN'', ''WOJTOWICZ'', ''WALKOWIAK'', ''WEINSTOCK'',
         ''WILLEFORD'', ''WARKENTIN'', ''WEISINGER'', ''WINKLEMAN'', ''WILHEMINA'',
         ''WISNIEWSKI'', ''WUNDERLICH'', ''WHISENHUNT'', ''WEINBERGER'', ''WROBLEWSKI'',
         ''WAGUESPACK'', ''WEISGERBER'', ''WESTERVELT'', ''WESTERLUND'', ''WASILEWSKI'',
         ''WILDERMUTH'', ''WESTENDORF'', ''WESOLOWSKI'', ''WEINGARTEN'', ''WINEBARGER'',
         ''WESTERBERG'', ''WANNAMAKER'', ''WEISSINGER'', ''WALDSCHMIDT'', ''WEINGARTNER'',
         ''WINEBRENNER'', ''WOLFENBARGER'', ''WOJCIECHOWSKI''])"

definition encodeInitialWVowel :: "Encoder \<Rightarrow> (bool \<times> Encoder) option" where
  "encodeInitialWVowel e =
     (if idx e = 0 \<and> isVowelAt e 1 then do {
        let e = (if germanicOrSlavicNameBeginningWithW e then (if EncodeVowels e then
            metaphAddExactApproxAlt ''A'' ''VA'' ''A'' ''FA'' e else metaphAddExactApproxAlt
            ''A'' ''V'' ''A'' ''F'' e) else metaphAdd (rune CHR ''A'') e);
        at \<leftarrow> skipVowels e (idx e + 1);
        let e = e\<lparr>idx := at\<rparr>;
        Some (True, e)
      }
      else Some (False, e))"

definition encodeWh :: "Encoder \<Rightarrow> (bool \<times> Encoder) option" where
  "encodeWh e =
     (if stringAt e 0 [''WH''] then do {
        c \<leftarrow> andalso (charAt e 2 (rune CHR ''O'')) (Some (\<not> stringAt e 2 [''OA'',
            ''OP'', ''OOP'', ''OMP'', ''ORL'', ''ORT'', ''OOSH'']));
        if c then do {
          let e = metaphAdd (rune CHR ''H'') e;
          let e = advanceCounter 2 1 e;
          Some (True, e)
        }
        else (if stringAt e 2 [''IDE'', ''ARD'', ''EAD'', ''AWK'', ''ERD'', ''OOK'', ''AND'',
            ''OLE'', ''OOD'', ''EART'', ''OUSE'', ''OUND'', ''AMMER''] then do {
           let e = metaphAdd (rune CHR ''H'') e;
           let e = e\<lparr>idx := idx e + 1\<rparr>;
           Some (True, e)
         }
         else (if idx e = 0 then do {
            let e = metaphAdd (rune CHR ''A'') e;
            at \<leftarrow> skipVowels e (idx e + 2);
            let e = e\<lparr>idx := at\<rparr>;
            Some (True, e)
          }
          else do {
            let e = e\<lparr>idx := idx e + 1\<rparr>;
            Some (True, e)
          }))
      }
      else Some (False, e))"

definition encodeEasternEuropeanW :: "Encoder \<Rightarrow> (bool \<times> Encoder) option"
    where
  "encodeEasternEuropeanW e =
     (if (idx e = lastIdx e \<and> isVowelAt e (-1)) \<or> stringAt e (-1) [''EWSKI'',
         ''EWSKY'', ''OWSKI'', ''OWSKY''] \<or> stringAtEnd e 0 [''WIAK'', ''WICKI'', ''WACKI'']
         \<or> stringStart e [''SCH''] then do {
        let e = metaphAddExactApproxAlt '''' ''V'' '''' ''F'' e;
        Some (True, e)
      }
      else Some (False, e))"

definition encodeW :: "Encoder \<Rightarrow> Encoder option" where
  "encodeW e =
     do {
       (c, e) \<leftarrow> cascade [pur encodeSilentWAtBeginning, encodeWitzWicz, encodeWr,
           encodeInitialWVowel, encodeWh, encodeEasternEuropeanW] e;
       if c then Some e
       else (if EncodeVowels e \<and> stringAtEnd e 0 [''WE''] then do {
          let e = metaphAdd (rune CHR ''A'') e;
          Some e
        }
        else Some e)
     }"

definition encodeInitialX :: "Encoder \<Rightarrow> (bool \<times> Encoder) option" where
  "encodeInitialX e =
     (if stringStart e [''XU'', ''XIA'', ''XIO'', ''XIE''] then do {
        let e = metaphAdd (rune CHR ''X'') e;
        Some (True, e)
      }
      else (if idx e = 0 then do {
         let e = metaphAdd (rune CHR ''S'') e;
         Some (True, e)
       }
       else Some (False, e)))"

definition encodeGreekX :: "Encoder \<Rightarrow> (bool \<times> Encoder) option" where
  "encodeGreekX e =
     (if stringAt e 1 [''YLO'', ''YLE'', ''ENO'', ''ANTH''] then do {
        let e = metaphAdd (rune CHR ''S'') e;
        Some (True, e)
      }
      else Some (False, e))"

definition encodeXSpecialCases :: "Encoder \<Rightarrow> (bool \<times> Encoder) option" where
  "encodeXSpecialCases e =
     (if stringAt e (-2) [''LUXUR''] then do {
        let e = metaphAddExactApprox ''GJ'' ''KJ'' e;
        Some (True, e)
      }
      else (if stringStart e [''TEXEIRA'', ''TEIXEIRA''] then do {
         let e = metaphAdd (rune CHR ''X'') e;
         Some (True, e)
       }
       else Some (False, e)))"

definition encodeXToH :: "Encoder \<Rightarrow> (bool \<times> Encoder) option" where
  "encodeXToH e =
     (if stringAt e (-2) [''OAXACA''] \<or> stringAt e (-3) [''QUIXOTE''] then do {
        let e = metaphAdd (rune CHR ''H'') e;
        Some (True, e)
      }
      else Some (False, e))"

definition encodeXVowel :: "Encoder \<Rightarrow> (bool \<times> Encoder) option" where
  "encodeXVowel e =
     (if stringAt e 1 [''UAL'', ''ION'', ''IOU''] then do {
        let e = metaphAddStr ''KX'' ''KS'' e;
        let e = advanceCounter 2 0 e;
        Some (True, e)
      }
      else Some (False, e))"

definition encodeFrenchXFinal :: "Encoder \<Rightarrow> (bool \<times> Encoder) option" where
  "encodeFrenchXFinal e =
     do {
       let e = (if \<not> (idx e = lastIdx e \<and> (stringAt e (-3) [''IAU'', ''EAU'', ''IEU'']
           \<or> stringAt e (-2) [''AI'', ''AU'', ''OU'', ''OI'', ''EU''])) then metaphAddStr
           ''KS'' ''KS'' e else e);
       Some (False, e)
     }"

definition encodeX :: "Encoder \<Rightarrow> Encoder option" where
  "encodeX e =
     do {
       (c, e) \<leftarrow> cascade [encodeInitialX, encodeGreekX, encodeXSpecialCases,
           encodeXToH, encodeXVowel, encodeFrenchXFinal] e;
       if c then Some e
       else (if stringAt e 1 [''X'', ''Z'', ''S'', ''CE'', ''CE''] then do {
          let e = e\<lparr>idx := idx e + 1\<rparr>;
          Some e
        }
        else Some e)
     }"

definition encodeZz :: "Encoder \<Rightarrow> (bool \<times> Encoder) option" where
  "encodeZz e =
     do {
       c \<leftarrow> andalso (charNextIs e (rune CHR ''Z'')) (Some ((stringAtEnd e 2 [''I'',
           ''O'', ''A''] \<or> stringAt e (-2) [''MOZZARELL'', ''PIZZICATO'', ''PUZZONLAN''])));
       if c then do {
         let e = metaphAddStr ''TS'' ''S'' e;
         let e = e\<lparr>idx := idx e + 1\<rparr>;
         Some (True, e)
       }
       else Some (False, e)
     }"

definition encodeZuZierZs :: "Encoder \<Rightarrow> (bool \<times> Encoder) option" where
  "encodeZuZierZs e =
     (if (idx e = 1 \<and> stringAt e (-1) [''AZUR'']) \<or> (stringAt e 0 [''ZIER''] \<and>
         \<not> stringAt e (-2) [''VIZIER'']) \<or> stringAt e 0 [''ZSA''] then do {
        let e = metaphAddAlt (rune CHR ''J'') (rune CHR ''S'') e;
        let e = (if stringAt e 0 [''ZSA''] then e\<lparr>idx := idx e + 1\<rparr> else e);
        Some (True, e)
      }
      else Some (False, e))"

definition encodeFrenchEz :: "Encoder \<Rightarrow> bool" where
  "encodeFrenchEz e =
     (if (idx e = 3 \<and> stringAt e (-3) [''CHEZ'']) \<or> stringAt e (-5) [''RENDEZ''] then
         True
      else False)"

definition encodeGermanZ :: "Encoder \<Rightarrow> (bool \<times> Encoder) option" where
  "encodeGermanZ e =
     (if stringExact e [''NAZI''] \<or> stringAt e (-2) [''NAZIFY'', ''MOZART''] \<or> stringAt
         e (-3) [''HOLZ'', ''HERZ'', ''MERZ'', ''FITZ'', ''HERZOG''] \<or> (stringAt e (-3)
         [''GANZ''] \<and> \<not> isVowelAt e 1) \<or> stringAt e (-4) [''STOLZ'', ''PRINZ'',
         ''VENEZIA''] \<or> (stringContains e ''SCH'' \<and> \<not> stringEnd e [''IZE'',
         ''OZE'', ''ZEL'']) \<or> (idx e > 0 \<and> stringAt e 0 [''ZEIT'']) \<or> stringAt e
         (-3) [''WEIZ''] then do {
        c \<leftarrow> andalso (Some (idx e > 0)) (charAt e (-1) (rune CHR ''T''));
        let e = (if c then metaphAdd (rune CHR ''S'') e else metaphAddStr ''TS'' ''TS'' e);
        Some (True, e)
      }
      else Some (False, e))"

definition encodeZh :: "Encoder \<Rightarrow> (bool \<times> Encoder) option" where
  "encodeZh e =
     do {
       c \<leftarrow> charNextIs e (rune CHR ''H'');
       if c then do {
         let e = metaphAdd (rune CHR ''J'') e;
         let e = e\<lparr>idx := idx e + 1\<rparr>;
         Some (True, e)
       }
       else Some (False, e)
     }"

definition encodeZ :: "Encoder \<Rightarrow> Encoder option" where
  "encodeZ e =
     do {
       (c, e) \<leftarrow> cascade [encodeZz, encodeZuZierZs, pur encodeFrenchEz, encodeGermanZ,
           encodeZh] e;
       if c then Some e
       else do {
         let e = metaphAdd (rune CHR ''S'') e;
         c \<leftarrow> charNextIs e (rune CHR ''Z'');
         if c then do {
           let e = e\<lparr>idx := idx e + 1\<rparr>;
           Some e
         }
         else Some e
       }
     }"

definition encodeSkipSilentUe :: "Encoder \<Rightarrow> (bool \<times> Encoder) option" where
  "encodeSkipSilentUe e =
     (if stringAt e (-1) [''QUE'', ''GUE''] \<and> \<not> stringStart e [''RISQUE'',
         ''PIROGUE'', ''ENRIQUE'', ''BARBEQUE'', ''PALENQUE'', ''APPLIQUE'', ''COMMUNIQUE'']
         \<and> \<not> stringAt e (-3) [''ARGUE'', ''SEGUE''] \<and> idx e > 1 \<and> (idx e + 1
         = lastIdx e \<or> stringStart e [''JACQUES'']) then do {
        at \<leftarrow> skipVowels e (idx e);
        let e = e\<lparr>idx := at\<rparr>;
        Some (True, e)
      }
      else Some (False, e))"

definition encodeOSilent :: "Encoder \<Rightarrow> bool option" where
  "encodeOSilent e =
     do {
       c \<leftarrow> andalso (charAt e 0 (rune CHR ''O'')) (Some (stringAt e (-2) [''IRON'']));
       if c then (if (stringStart e [''IRON''] \<or> stringAtEnd e (-2) [''IRON'']) \<and>
           \<not> stringAt e (-2) [''IRONIC''] then Some True
        else Some False)
       else Some False
     }"

definition encodeEPronouncedAtEnd :: "Encoder \<Rightarrow> bool" where
  "encodeEPronouncedAtEnd e =
     (if idx e = lastIdx e \<and> (stringAt e (-6) [''STROPHE''] \<or> int (length (inp e)) = 2
         \<or> (int (length (inp e)) = 3 \<and> \<not> isVowelAt e (- idx e)) \<or> (stringAtEnd
         e (-2) [''BKE'', ''DKE'', ''FKE'', ''KKE'', ''LKE'', ''NKE'', ''MKE'', ''PKE'',
         ''TKE'', ''VKE'', ''ZKE''] \<and> \<not> stringStart e [''FINKE'', ''FUNKE'',
         ''FRANKE'']) \<or> stringAtEnd e (-4) [''SCHKE''] \<or> stringExact e [''ACME'',
         ''NIKE'', ''CAFE'', ''RENE'', ''LUPE'', ''JOSE'', ''ESME'', ''LETHE'', ''CADRE'',
         ''TILDE'', ''SIGNE'', ''POSSE'', ''LATTE'', ''ANIME'', ''DOLCE'', ''CROCE'', ''ADOBE'',
         ''OUTRE'', ''JESSE'', ''JAIME'', ''JAFFE'', ''BENGE'', ''RUNGE'', ''CHILE'', ''DESME'',
         ''CONDE'', ''URIBE'', ''LIBRE'', ''ANDRE'', ''HECATE'', ''PSYCHE'', ''DAPHNE'',
         ''PENSKE'', ''CLICHE'', ''RECIPE'', ''TAMALE'', ''SESAME'', ''SIMILE'', ''FINALE'',
         ''KARATE'', ''RENATE'', ''SHANTE'', ''OBERLE'', ''COYOTE'', ''KRESGE'', ''STONGE'',
         ''STANGE'', ''SWAYZE'', ''FUENTE'', ''SALOME'', ''URRIBE'', ''ECHIDNE'', ''ARIADNE'',
         ''MEINEKE'', ''PORSCHE'', ''ANEMONE'', ''EPITOME'', ''SYNCOPE'', ''SOUFFLE'',
         ''ATTACHE'', ''MACHETE'', ''KARAOKE'', ''BUKKAKE'', ''VICENTE'', ''ELLERBE'',
         ''VERSACE'', ''PENELOPE'', ''CALLIOPE'', ''CHIPOTLE'', ''ANTIGONE'', ''KAMIKAZE'',
         ''EURIDICE'', ''YOSEMITE'', ''FERRANTE'', ''HYPERBOLE'', ''GUACAMOLE'', ''XANTHIPPE'',
         ''SYNECDOCHE'']) then True
      else False)"

definition encodeESilent :: "Encoder \<Rightarrow> bool" where
  "encodeESilent e =
     (if encodeEPronouncedAtEnd e then False
      else (if idx e = lastIdx e \<or> (idx e > 1 \<and> idx e + 1 = lastIdx e \<and> stringAt e
          1 [''S'', ''D''] \<and> \<not> (stringAt e (-1) [''TED'', ''SES'', ''CES''] \<or>
          stringStart e [''ABED'', ''IMED'', ''JARED'', ''AHMED'', ''HAMED'', ''JAVED'',
          ''NORRED'', ''MEDVED'', ''MERCED'', ''ALLRED'', ''KHALED'', ''RASHED'', ''MASJED'',
          ''MOHAMED'', ''MOHAMMED'', ''MUHAMMED'', ''MOUHAMED'', ''ANTIPODES'', ''ANOPHELES'']))
          \<or> stringAtEnd e 1 [''NESS'', ''LESS''] \<or> (stringAtEnd e 1 [''LY''] \<and>
          \<not> stringStart e [''CICELY'']) then True
       else False))"

definition encodeESuffix :: "Encoder \<Rightarrow> int \<Rightarrow> bool" where
  "encodeESuffix e at =
     (if idx e = at - 1 \<and> int (length (inp e)) > at + 1 \<and> (isVowelAt e (- idx e + at +
         1) \<or> (stringAt e (- idx e + at) [''ST'', ''SL''] \<and> int (length (inp e)) > at +
         2)) then (if stringAtEnd e (- idx e + at) [''T'', ''R'', ''TA'', ''TT'', ''NA'',
         ''NO'', ''NE'', ''RS'', ''RE'', ''LA'', ''AU'', ''RO'', ''RA'', ''TTE'', ''LIA'',
         ''NOW'', ''ROS'', ''RAS'', ''WOOD'', ''WATER'', ''WORTH''] then False
       else True)
      else False)"

definition encodeSilentInternalE :: "Encoder \<Rightarrow> bool" where
  "encodeSilentInternalE e =
     (if (stringStart e [''OLE''] \<and> encodeESuffix e 3) \<or> (stringStart e [''BARE'',
         ''FIRE'', ''FORE'', ''GATE'', ''HAGE'', ''HAVE'', ''HAZE'', ''HOLE'', ''CAPE'',
         ''HUSE'', ''LACE'', ''LINE'', ''LIVE'', ''LOVE'', ''MORE'', ''MOSE'', ''MORE'',
         ''NICE'', ''RAKE'', ''ROBE'', ''ROSE'', ''SISE'', ''SIZE'', ''WARE'', ''WAKE'',
         ''WISE'', ''WINE''] \<and> encodeESuffix e 4) \<or> (stringStart e [''BLAKE'',
         ''BRAKE'', ''BRINE'', ''CARLE'', ''CLEVE'', ''DUNNE'', ''HEDGE'', ''HOUSE'', ''JEFFE'',
         ''LUNCE'', ''STOKE'', ''STONE'', ''THORE'', ''WEDGE'', ''WHITE''] \<and> encodeESuffix
         e 5) \<or> (stringStart e [''BRIDGE'', ''CHEESE''] \<and> encodeESuffix e 6) \<or>
         stringAt e (-5) [''CHARLES''] then True
      else False)"

definition encodeEPronouncedExceptions :: "Encoder \<Rightarrow> bool" where
  "encodeEPronouncedExceptions e =
     (if (idx e + 1 = lastIdx e \<and> (stringAtEnd e (-3) [''OCLES'', ''ACLES'', ''AKLES'']
         \<or> stringStart e [''INES'', ''LOPES'', ''ESTES'', ''GOMES'', ''NUNES'', ''ALVES'',
         ''ICKES'', ''INNES'', ''PERES'', ''WAGES'', ''NEVES'', ''BENES'', ''DONES'',
         ''CORTES'', ''CHAVES'', ''VALDES'', ''ROBLES'', ''TORRES'', ''FLORES'', ''BORGES'',
         ''NIEVES'', ''MONTES'', ''SOARES'', ''VALLES'', ''GEDDES'', ''ANDRES'', ''VIAJES'',
         ''CALLES'', ''FONTES'', ''HERMES'', ''ACEVES'', ''BATRES'', ''MATHES'', ''DELORES'',
         ''MORALES'', ''DOLORES'', ''ANGELES'', ''ROSALES'', ''MIRELES'', ''LINARES'',
         ''PERALES'', ''PAREDES'', ''BRIONES'', ''SANCHES'', ''CAZARES'', ''REVELES'',
         ''ESTEVES'', ''ALVARES'', ''MATTHES'', ''SOLARES'', ''CASARES'', ''CACERES'',
         ''STURGES'', ''RAMIRES'', ''FUNCHES'', ''BENITES'', ''FUENTES'', ''PUENTES'',
         ''TABARES'', ''HENTGES'', ''VALORES'', ''GONZALES'', ''MERCEDES'', ''FAGUNDES'',
         ''JOHANNES'', ''GONSALES'', ''BERMUDES'', ''CESPEDES'', ''BETANCES'', ''TERRONES'',
         ''DIOGENES'', ''CORRALES'', ''CABRALES'', ''MARTINES'', ''GRAJALES'', ''CERVANTES'',
         ''FERNANDES'', ''GONCALVES'', ''BENEVIDES'', ''CIFUENTES'', ''SIFUENTES'',
         ''SERVANTES'', ''HERNANDES'', ''BENAVIDES'', ''ARCHIMEDES'', ''CARRIZALES'',
         ''MAGALLANES''])) \<or> stringAt e (-2) [''FRED'', ''DGES'', ''DRED'', ''GNES''] \<or>
         stringAt e (-5) [''PROBLEM'', ''RESPLEN''] \<or> stringAt e (-4) [''REPLEN''] \<or>
         stringAt e (-3) [''SPLE''] then True
      else False)"

definition encodeEPronounced :: "Encoder \<Rightarrow> Encoder option" where
  "encodeEPronounced e =
     (if stringExact e [''LAME'', ''SAKE'', ''PATE'', ''AGAPE''] \<or> (stringStart e
         [''RESUME''] \<and> idx e = 5) then do {
        let e = metaphAddAlt ReplacementChar (rune CHR ''A'') e;
        Some e
      }
      else (if stringExact e [''INGE''] then do {
         let e = metaphAddAlt (rune CHR ''A'') ReplacementChar e;
         Some e
       }
       else (if idx e = 5 \<and> stringStart e [''BLESSED'', ''LEARNED''] then do {
          let e = metaphAddExactApproxAlt ''D'' ''AD'' ''T'' ''AT'' e;
          let e = e\<lparr>idx := idx e + 1\<rparr>;
          Some e
        }
        else do {
          let e = (if (\<not> encodeESilent e \<and> \<not> flagAlInversion e \<and> \<not>
              encodeSilentInternalE e) \<or> encodeEPronouncedExceptions e then metaphAdd (rune
              CHR ''A'') e else e);
          let e = e\<lparr>flagAlInversion := False\<rparr>;
          Some e
        })))"

definition encodeVowels :: "Encoder \<Rightarrow> Encoder option" where
  "encodeVowels e =
     do {
       let rest = (\<lambda>e. (if \<not> (\<not> isVowelAt e (-2) \<and> stringAt e (-1)
           [''LEWA'', ''LEWO'', ''LEWI'']) then do {
            at \<leftarrow> skipVowels e (idx e + 1);
            let e = e\<lparr>idx := at\<rparr>;
            Some e
          }
          else Some e));
       if idx e = 0 then do {
         let e = metaphAdd (rune CHR ''A'') e;
         rest e
       }
       else (if EncodeVowels e then do {
          c \<leftarrow> nott (charAt e 0 (rune CHR ''E''));
          if c then do {
            (c, e) \<leftarrow> encodeSkipSilentUe e;
            if c then Some e
            else do {
              c \<leftarrow> encodeOSilent e;
              if c then Some e
              else do {
                let e = metaphAdd (rune CHR ''A'') e;
                rest e
              }
            }
          }
          else do {
            e \<leftarrow> encodeEPronounced e;
            rest e
          }
        }
        else rest e)
     }"

section \<open>Encode\<close>

text \<open>The \<^verbatim>\<open>switch\<close> on the rune at the cursor.\<close>

definition dispatch :: "Encoder \<Rightarrow> Encoder option" where
  "dispatch e =
     do {
       c \<leftarrow> rd (inp e) (idx e);
       if c = rune CHR ''B'' then encodeB e
       else if c = 0xDF \<or> c = 0xC7 then Some (metaphAdd (rune CHR ''S'') e)
       else if c = rune CHR ''C'' then encodeC e
       else if c = rune CHR ''D'' then encodeD e
       else if c = rune CHR ''F'' then encodeF e
       else if c = rune CHR ''G'' then encodeG e
       else if c = rune CHR ''H'' then encodeH e
       else if c = rune CHR ''J'' then encodeJ e
       else if c = rune CHR ''K'' then encodeK e
       else if c = rune CHR ''L'' then encodeL e
       else if c = rune CHR ''M'' then encodeM e
       else if c = rune CHR ''N'' then encodeN e
       else if c = 0xD1 then Some (metaphAdd (rune CHR ''N'') e)
       else if c = rune CHR ''P'' then encodeP e
       else if c = rune CHR ''Q'' then encodeQ e
       else if c = rune CHR ''R'' then encodeR e
       else if c = rune CHR ''S'' then encodeS e
       else if c = rune CHR ''T'' then encodeT e
       else if c = 0xD0 \<or> c = 0xDE then Some (metaphAdd (rune CHR ''0'') e)
       else if c = rune CHR ''V'' then encodeV e
       else if c = rune CHR ''W'' then encodeW e
       else if c = rune CHR ''X'' then encodeX e
       else if c = 0xC28A then Some (metaphAdd (rune CHR ''X'') e)
       else if c = 0xC28E then Some (metaphAdd (rune CHR ''S'') e)
       else if c = rune CHR ''Z'' then encodeZ e
       else if isVowel c then encodeVowels e
       else Some e
     }"

text \<open>
  The loop of \<^verbatim>\<open>Encode\<close>, from the test \<^verbatim>\<open>e.idx < len(e.in)\<close> on: the check of the two
  buffers, the switch, and \<^verbatim>\<open>e.idx++\<close>. Not returning and a panic are both \<open>None\<close>.
\<close>

partial_function (option) scan :: "Encoder \<Rightarrow> Encoder option" where
  "scan e =
     (if idx e < int (length (inp e)) then
        (if int (length (primBuf e)) \<ge> MaxLength e \<and> int (length (secondBuf e)) \<ge> MaxLength e
         then Some e
         else do {
           e \<leftarrow> dispatch e;
           scan (e\<lparr>idx := idx e + 1\<rparr>)
         })
      else Some e)"

declare scan.simps [code]

text \<open>
  \<^verbatim>\<open>primeBuf\<close> keeps the slice's storage or allocates it anew; in each case the result has
  length 0.
\<close>

definition primeBuf :: "rune list \<Rightarrow> int \<Rightarrow> rune list" where
  "primeBuf buf ensureCap = (if length buf \<noteq> 0 then take 0 buf else buf)"

text \<open>
  \<^verbatim>\<open>Encode\<close> returns the two strings; the encoder it leaves behind is returned with them.
  The argument \<open>toUpper\<close> stands for \<^verbatim>\<open>unicode.ToUpper\<close> of the Go library. The results are
  the runes of the two buffers, which \<^verbatim>\<open>string(...)\<close> writes out in UTF-8.
\<close>

definition Encode :: "(rune \<Rightarrow> rune) \<Rightarrow> Encoder \<Rightarrow> string \<Rightarrow> ((rune list \<times> rune list) \<times> Encoder) option" where
  "Encode toUpper e w =
     (if w = [] then Some (([], []), e)
      else do {
        let e = (if MaxLength e \<le> 0 then e\<lparr>MaxLength := DefaultMaxLength\<rparr> else e);
        let e = e\<lparr>flagAlInversion := False\<rparr>;
        let e = e\<lparr>inp := map toUpper (runes w)\<rparr>;
        let e = e\<lparr>lastIdx := int (length (inp e)) - 1\<rparr>;
        let e = e\<lparr>primBuf := primeBuf (primBuf e) (MaxLength e)\<rparr>;
        let e = e\<lparr>secondBuf := primeBuf (secondBuf e) (MaxLength e)\<rparr>;
        e \<leftarrow> scan (e\<lparr>idx := 0\<rparr>);
        let e = (if int (length (primBuf e)) > MaxLength e
                 then e\<lparr>primBuf := take (nat (MaxLength e)) (primBuf e)\<rparr> else e);
        let e = (if int (length (secondBuf e)) > MaxLength e
                 then e\<lparr>secondBuf := take (nat (MaxLength e)) (secondBuf e)\<rparr> else e);
        if areEqual (primBuf e) (secondBuf e) then Some ((primBuf e, []), e)
        else Some ((primBuf e, secondBuf e), e)
      })"

section \<open>The context matchers read inside the input\<close>

lemma decodeMulti_width: "decodeMulti b bs = Some (r, k) \<Longrightarrow> k \<le> length bs \<and> 0 < k"
  by (auto simp: decodeMulti_def split: if_splits list.splits)

lemma length_runes: "length (runes v) \<le> length v"
proof (induction "length v" arbitrary: v rule: less_induct)
  case less
  show ?case
  proof (cases v)
    case Nil
    then show ?thesis by simp
  next
    case (Cons c cs)
    have a: "length (runes cs) \<le> length cs"
      using less [of cs] Cons by simp
    have "length (runes (drop k cs)) \<le> length cs - k" for k
      using less [of "drop k cs"] Cons by simp
    then have b: "length (runes (drop k cs)) \<le> length cs" for k
      using le_trans diff_le_self by blast
    show ?thesis
      using Cons a b by (auto split: option.splits dest: decodeMulti_width)
  qed
qed

lemma lettersAt_chk_eq:
  "0 \<le> i \<Longrightarrow> i + int (length cs) \<le> int (length xs) \<Longrightarrow>
   lettersAt_chk xs i cs = Some (lettersAt xs i cs)"
  by (induction cs arbitrary: i) (auto simp: rd_def)

lemma lettersAt_chk_runes:
  "0 \<le> i \<Longrightarrow> i + int (length v) \<le> int (length xs) \<Longrightarrow>
   lettersAt_chk xs i (runes v) = Some (lettersAt xs i (runes v))"
  using length_runes [of v] by (intro lettersAt_chk_eq) auto

lemma stringAtVals_chk_eq:
  "0 \<le> start \<Longrightarrow> stringAtVals_chk xs start vs = Some (stringAtVals xs start vs)"
  by (induction vs) (auto simp: lettersAt_chk_runes)

lemma stringAtEndVals_chk_eq:
  "0 \<le> start \<Longrightarrow> stringAtEndVals_chk xs start vs = Some (stringAtEndVals xs start vs)"
  by (induction vs) (auto simp: lettersAt_chk_runes Let_def)

lemma stringEndVals_chk_eq: "stringEndVals_chk xs vs = Some (stringEndVals xs vs)"
  by (induction vs) (auto simp: lettersAt_chk_runes Let_def)

lemma stringExactVals_chk_eq: "stringExactVals_chk xs vs = Some (stringExactVals xs vs)"
  by (induction vs) (auto simp: lettersAt_chk_runes)

lemma advanceMatch_chk_eq:
  "0 \<le> i \<Longrightarrow> i + int (length cs) \<le> int (length xs) \<Longrightarrow>
   advanceMatch_chk xs i cs = Some (advanceMatch xs i cs)"
  by (induction cs arbitrary: i) (auto simp: rd_def)

lemma containsAt_chk_eq:
  "\<forall>i\<in>set is. 0 \<le> i \<and> i + int (length val) \<le> int (length xs) \<Longrightarrow>
   containsAt_chk xs val is = Some (containsAt xs val is)"
proof (induction "is")
  case Nil
  then show ?case by simp
next
  case (Cons i "is")
  have "advanceMatch_chk xs i (runes val) = Some (advanceMatch xs i (runes val))"
    using Cons.prems length_runes [of val] by (intro advanceMatch_chk_eq) auto
  with Cons show ?case by simp
qed

lemma stringAt_chk_eq:
  "vals \<noteq> [] \<Longrightarrow> stringAt_chk e offset vals = Some (stringAt e offset vals, e)"
  by (cases vals)
    (simp_all add: stringAt_chk_def stringAt_def Let_def stringAtVals_chk_eq
      del: stringAtVals_chk.simps stringAtVals.simps)

lemma stringAtEnd_chk_eq:
  "vals \<noteq> [] \<Longrightarrow> stringAtEnd_chk e offset vals = Some (stringAtEnd e offset vals, e)"
  by (cases vals)
    (simp_all add: stringAtEnd_chk_def stringAtEnd_def Let_def stringAtEndVals_chk_eq
      del: stringAtEndVals_chk.simps stringAtEndVals.simps)

lemma stringContains_chk_eq: "stringContains_chk e val = Some (stringContains e val, e)"
proof -
  have "containsAt_chk (inp e) val [0..int (length (inp e)) - int (length val)] =
      Some (containsAt (inp e) val [0..int (length (inp e)) - int (length val)])"
    by (rule containsAt_chk_eq) auto
  then show ?thesis
    by (simp add: stringContains_chk_def stringContains_def Let_def)
qed

text \<open>What the loops of the matchers compute.\<close>

lemma lettersAt_take:
  "0 \<le> i \<Longrightarrow> i + int (length cs) \<le> int (length xs) \<Longrightarrow>
   lettersAt xs i cs \<longleftrightarrow> take (length cs) (drop (nat i) xs) = cs"
proof (induction cs arbitrary: i)
  case Nil
  then show ?case by simp
next
  case (Cons c cs)
  have a: "nat i < length xs" using Cons.prems by auto
  have b: "drop (nat i) xs = xs ! nat i # drop (nat (i + 1)) xs"
    using a Cons.prems by (simp add: Cons_nth_drop_Suc nat_add_distrib)
  have "lettersAt xs (i + 1) cs \<longleftrightarrow> take (length cs) (drop (nat (i + 1)) xs) = cs"
    using Cons.prems by (intro Cons.IH) auto
  then show ?case using b by auto
qed

lemma stringAtVals_iff:
  "stringAtVals xs start vs \<longleftrightarrow>
   (\<exists>k<length vs. (\<forall>j<k. start + int (length (vs ! j)) \<le> int (length xs)) \<and>
      start + int (length (vs ! k)) \<le> int (length xs) \<and> lettersAt xs start (runes (vs ! k)))"
  by (induction vs) (auto simp: Ex_less_Suc2 All_less_Suc2)

lemma stringAtEndVals_iff:
  "stringAtEndVals xs start vs \<longleftrightarrow>
   (\<exists>k<length vs. (\<forall>j<k. start + int (length (vs ! j)) \<le> int (length xs)) \<and>
      start + int (length (vs ! k)) = int (length xs) \<and> lettersAt xs start (runes (vs ! k)))"
  by (induction vs) (auto simp: Ex_less_Suc2 All_less_Suc2 Let_def)

lemma stringExactVals_iff:
  "stringExactVals xs vs \<longleftrightarrow>
   (\<exists>k<length vs. (\<forall>j<k. length (vs ! j) \<le> length xs) \<and>
      length (vs ! k) = length xs \<and> lettersAt xs 0 (runes (vs ! k)))"
  by (induction vs) (auto simp: Ex_less_Suc2 All_less_Suc2)

lemma stringEndVals_iff:
  "stringEndVals xs vs \<longleftrightarrow>
   (\<exists>k<length vs. (\<forall>j<k. length (vs ! j) \<le> length xs) \<and>
      length (vs ! k) \<le> length xs \<and>
      lettersAt xs (int (length xs) - int (length (vs ! k))) (runes (vs ! k)))"
  by (induction vs) (auto simp: Ex_less_Suc2 All_less_Suc2 Let_def)

lemma advanceMatch_bounds: "i \<le> advanceMatch xs i cs \<and> advanceMatch xs i cs \<le> i + int (length cs)"
  by (induction cs arbitrary: i) (auto, (smt (verit))+)

lemma advanceMatch_full:
  "advanceMatch xs i cs = i + int (length cs) \<longleftrightarrow> lettersAt xs i cs"
proof (induction cs arbitrary: i)
  case Nil
  then show ?case by simp
next
  case (Cons c cs)
  show ?case using Cons.IH [of "i + 1"] advanceMatch_bounds [of i xs "c # cs"]
      by auto
qed

lemma containsAt_iff:
  "containsAt xs val is \<longleftrightarrow> (\<exists>i\<in>set is. advanceMatch xs i (runes val) - i = int (length val))"
  by (induction "is") auto

lemma lettersAt_runes:
  "0 \<le> i \<Longrightarrow> i + int (length v) \<le> int (length xs) \<Longrightarrow>
   lettersAt xs i (runes v) \<longleftrightarrow> take (length (runes v)) (drop (nat i) xs) = runes v"
  using length_runes [of v] by (intro lettersAt_take) auto

lemma all_le_less: "(\<forall>j\<le>k. P j) \<longleftrightarrow> (\<forall>j<k. P j) \<and> P (k::nat)"
  by (auto simp: le_less)

lemma atVals_take:
  assumes "0 \<le> s"
  shows "stringAtVals xs s vs \<longleftrightarrow>
   (\<exists>k<length vs. (\<forall>j\<le>k. s + int (length (vs ! j)) \<le> int (length xs)) \<and>
      take (length (runes (vs ! k))) (drop (nat s) xs) = runes (vs ! k))"
  unfolding stringAtVals_iff all_le_less using assms lettersAt_runes [of s _ xs] by blast

lemma atEndVals_take:
  assumes "0 \<le> s"
  shows "stringAtEndVals xs s vs \<longleftrightarrow>
   (\<exists>k<length vs. (\<forall>j\<le>k. s + int (length (vs ! j)) \<le> int (length xs)) \<and>
      s + int (length (vs ! k)) = int (length xs) \<and>
      take (length (runes (vs ! k))) (drop (nat s) xs) = runes (vs ! k))"
  unfolding stringAtEndVals_iff all_le_less using assms lettersAt_runes [of s _ xs]
  by (metis order_refl)

lemma first_fits:
  "vals \<noteq> [] \<Longrightarrow> \<not> s + int (length (hd vals)) \<le> n \<Longrightarrow>
   \<not> (\<forall>j\<le>k. s + int (length (vals ! j)) \<le> n)"
  by (auto simp: hd_conv_nth intro!: exI [of _ 0])

lemma stringAt_iff:
  assumes "vals \<noteq> []"
  shows "stringAt e offset vals \<longleftrightarrow>
    0 \<le> idx e + offset \<and> idx e + offset < int (length (inp e)) \<and>
    (\<exists>k<length vals.
       (\<forall>j\<le>k. idx e + offset + int (length (vals ! j)) \<le> int (length (inp e))) \<and>
       take (length (runes (vals ! k))) (drop (nat (idx e + offset)) (inp e)) = runes (vals ! k))"
proof (cases "0 \<le> idx e + offset \<and> idx e + offset < int (length (inp e))")
  case False
  then show ?thesis by (auto simp: stringAt_def Let_def)
next
  case True
  show ?thesis
  proof (cases "idx e + offset + int (length (hd vals)) \<le> int (length (inp e))")
    case False
    then show ?thesis
      using first_fits [OF assms False] by (simp add: stringAt_def Let_def del: not_le)
  next
    case t: True
    then show ?thesis
      using True atVals_take [of "idx e + offset" "inp e" vals]
      by (simp add: stringAt_def Let_def)
  qed
qed

lemma stringAtEnd_iff:
  assumes "vals \<noteq> []"
  shows "stringAtEnd e offset vals \<longleftrightarrow>
    0 \<le> idx e + offset \<and> idx e + offset < int (length (inp e)) \<and>
    (\<exists>k<length vals.
       (\<forall>j\<le>k. idx e + offset + int (length (vals ! j)) \<le> int (length (inp e))) \<and>
       idx e + offset + int (length (vals ! k)) = int (length (inp e)) \<and>
       take (length (runes (vals ! k))) (drop (nat (idx e + offset)) (inp e)) = runes (vals ! k))"
proof (cases "0 \<le> idx e + offset \<and> idx e + offset < int (length (inp e))")
  case False
  then show ?thesis by (auto simp: stringAtEnd_def Let_def)
next
  case True
  show ?thesis
  proof (cases "idx e + offset + int (length (hd vals)) \<le> int (length (inp e))")
    case False
    then show ?thesis
      using first_fits [OF assms False] by (simp add: stringAtEnd_def Let_def del: not_le)
  next
    case t: True
    then show ?thesis
      using True atEndVals_take [of "idx e + offset" "inp e" vals]
      by (simp add: stringAtEnd_def Let_def)
  qed
qed

lemma stringAtStart_iff:
  assumes "vals \<noteq> []"
  shows "stringAtStart e offset vals \<longleftrightarrow>
    idx e + offset = 0 \<and> inp e \<noteq> [] \<and>
    (\<exists>k<length vals. (\<forall>j\<le>k. length (vals ! j) \<le> length (inp e)) \<and>
       take (length (runes (vals ! k))) (inp e) = runes (vals ! k))"
proof (cases "offset = - idx e")
  case False
  then show ?thesis by (auto simp: stringAtStart_def)
next
  case True
  then show ?thesis
    using stringAt_iff [OF assms, of e offset] by (simp add: stringAtStart_def)
qed

lemma stringExact_iff:
  "stringExact e vals \<longleftrightarrow>
    (\<exists>k<length vals. (\<forall>j\<le>k. length (vals ! j) \<le> length (inp e)) \<and>
       length (vals ! k) = length (inp e) \<and>
       take (length (runes (vals ! k))) (inp e) = runes (vals ! k))"
proof -
  have "length v = length (inp e) \<Longrightarrow>
      lettersAt (inp e) 0 (runes v) \<longleftrightarrow> take (length (runes v)) (inp e) = runes v" for v
    using lettersAt_runes [of 0 v "inp e"] by simp
  then show ?thesis
    unfolding stringExact_def stringExactVals_iff all_le_less by (metis order_refl)
qed

lemma stringEnd_iff:
  "stringEnd e vals \<longleftrightarrow>
    (\<exists>k<length vals. (\<forall>j\<le>k. length (vals ! j) \<le> length (inp e)) \<and>
       take (length (runes (vals ! k))) (drop (length (inp e) - length (vals ! k)) (inp e)) =
         runes (vals ! k))"
proof -
  have "length v \<le> length (inp e) \<Longrightarrow>
      lettersAt (inp e) (int (length (inp e)) - int (length v)) (runes v) \<longleftrightarrow>
      take (length (runes v)) (drop (length (inp e) - length v) (inp e)) = runes v" for v
    using lettersAt_runes [of "int (length (inp e)) - int (length v)" v "inp e"]
    by (simp add: nat_diff_distrib')
  then show ?thesis
    unfolding stringEnd_def stringEndVals_iff all_le_less by blast
qed

lemma stringContains_iff:
  "stringContains e val \<longleftrightarrow>
    length (runes val) = length val \<and>
    (\<exists>i. i + length val \<le> length (inp e) \<and> take (length val) (drop i (inp e)) = runes val)"
proof -
  define n where "n = int (length (inp e)) - int (length val)"
  have a: "advanceMatch (inp e) i (runes val) - i = int (length val) \<longleftrightarrow>
      length (runes val) = length val \<and> lettersAt (inp e) i (runes val)" for i
    using advanceMatch_bounds [of i "inp e" "runes val"] advanceMatch_full [of "inp e" i "runes val"]
      length_runes [of val] by auto
  have b: "0 \<le> i \<Longrightarrow> i \<le> n \<Longrightarrow> length (runes val) = length val \<Longrightarrow>
      lettersAt (inp e) i (runes val) \<longleftrightarrow> take (length val) (drop (nat i) (inp e)) = runes val" for i
    using lettersAt_runes [of i val "inp e"] by (simp add: n_def)
  have c: "stringContains e val \<longleftrightarrow>
      (\<exists>i. 0 \<le> i \<and> i \<le> n \<and> advanceMatch (inp e) i (runes val) - i = int (length val))"
    by (auto simp: stringContains_def Let_def containsAt_iff n_def [symmetric])
  have "stringContains e val \<longleftrightarrow>
      length (runes val) = length val \<and>
      (\<exists>i. 0 \<le> i \<and> i \<le> n \<and> take (length val) (drop (nat i) (inp e)) = runes val)"
    unfolding c a using b by blast
  also have "(\<exists>i. 0 \<le> i \<and> i \<le> n \<and> take (length val) (drop (nat i) (inp e)) = runes val) \<longleftrightarrow>
      (\<exists>i. i + length val \<le> length (inp e) \<and> take (length val) (drop i (inp e)) = runes val)"
  proof
    assume "\<exists>i. 0 \<le> i \<and> i \<le> n \<and> take (length val) (drop (nat i) (inp e)) = runes val"
    then obtain i where "0 \<le> i" "i \<le> n" "take (length val) (drop (nat i) (inp e)) = runes val"
      by blast
    then have "nat i + length val \<le> length (inp e) \<and>
        take (length val) (drop (nat i) (inp e)) = runes val"
      by (auto simp: n_def)
    then show "\<exists>i. i + length val \<le> length (inp e) \<and> take (length val) (drop i (inp e)) = runes val"
      by blast
  next
    assume "\<exists>i. i + length val \<le> length (inp e) \<and> take (length val) (drop i (inp e)) = runes val"
    then obtain i where "i + length val \<le> length (inp e)"
        "take (length val) (drop i (inp e)) = runes val"
      by blast
    then have "0 \<le> int i \<and> int i \<le> n \<and> take (length val) (drop (nat (int i)) (inp e)) = runes val"
      by (auto simp: n_def)
    then show "\<exists>i. 0 \<le> i \<and> i \<le> n \<and> take (length val) (drop (nat i) (inp e)) = runes val"
      by blast
  qed
  finally show ?thesis .
qed

text \<open>
  C8. The matchers \<^verbatim>\<open>stringAt\<close>, \<^verbatim>\<open>stringAtStart\<close>, \<^verbatim>\<open>stringAtEnd\<close>, \<^verbatim>\<open>stringExact\<close>,
  \<^verbatim>\<open>stringEnd\<close> and \<^verbatim>\<open>stringContains\<close> are bounds-safe and pure. For every encoder state
  (every input, cursor and offset, also negative ones) and every non-empty list of
  candidates, the version of each matcher that checks every read of the input returns
  normally, never with the panic of a read out of range; its answer is the value of the
  plain matcher, and the encoder it leaves is the encoder it was called on, with no field
  changed. Each matcher is false whenever the range it refers to lies outside the input,
  for it is true exactly when the start lies inside the input (\<^verbatim>\<open>stringAt\<close>, \<^verbatim>\<open>stringAtEnd\<close>;
  for \<^verbatim>\<open>stringAtStart\<close> the start is position 0 of a non-empty input) and some candidate
  \<open>k\<close> of the list is found there, rune by rune, while no candidate up to and including
  \<open>k\<close> runs past the end of the input: a candidate that overruns ends the search with
  false. For \<^verbatim>\<open>stringAtEnd\<close> and \<^verbatim>\<open>stringExact\<close> the candidate found ends exactly at the end
  of the input, for \<^verbatim>\<open>stringEnd\<close> it is read from \<open>len(in) - len(v)\<close>, and \<^verbatim>\<open>stringContains\<close>
  holds exactly when the value has as many runes as bytes and occurs at some position
  where it fits.
\<close>

theorem matchers_bounds_safe:
  assumes "vals \<noteq> []"
  shows "stringAt_chk e offset vals = Some (stringAt e offset vals, e)
    \<and> stringAtStart_chk e offset vals = Some (stringAtStart e offset vals, e)
    \<and> stringAtEnd_chk e offset vals = Some (stringAtEnd e offset vals, e)
    \<and> stringExact_chk e vals = Some (stringExact e vals, e)
    \<and> stringEnd_chk e vals = Some (stringEnd e vals, e)
    \<and> stringContains_chk e val = Some (stringContains e val, e)
    \<and> (stringAt e offset vals \<longleftrightarrow>
         0 \<le> idx e + offset \<and> idx e + offset < int (length (inp e)) \<and>
         (\<exists>k<length vals.
            (\<forall>j\<le>k. idx e + offset + int (length (vals ! j)) \<le> int (length (inp e))) \<and>
            take (length (runes (vals ! k))) (drop (nat (idx e + offset)) (inp e)) =
              runes (vals ! k)))
    \<and> (stringAtStart e offset vals \<longleftrightarrow>
         idx e + offset = 0 \<and> inp e \<noteq> [] \<and>
         (\<exists>k<length vals. (\<forall>j\<le>k. length (vals ! j) \<le> length (inp e)) \<and>
            take (length (runes (vals ! k))) (inp e) = runes (vals ! k)))
    \<and> (stringAtEnd e offset vals \<longleftrightarrow>
         0 \<le> idx e + offset \<and> idx e + offset < int (length (inp e)) \<and>
         (\<exists>k<length vals.
            (\<forall>j\<le>k. idx e + offset + int (length (vals ! j)) \<le> int (length (inp e))) \<and>
            idx e + offset + int (length (vals ! k)) = int (length (inp e)) \<and>
            take (length (runes (vals ! k))) (drop (nat (idx e + offset)) (inp e)) =
              runes (vals ! k)))
    \<and> (stringExact e vals \<longleftrightarrow>
         (\<exists>k<length vals. (\<forall>j\<le>k. length (vals ! j) \<le> length (inp e)) \<and>
            length (vals ! k) = length (inp e) \<and>
            take (length (runes (vals ! k))) (inp e) = runes (vals ! k)))
    \<and> (stringEnd e vals \<longleftrightarrow>
         (\<exists>k<length vals. (\<forall>j\<le>k. length (vals ! j) \<le> length (inp e)) \<and>
            take (length (runes (vals ! k)))
              (drop (length (inp e) - length (vals ! k)) (inp e)) = runes (vals ! k)))
    \<and> (stringContains e val \<longleftrightarrow>
         length (runes val) = length val \<and>
         (\<exists>i. i + length val \<le> length (inp e) \<and>
            take (length val) (drop i (inp e)) = runes val))"
proof (intro conjI)
  show "stringAt_chk e offset vals = Some (stringAt e offset vals, e)"
    by (rule stringAt_chk_eq [OF assms])
  show "stringAtStart_chk e offset vals = Some (stringAtStart e offset vals, e)"
    by (simp add: stringAtStart_chk_def stringAtStart_def stringAt_chk_eq [OF assms])
  show "stringAtEnd_chk e offset vals = Some (stringAtEnd e offset vals, e)"
    by (rule stringAtEnd_chk_eq [OF assms])
  show "stringExact_chk e vals = Some (stringExact e vals, e)"
    by (simp add: stringExact_chk_def stringExact_def stringExactVals_chk_eq)
  show "stringEnd_chk e vals = Some (stringEnd e vals, e)"
    by (simp add: stringEnd_chk_def stringEnd_def stringEndVals_chk_eq)
  show "stringContains_chk e val = Some (stringContains e val, e)"
    by (rule stringContains_chk_eq)
qed (fact stringAt_iff [OF assms] stringAtStart_iff [OF assms] stringAtEnd_iff [OF assms]
    stringExact_iff stringEnd_iff stringContains_iff)+

definition testing :: Encoder where
  "testing = \<lparr>EncodeVowels = False, EncodeExact = False, MaxLength = 0, inp = runes ''TESTING'',
     idx = 0, lastIdx = 6, primBuf = [], secondBuf = [], flagAlInversion = False\<rparr>"

theorem matchers_bounds_safe_witness:
  "[''B'', ''TESTINGS''] \<noteq> []
    \<and> stringAt_chk testing 0 [''B'', ''TESTINGS''] = Some (False, testing)
    \<and> stringAt_chk testing 1 [''B'', ''E''] = Some (True, testing)
    \<and> stringAt_chk testing (- 1) [''B'', ''E''] = Some (False, testing)
    \<and> stringAt_chk testing 7 [[]] = Some (False, testing)
    \<and> stringAtEnd_chk testing 0 [''TESTINX'', ''TESTINGS''] = Some (False, testing)
    \<and> stringAtEnd_chk testing 4 [''ING'', ''INGS''] = Some (True, testing)
    \<and> stringEnd_chk testing [''A'', ''XTESTINGS''] = Some (False, testing)
    \<and> stringExact_chk testing [''TEST'', ''TESTING''] = Some (True, testing)
    \<and> stringContains_chk testing ''STI'' = Some (True, testing)"
proof -
  have a: "\<not> stringAt testing 0 [''B'', ''TESTINGS'']" "stringAt testing 1 [''B'', ''E'']"
    "\<not> stringAt testing (- 1) [''B'', ''E'']" "\<not> stringAt testing 7 [[]]"
    "\<not> stringAtEnd testing 0 [''TESTINX'', ''TESTINGS'']"
    "stringAtEnd testing 4 [''ING'', ''INGS'']"
    "\<not> stringEnd testing [''A'', ''XTESTINGS'']" "stringExact testing [''TEST'', ''TESTING'']"
    "stringContains testing ''STI''"
    by code_simp+
  show ?thesis
    using a matchers_bounds_safe [of "[''B'', ''TESTINGS'']" testing 0 "''STI''"]
      matchers_bounds_safe [of "[''B'', ''E'']" testing 1]
      matchers_bounds_safe [of "[''B'', ''E'']" testing "- 1"]
      matchers_bounds_safe [of "[[]]" testing 7]
      matchers_bounds_safe [of "[''TESTINX'', ''TESTINGS'']" testing 0]
      matchers_bounds_safe [of "[''ING'', ''INGS'']" testing 4]
      matchers_bounds_safe [of "[''A'', ''XTESTINGS'']" testing]
      matchers_bounds_safe [of "[''TEST'', ''TESTING'']" testing]
    by simp
qed
end
